theory Spec2Isabelle
  imports Complex_Main "HOL-Library.AList" "HOL-Library.Monad_Syntax"
begin
section \<open>Rate limiter (packages/psl-runtime/src/policy/rate-limit.ts)\<close>

text \<open>
  \<^verbatim>\<open>RateLimiter\<close> keeps a \<^verbatim>\<open>Map<string, RateLimitEntry>\<close>; the model passes it
  explicitly. \<^verbatim>\<open>Date.now()\<close> is an input: milliseconds since the epoch, an integer.
  \<^verbatim>\<open>consume\<close> reads the clock twice (once inside \<^verbatim>\<open>check\<close>, once after it), so
  the model of \<^verbatim>\<open>consume\<close> takes both readings. Counts and limits are integers.
\<close>

datatype Scope = ScopeUser | ScopeTenant | ScopeIp | ScopeGlobal

record RateLimitConfig =
  requestsPerMinute :: int
  burst :: "int option"
  scope :: Scope

record RateLimitResult =
  allowed :: bool
  remaining :: int
  resetAt :: int
  retryAfter :: "int option"

record RateLimitEntry =
  count :: int
  entryResetAt :: int

type_synonym RateLimitStore = "string \<rightharpoonup> RateLimitEntry"

definition windowMs :: int where
  "windowMs = 60000"

text \<open>\<^verbatim>\<open>this.config.burst || 0\<close>: an absent burst and a burst of 0 both give 0.\<close>

definition maxRequests :: "RateLimitConfig \<Rightarrow> int" where
  "maxRequests cfg = requestsPerMinute cfg + (case burst cfg of None \<Rightarrow> 0 | Some b \<Rightarrow> b)"

text \<open>
  \<^verbatim>\<open>Math.ceil(ms / 1000)\<close> on an integer number of milliseconds: the ceiling of the
  quotient.
\<close>

definition ceil_seconds :: "int \<Rightarrow> int" where
  "ceil_seconds ms = - ((- ms) div 1000)"

text \<open>The entry \<^verbatim>\<open>check\<close> works on: the stored one, or a fresh one when the window expired.\<close>

definition currentEntry :: "int \<Rightarrow> RateLimitEntry option \<Rightarrow> RateLimitEntry" where
  "currentEntry now e =
     (case e of
        None \<Rightarrow> \<lparr>count = 0, entryResetAt = now + windowMs\<rparr>
      | Some en \<Rightarrow>
          if now > entryResetAt en then \<lparr>count = 0, entryResetAt = now + windowMs\<rparr> else en)"

definition check :: "RateLimitConfig \<Rightarrow> int \<Rightarrow> string \<Rightarrow> RateLimitStore \<Rightarrow> RateLimitResult" where
  "check cfg now key store =
     (let entry = currentEntry now (store key);
          remaining = max 0 (maxRequests cfg - count entry)
      in if count entry \<ge> maxRequests cfg
         then \<lparr>allowed = False, remaining = 0, resetAt = entryResetAt entry,
               retryAfter = Some (ceil_seconds (entryResetAt entry - now))\<rparr>
         else \<lparr>allowed = True, remaining = remaining - 1, resetAt = entryResetAt entry,
               retryAfter = None\<rparr>)"

text \<open>
  \<^verbatim>\<open>consume\<close>: \<open>now\<close> is the clock reading inside \<^verbatim>\<open>check\<close>, \<open>now'\<close> the second
  reading taken when the request was allowed.
\<close>

definition consume ::
  "RateLimitConfig \<Rightarrow> int \<Rightarrow> int \<Rightarrow> string \<Rightarrow> RateLimitStore \<Rightarrow> RateLimitResult \<times> RateLimitStore" where
  "consume cfg now now' key store =
     (let result = check cfg now key store
      in if allowed result
         then (result,
               store(key \<mapsto>
                 (case store key of
                    None \<Rightarrow> \<lparr>count = 1, entryResetAt = now' + windowMs\<rparr>
                  | Some en \<Rightarrow>
                      if now' > entryResetAt en then \<lparr>count = 1, entryResetAt = now' + windowMs\<rparr>
                      else en\<lparr>count := count en + 1\<rparr>)))
         else (result, store))"

definition reset :: "string \<Rightarrow> RateLimitStore \<Rightarrow> RateLimitStore" where
  "reset key store = store(key := None)"

definition cleanup :: "int \<Rightarrow> RateLimitStore \<Rightarrow> RateLimitStore" where
  "cleanup now store =
     (\<lambda>k. case store k of None \<Rightarrow> None
                         | Some en \<Rightarrow> if now > entryResetAt en then None else Some en)"

text \<open>
  \<^verbatim>\<open>getKey\<close>: \<^verbatim>\<open>identifiers.userId || 'anonymous'\<close> takes the default for an absent and
  for an empty identifier.
\<close>

definition or_default :: "string option \<Rightarrow> string \<Rightarrow> string" where
  "or_default v d = (case v of None \<Rightarrow> d | Some s \<Rightarrow> if s = [] then d else s)"

record Identifiers =
  idUserId :: "string option"
  idTenantId :: "string option"
  idIp :: "string option"

fun getKey :: "Scope \<Rightarrow> Identifiers \<Rightarrow> string" where
  "getKey ScopeUser ids = ''rate:user:'' @ or_default (idUserId ids) ''anonymous''"
| "getKey ScopeTenant ids = ''rate:tenant:'' @ or_default (idTenantId ids) ''default''"
| "getKey ScopeIp ids = ''rate:ip:'' @ or_default (idIp ids) ''unknown''"
| "getKey ScopeGlobal ids = ''rate:global''"

text \<open>A run of \<^verbatim>\<open>consume\<close> calls on one key, each with its two clock readings.\<close>

fun consumeAll ::
  "RateLimitConfig \<Rightarrow> string \<Rightarrow> (int \<times> int) list \<Rightarrow> RateLimitStore
    \<Rightarrow> RateLimitResult list \<times> RateLimitStore" where
  "consumeAll cfg key [] store = ([], store)"
| "consumeAll cfg key ((now, now') # ts) store =
     (let (r, store') = consume cfg now now' key store;
          (rs, store'') = consumeAll cfg key ts store'
      in (r # rs, store''))"

section \<open>JavaScript strings\<close>

text \<open>
  A string is a list of characters with the code points U+0000 to U+00FF, the range of
  \<^typ>\<open>char\<close>; strings with other characters are outside the model.
  \<^verbatim>\<open>String.prototype.trim\<close> strips white space and line terminators: in this range TAB,
  LF, VT, FF, CR, the space and the no-break space U+00A0.
\<close>

definition is_ws :: "char \<Rightarrow> bool" where
  "is_ws c = (c \<in> set [CHR 0x09, CHR 0x0A, CHR 0x0B, CHR 0x0C, CHR 0x0D, CHR 0x20, CHR 0xA0])"

definition trim :: "string \<Rightarrow> string" where
  "trim s = rev (dropWhile is_ws (rev (dropWhile is_ws s)))"

definition startsWith :: "string \<Rightarrow> string \<Rightarrow> bool" where
  "startsWith s p = (take (length p) s = p)"

definition endsWith :: "string \<Rightarrow> string \<Rightarrow> bool" where
  "endsWith s p = (length p \<le> length s \<and> drop (length s - length p) s = p)"

fun str_includes :: "string \<Rightarrow> string \<Rightarrow> bool" where
  "str_includes [] p = (p = [])"
| "str_includes (c # cs) p = (startsWith (c # cs) p \<or> str_includes cs p)"

function str_split :: "string \<Rightarrow> string \<Rightarrow> string list" where
  "str_split [] sep = [[]]"
| "str_split (c # cs) sep =
     (if sep \<noteq> [] \<and> startsWith (c # cs) sep
      then [] # str_split (drop (length sep) (c # cs)) sep
      else (case str_split cs sep of [] \<Rightarrow> [[c]] | p # ps \<Rightarrow> (c # p) # ps))"
  by pat_completeness auto
termination
  by (relation "measure (\<lambda>(s, sep). length s)") (auto simp: startsWith_def)

fun replace_first :: "string \<Rightarrow> string \<Rightarrow> string \<Rightarrow> string" where
  "replace_first [] pat rep = (if pat = [] then rep else [])"
| "replace_first (c # cs) pat rep =
     (if startsWith (c # cs) pat then rep @ drop (length pat) (c # cs)
      else c # replace_first cs pat rep)"

definition slice_1_m1 :: "string \<Rightarrow> string" where
  "slice_1_m1 s = butlast (tl s)"

definition is_digit :: "char \<Rightarrow> bool" where
  "is_digit c = (c \<in> set ''0123456789'')"

definition is_number_literal :: "string \<Rightarrow> bool" where
  "is_number_literal s =
     (let body = (if startsWith s ''-'' then tl s else s);
          ds = takeWhile is_digit body;
          rest = dropWhile is_digit body
      in ds \<noteq> [] \<and>
         (rest = [] \<or> (hd rest = CHR ''.'' \<and> tl rest \<noteq> [] \<and> list_all is_digit (tl rest))))"

definition strip_quotes :: "string \<Rightarrow> string" where
  "strip_quotes s =
     (let s1 = (if s \<noteq> [] \<and> hd s \<in> set [CHR 0x27, CHR 0x22] then tl s else s)
      in if s1 \<noteq> [] \<and> last s1 \<in> set [CHR 0x27, CHR 0x22] then butlast s1 else s1)"

lemma startsWith_length: "startsWith s p \<Longrightarrow> length p \<le> length s"
proof -
  assume "startsWith s p"
  then have "length (take (length p) s) = length p" by (simp add: startsWith_def)
  then show ?thesis by simp
qed

lemma length_trim: "length (trim s) \<le> length s"
proof -
  have "length (trim s) \<le> length (dropWhile is_ws s)"
    unfolding trim_def using length_dropWhile_le[of is_ws "rev (dropWhile is_ws s)"] by simp
  also have "\<dots> \<le> length s" by (rule length_dropWhile_le)
  finally show ?thesis .
qed

lemma split_not_Nil: "str_split s sep \<noteq> []"
  by (induction s sep rule: str_split.induct) (auto split: list.splits)

lemma split_total_length:
  "sum_list (map length (str_split s sep)) + (length (str_split s sep) - 1) * length sep = length s"
proof (induction s sep rule: str_split.induct)
  case (1 sep)
  then show ?case by simp
next
  case (2 c cs sep)
  show ?case
  proof (cases "sep \<noteq> [] \<and> startsWith (c # cs) sep")
    case True
    then have le: "length sep \<le> length (c # cs)"
      using startsWith_length[of "c # cs" sep] by simp
    from 2(1)[OF True] True le split_not_Nil[of "drop (length sep) (c # cs)" sep]
    show ?thesis by (cases "str_split (drop (length sep) (c # cs)) sep") (auto simp del: str_split.simps simp add: str_split.simps(2)[of c cs sep])
  next
    case False
    from 2(2)[OF False] False split_not_Nil[of cs sep]
    show ?thesis by (cases "str_split cs sep") (auto simp del: str_split.simps simp add: str_split.simps(2)[of c cs sep])
  qed
qed

lemma split_two_parts: "sep \<noteq> [] \<Longrightarrow> str_includes s sep \<Longrightarrow> 2 \<le> length (str_split s sep)"
proof (induction s sep rule: str_split.induct)
  case (1 sep)
  then show ?case by simp
next
  case (2 c cs sep)
  show ?case
  proof (cases "startsWith (c # cs) sep")
    case True
    with 2(3) split_not_Nil[of "drop (length sep) (c # cs)" sep] show ?thesis
      by (cases "str_split (drop (length sep) (c # cs)) sep") auto
  next
    case False
    with 2(4) have "str_includes cs sep" by simp
    with 2(2) False 2(3) have "2 \<le> length (str_split cs sep)" by simp
    with False show ?thesis by (cases "str_split cs sep") auto
  qed
qed

lemma split_part_shorter:
  assumes "sep \<noteq> []" "str_includes s sep" "p \<in> set (str_split s sep)"
  shows "length p < length s"
proof -
  have "length p \<le> sum_list (map length (str_split s sep))"
    using assms(3) by (simp add: member_le_sum_list)
  moreover have "length sep \<le> (length (str_split s sep) - 1) * length sep"
    using split_two_parts[OF assms(1,2)] by (cases "length (str_split s sep) - 1") auto
  moreover have "0 < length sep" using assms(1) by simp
  ultimately show ?thesis using split_total_length[of s sep] by linarith
qed

text \<open>Decimal digits of a natural number (the fuel bounds the number of digits).\<close>

fun show_digits :: "nat \<Rightarrow> nat \<Rightarrow> string" where
  "show_digits 0 n = []"
| "show_digits (Suc k) n =
     (if n < 10 then [char_of (48 + n)]
      else show_digits k (n div 10) @ [char_of (48 + n mod 10)])"

definition show_nat :: "nat \<Rightarrow> string" where
  "show_nat n = show_digits (Suc n) n"

section \<open>Condition expressions (conditions.ts)\<close>

datatype js_error = TypeError

datatype 'n jsval =
    VUndefined | VNull | VBool bool | VNum 'n | VStr string
  | VArr "'n jsval list" | VObj "(string \<times> 'n jsval) list" | VFunction string

record 'n runtime =
  rt_parseFloat :: "string \<Rightarrow> 'n"
  rt_Number :: "'n jsval \<Rightarrow> 'n"
  rt_String :: "'n jsval \<Rightarrow> string"
  rt_lt :: "'n \<Rightarrow> 'n \<Rightarrow> bool"
  rt_le :: "'n \<Rightarrow> 'n \<Rightarrow> bool"
  rt_eq :: "'n \<Rightarrow> 'n \<Rightarrow> bool"
  rt_sameValueZero :: "'n \<Rightarrow> 'n \<Rightarrow> bool"
  rt_truthy :: "'n \<Rightarrow> bool"
  rt_sameObject :: "'n jsval \<Rightarrow> 'n jsval \<Rightarrow> bool"
  rt_member :: "'n jsval \<Rightarrow> string \<Rightarrow> 'n jsval"

record 'n ConditionContext =
  cc_user :: "(string \<times> 'n jsval) list"
  cc_resource :: "(string \<times> 'n jsval) list"
  cc_request :: "(string \<times> 'n jsval) list"

definition ctxObject :: "'n ConditionContext \<Rightarrow> 'n jsval" where
  "ctxObject ctx =
     VObj [(''user'', VObj (cc_user ctx)), (''resource'', VObj (cc_resource ctx)),
           (''request'', VObj (cc_request ctx))]"

fun is_nullish :: "'n jsval \<Rightarrow> bool" where
  "is_nullish VUndefined = True"
| "is_nullish VNull = True"
| "is_nullish _ = False"

fun is_object :: "'n jsval \<Rightarrow> bool" where
  "is_object (VArr _) = True"
| "is_object (VObj _) = True"
| "is_object (VFunction _) = True"
| "is_object _ = False"

fun strictEquals :: "'n runtime \<Rightarrow> 'n jsval \<Rightarrow> 'n jsval \<Rightarrow> bool" where
  "strictEquals rt VUndefined VUndefined = True"
| "strictEquals rt VNull VNull = True"
| "strictEquals rt (VBool x) (VBool y) = (x = y)"
| "strictEquals rt (VNum x) (VNum y) = rt_eq rt x y"
| "strictEquals rt (VStr x) (VStr y) = (x = y)"
| "strictEquals rt a b = (is_object a \<and> is_object b \<and> rt_sameObject rt a b)"

fun sameValueZero :: "'n runtime \<Rightarrow> 'n jsval \<Rightarrow> 'n jsval \<Rightarrow> bool" where
  "sameValueZero rt VUndefined VUndefined = True"
| "sameValueZero rt VNull VNull = True"
| "sameValueZero rt (VBool x) (VBool y) = (x = y)"
| "sameValueZero rt (VNum x) (VNum y) = rt_sameValueZero rt x y"
| "sameValueZero rt (VStr x) (VStr y) = (x = y)"
| "sameValueZero rt a b = (is_object a \<and> is_object b \<and> rt_sameObject rt a b)"

fun truthy :: "'n runtime \<Rightarrow> 'n jsval \<Rightarrow> bool" where
  "truthy rt VUndefined = False"
| "truthy rt VNull = False"
| "truthy rt (VBool b) = b"
| "truthy rt (VNum n) = rt_truthy rt n"
| "truthy rt (VStr s) = (s \<noteq> [])"
| "truthy rt _ = True"

fun toNumber :: "'n runtime \<Rightarrow> 'n jsval \<Rightarrow> 'n" where
  "toNumber rt (VNum n) = n"
| "toNumber rt v = rt_Number rt v"

fun toString :: "'n runtime \<Rightarrow> 'n jsval \<Rightarrow> string" where
  "toString rt (VStr s) = s"
| "toString rt VUndefined = ''undefined''"
| "toString rt VNull = ''null''"
| "toString rt (VBool b) = (if b then ''true'' else ''false'')"
| "toString rt v = rt_String rt v"

fun getProp :: "'n runtime \<Rightarrow> 'n jsval \<Rightarrow> string \<Rightarrow> js_error + 'n jsval" where
  "getProp rt VUndefined k = Inl TypeError"
| "getProp rt VNull k = Inl TypeError"
| "getProp rt (VObj kvs) k =
     (case map_of kvs k of Some x \<Rightarrow> Inr x | None \<Rightarrow> Inr (rt_member rt (VObj kvs) k))"
| "getProp rt v k = Inr (rt_member rt v k)"

fun resolvePath :: "'n runtime \<Rightarrow> 'n jsval \<Rightarrow> string list \<Rightarrow> js_error + 'n jsval" where
  "resolvePath rt v [] = Inr v"
| "resolvePath rt v (part # parts) =
     (if is_nullish v then Inr VUndefined
      else case getProp rt v part of
             Inl e \<Rightarrow> Inl e
           | Inr v' \<Rightarrow> resolvePath rt v' parts)"

fun resolveValue :: "'n runtime \<Rightarrow> string option \<Rightarrow> 'n ConditionContext \<Rightarrow> js_error + 'n jsval" where
  "resolveValue rt None ctx = Inl TypeError"
| "resolveValue rt (Some expr) ctx =
     (let trimmed = trim expr in
      if (startsWith trimmed [CHR 0x27] \<and> endsWith trimmed [CHR 0x27]) \<or>
         (startsWith trimmed [CHR 0x22] \<and> endsWith trimmed [CHR 0x22])
      then Inr (VStr (slice_1_m1 trimmed))
      else if is_number_literal trimmed then Inr (VNum (rt_parseFloat rt trimmed))
      else if trimmed = ''true'' then Inr (VBool True)
      else if trimmed = ''false'' then Inr (VBool False)
      else if trimmed = ''null'' then Inr VNull
      else if startsWith trimmed ''('' \<and> endsWith trimmed '')'' then Inr (VStr trimmed)
      else resolvePath rt (ctxObject ctx) (str_split trimmed ''.''))"

definition compareValues :: "'n runtime \<Rightarrow> 'n jsval \<Rightarrow> 'n jsval \<Rightarrow> string \<Rightarrow> bool" where
  "compareValues rt left right op =
     (if op = ''='' then strictEquals rt left right
      else if op = ''!='' then \<not> strictEquals rt left right
      else if op = ''<'' then rt_lt rt (toNumber rt left) (toNumber rt right)
      else if op = ''>'' then rt_lt rt (toNumber rt right) (toNumber rt left)
      else if op = ''<='' then rt_le rt (toNumber rt left) (toNumber rt right)
      else if op = ''>='' then rt_le rt (toNumber rt right) (toNumber rt left)
      else False)"

definition nth_opt :: "'a list \<Rightarrow> nat \<Rightarrow> 'a option" where
  "nth_opt xs i = (if i < length xs then Some (xs ! i) else None)"

definition operators :: "string list" where
  "operators = [''!='', ''<='', ''>='', ''='', ''<'', ''>'']"

definition inList :: "'n runtime \<Rightarrow> 'n jsval \<Rightarrow> 'n jsval \<Rightarrow> bool" where
  "inList rt leftValue rightValue =
     (case rightValue of
        VArr xs \<Rightarrow> list_ex (sameValueZero rt leftValue) xs
      | VStr s \<Rightarrow>
          if startsWith s ''(''
          then toString rt leftValue
                 \<in> set (map (\<lambda>s. strip_quotes (trim s)) (str_split (slice_1_m1 s) '',''))
          else False
      | _ \<Rightarrow> False)"

definition resolveBoth ::
  "'n runtime \<Rightarrow> string \<Rightarrow> string \<Rightarrow> 'n ConditionContext
    \<Rightarrow> ('n jsval \<Rightarrow> 'n jsval \<Rightarrow> bool) \<Rightarrow> js_error + bool" where
  "resolveBoth rt expr sep ctx f =
     (let parts = map trim (str_split expr sep) in
      case resolveValue rt (nth_opt parts 0) ctx of
        Inl e \<Rightarrow> Inl e
      | Inr leftValue \<Rightarrow>
          (case resolveValue rt (nth_opt parts 1) ctx of
             Inl e \<Rightarrow> Inl e
           | Inr rightValue \<Rightarrow> Inr (f leftValue rightValue)))"

definition evaluateAtom :: "'n runtime \<Rightarrow> string \<Rightarrow> 'n ConditionContext \<Rightarrow> js_error + bool" where
  "evaluateAtom rt expr ctx =
     (if str_includes expr '' IS NOT NULL'' then
        (case resolveValue rt (Some (trim (replace_first expr '' IS NOT NULL'' []))) ctx of
           Inl e \<Rightarrow> Inl e
         | Inr v \<Rightarrow> Inr (\<not> is_nullish v))
      else if str_includes expr '' IS NULL'' then
        (case resolveValue rt (Some (trim (replace_first expr '' IS NULL'' []))) ctx of
           Inl e \<Rightarrow> Inl e
         | Inr v \<Rightarrow> Inr (is_nullish v))
      else if str_includes expr '' IN '' then
        resolveBoth rt expr '' IN '' ctx (inList rt)
      else
        (case find (\<lambda>op. str_includes expr ('' '' @ op @ '' '')) operators of
           Some op \<Rightarrow>
             resolveBoth rt expr ('' '' @ op @ '' '') ctx (\<lambda>l r. compareValues rt l r op)
         | None \<Rightarrow>
             (case resolveValue rt (Some expr) ctx of
                Inl e \<Rightarrow> Inl e
              | Inr v \<Rightarrow> Inr (truthy rt v))))"

definition catch_false :: "js_error + bool \<Rightarrow> bool" where
  "catch_false r = (case r of Inl e \<Rightarrow> False | Inr b \<Rightarrow> b)"

function evaluateCondition_try ::
  "'n runtime \<Rightarrow> string \<Rightarrow> 'n ConditionContext \<Rightarrow> js_error + bool" where
  "evaluateCondition_try rt expression ctx =
     (let expr = trim expression in
      if str_includes expr '' AND '' then
        Inr (list_all (\<lambda>part. catch_false (evaluateCondition_try rt (trim part) ctx))
               (str_split expr '' AND ''))
      else if str_includes expr '' OR '' then
        Inr (list_ex (\<lambda>part. catch_false (evaluateCondition_try rt (trim part) ctx))
               (str_split expr '' OR ''))
      else if startsWith expr ''NOT '' then
        Inr (\<not> catch_false (evaluateCondition_try rt (trim (drop 4 expr)) ctx))
      else evaluateAtom rt expr ctx)"
  by pat_completeness auto

termination
proof (relation "measure (\<lambda>(rt, e, ctx). length e)", goal_cases)
  case 1
  show ?case by simp
next
  case (2 rt expression ctx expr part)
  then have "length part < length (trim expression)"
    using split_part_shorter[of "'' AND ''" "trim expression" part] by simp
  then show ?case
    using length_trim[of part] length_trim[of expression] by simp
next
  case (3 rt expression ctx expr part)
  then have "length part < length (trim expression)"
    using split_part_shorter[of "'' OR ''" "trim expression" part] by simp
  then show ?case
    using length_trim[of part] length_trim[of expression] by simp
next
  case (4 rt expression ctx expr)
  then have "4 \<le> length (trim expression)"
    using startsWith_length[of "trim expression" "''NOT ''"] by simp
  then show ?case
    using 4 length_trim[of "drop 4 (trim expression)"] length_trim[of expression] by simp
qed

declare evaluateCondition_try.simps [simp del]

definition evaluateCondition :: "'n runtime \<Rightarrow> string \<Rightarrow> 'n ConditionContext \<Rightarrow> bool" where
  "evaluateCondition rt expression ctx = catch_false (evaluateCondition_try rt expression ctx)"

section \<open>Members inherited from \<^verbatim>\<open>Object.prototype\<close>\<close>

text \<open>
  A plain JavaScript object (an object literal, an object built by the YAML loader) has
  \<^verbatim>\<open>Object.prototype\<close> as its prototype. Reading \<^verbatim>\<open>obj[key]\<close> or testing
  \<^verbatim>\<open>key in obj\<close> for a key that is not an own property finds these members.
\<close>

definition Object_prototype_keys :: "string list" where
  "Object_prototype_keys =
     [''constructor'', ''__defineGetter__'', ''__defineSetter__'', ''hasOwnProperty'',
      ''__lookupGetter__'', ''__lookupSetter__'', ''isPrototypeOf'', ''propertyIsEnumerable'',
      ''toString'', ''valueOf'', ''__proto__'', ''toLocaleString'']"

section \<open>Policy engine (engine.ts)\<close>

record 'n PolicyContext =
  userId :: "string option"
  tenantId :: "string option"
  roles :: "string list"
  resource :: "string option"
  action :: "string option"
  resourceData :: "(string \<times> 'n jsval) list option"
  requestData :: "(string \<times> 'n jsval) list option"

record PolicyResult =
  pr_allowed :: bool
  pr_reason :: "string option"
  pr_filters :: "string list option"

datatype Effect = Allow | Deny

datatype ConditionType = allow_if | deny_if | require

record Condition =
  cond_type :: ConditionType
  cond_expression :: string
  cond_message :: "string option"

record PolicyRule =
  rule_name :: string
  rule_resource :: string
  rule_action :: "string option"
  rule_effect :: Effect
  rule_conditions :: "Condition list option"
  rule_filter :: "string option"
  rule_priority :: "int option"

record RoleDefinition =
  role_name :: string
  role_inherits :: "string list option"
  role_permissions :: "string list option"
  role_can :: "string list option"

record PolicyEngine =
  policies :: "PolicyRule list"
  engine_roles :: "(string \<times> RoleDefinition) list"

definition or_empty :: "'a list option \<Rightarrow> 'a list" where
  "or_empty v = (case v of None \<Rightarrow> [] | Some xs \<Rightarrow> xs)"

definition priority_or_0 :: "PolicyRule \<Rightarrow> int" where
  "priority_or_0 p = (case rule_priority p of None \<Rightarrow> 0 | Some n \<Rightarrow> n)"

definition sortByPriority :: "PolicyRule list \<Rightarrow> PolicyRule list" where
  "sortByPriority ps = sort_key (\<lambda>p. - priority_or_0 p) ps"

definition newPolicyEngine ::
  "PolicyRule list option \<Rightarrow> (string \<times> RoleDefinition) list option \<Rightarrow> PolicyEngine" where
  "newPolicyEngine cfg_policies cfg_roles =
     \<lparr>policies = (case cfg_policies of None \<Rightarrow> [] | Some ps \<Rightarrow> sortByPriority ps),
      engine_roles = fold (\<lambda>(name, role) m. AList.update name role m) (or_empty cfg_roles) []\<rparr>"

definition addPolicy :: "PolicyRule \<Rightarrow> PolicyEngine \<Rightarrow> PolicyEngine" where
  "addPolicy policy eng = eng\<lparr>policies := sortByPriority (policies eng @ [policy])\<rparr>"

definition addRole :: "string \<Rightarrow> RoleDefinition \<Rightarrow> PolicyEngine \<Rightarrow> PolicyEngine" where
  "addRole name role eng = eng\<lparr>engine_roles := AList.update name role (engine_roles eng)\<rparr>"

definition set_add :: "'a \<Rightarrow> 'a list \<Rightarrow> 'a list" where
  "set_add x xs = (if x \<in> set xs then xs else xs @ [x])"

definition add_all :: "'a list \<Rightarrow> 'a list \<Rightarrow> 'a list" where
  "add_all xs s = fold set_add xs s"

function processRole ::
    "(string \<times> RoleDefinition) list \<Rightarrow> string \<Rightarrow> string list \<times> string list
      \<Rightarrow> string list \<times> string list"
  and processRoles ::
    "(string \<times> RoleDefinition) list \<Rightarrow> string list \<Rightarrow> string list \<times> string list
      \<Rightarrow> string list \<times> string list" where
  "processRole rs roleName (visited, permissions) =
     (if roleName \<in> set visited then (visited, permissions)
      else
        (case map_of rs roleName of
           None \<Rightarrow> (visited @ [roleName], permissions)
         | Some role \<Rightarrow>
             processRoles rs (or_empty (role_inherits role))
               (visited @ [roleName],
                add_all (or_empty (role_can role))
                  (add_all (or_empty (role_permissions role)) permissions))))"
| "processRoles rs [] st = st"
| "processRoles rs (roleName # roleNames) st =
     processRoles rs roleNames (processRole rs roleName st)"
  by pat_completeness auto

lemma processRole_visited_grows:
  "processRole_processRoles_dom (Inl (rs, roleName, st))
     \<Longrightarrow> set (fst st) \<subseteq> set (fst (processRole rs roleName st))"
  "processRole_processRoles_dom (Inr (rs, roleNames, st))
     \<Longrightarrow> set (fst st) \<subseteq> set (fst (processRoles rs roleNames st))"
  by (induct rule: processRole_processRoles.pinduct)
     (auto simp: processRole.psimps processRoles.psimps split: option.splits)

termination processRole
proof (relation "inv_image (less_than <*lex*> less_than)
    (\<lambda>x. case x of
       Inl (rs, roleName, st) \<Rightarrow> (card (set (map fst rs) - set (fst st)), 0)
     | Inr (rs, roleNames, st) \<Rightarrow> (card (set (map fst rs) - set (fst st)), Suc (length roleNames)))",
    goal_cases)
  case 1
  show ?case by (intro wf_inv_image wf_lex_prod wf_less_than)
next
  case (2 rs roleName visited permissions role)
  then have "roleName \<in> set (map fst rs)"
    using map_of_SomeD[of rs roleName role] by force
  then have "card (set (map fst rs) - set (visited @ [roleName]))
               < card (set (map fst rs) - set visited)"
    using 2 by (intro psubset_card_mono) auto
  then show ?case by simp
next
  case (3 rs roleName roleNames st)
  show ?case by simp
next
  case (4 rs roleName roleNames st)
  have "set (fst st) \<subseteq> set (fst (processRole rs roleName st))"
    using 4 by (rule processRole_visited_grows)
  then have "card (set (map fst rs) - set (fst (processRole rs roleName st)))
               \<le> card (set (map fst rs) - set (fst st))"
    by (intro card_mono) auto
  then show ?case by auto
qed

definition getEffectivePermissions ::
  "(string \<times> RoleDefinition) list \<Rightarrow> string list \<Rightarrow> string list" where
  "getEffectivePermissions rs roleNames = snd (processRoles rs roleNames ([], []))"

definition checkRolePermissions :: "PolicyEngine \<Rightarrow> string list \<Rightarrow> string \<Rightarrow> bool" where
  "checkRolePermissions eng roleNames act =
     (let effectivePermissions = getEffectivePermissions (engine_roles eng) roleNames
      in act \<in> set effectivePermissions \<or> ''*'' \<in> set effectivePermissions)"

definition applicable :: "'n PolicyContext \<Rightarrow> PolicyRule \<Rightarrow> bool" where
  "applicable ctx p =
     ((rule_resource p = ''*'' \<or> resource ctx = Some (rule_resource p)) \<and>
      (case rule_action p of
         None \<Rightarrow> True
       | Some a \<Rightarrow> a = [] \<or> a = ''*'' \<or> action ctx = Some a))"

definition opt_str :: "string option \<Rightarrow> 'n jsval" where
  "opt_str v = (case v of None \<Rightarrow> VUndefined | Some s \<Rightarrow> VStr s)"

definition conditionCtx :: "'n PolicyContext \<Rightarrow> 'n ConditionContext" where
  "conditionCtx ctx =
     \<lparr>cc_user = [(''id'', opt_str (userId ctx)), (''tenant_id'', opt_str (tenantId ctx)),
                 (''roles'', VArr (map VStr (roles ctx)))],
      cc_resource = or_empty (resourceData ctx),
      cc_request = or_empty (requestData ctx)\<rparr>"

record EvalState =
  filters :: "string list"
  explicitAllow :: bool
  explicitDeny :: bool
  denyReason :: string

definition initialState :: EvalState where
  "initialState = \<lparr>filters = [], explicitAllow = False, explicitDeny = False, denyReason = []\<rparr>"

definition applyCondition ::
  "'n runtime \<Rightarrow> 'n ConditionContext \<Rightarrow> PolicyRule \<Rightarrow> Condition \<Rightarrow> bool \<times> EvalState
    \<Rightarrow> bool \<times> EvalState" where
  "applyCondition rt cctx policy condition = (\<lambda>(conditionsPassed, st).
     (let result = evaluateCondition rt (cond_expression condition) cctx in
      case cond_type condition of
        deny_if \<Rightarrow>
          if result
          then (False, st\<lparr>explicitDeny := True,
                         denyReason := or_default (cond_message condition) (rule_name policy)\<rparr>)
          else (conditionsPassed, st)
      | allow_if \<Rightarrow>
          if \<not> result then (False, st) else (conditionsPassed, st)
      | require \<Rightarrow>
          if \<not> result
          then (False, st\<lparr>explicitDeny := True,
                         denyReason := or_default (cond_message condition)
                                         (''Requirement not met: '' @ rule_name policy)\<rparr>)
          else (conditionsPassed, st)))"

fun evalConditions ::
  "'n runtime \<Rightarrow> 'n ConditionContext \<Rightarrow> PolicyRule \<Rightarrow> Condition list \<Rightarrow> bool \<times> EvalState
    \<Rightarrow> bool \<times> EvalState" where
  "evalConditions rt cctx policy [] acc = acc"
| "evalConditions rt cctx policy (condition # rest) acc =
     (let acc' = applyCondition rt cctx policy condition acc
      in if explicitDeny (snd acc') then acc'
         else evalConditions rt cctx policy rest acc')"

definition applyEffect :: "PolicyRule \<Rightarrow> EvalState \<Rightarrow> EvalState" where
  "applyEffect policy st =
     (case rule_effect policy of
        Allow \<Rightarrow>
          st\<lparr>explicitAllow := True,
             filters := (case rule_filter policy of
                           None \<Rightarrow> filters st
                         | Some f \<Rightarrow> if f = [] then filters st else filters st @ [f])\<rparr>
      | Deny \<Rightarrow> st\<lparr>explicitDeny := True, denyReason := rule_name policy\<rparr>)"

fun evalPolicies ::
  "'n runtime \<Rightarrow> 'n ConditionContext \<Rightarrow> PolicyRule list \<Rightarrow> EvalState \<Rightarrow> EvalState" where
  "evalPolicies rt cctx [] st = st"
| "evalPolicies rt cctx (policy # rest) st =
     (let (conditionsPassed, st') =
            evalConditions rt cctx policy (or_empty (rule_conditions policy)) (True, st)
      in if explicitDeny st' then st'
         else evalPolicies rt cctx rest
                (if conditionsPassed then applyEffect policy st' else st'))"

definition rbacDenied :: "PolicyEngine \<Rightarrow> 'n PolicyContext \<Rightarrow> string option" where
  "rbacDenied eng ctx =
     (case action ctx of
        None \<Rightarrow> None
      | Some a \<Rightarrow> if a \<noteq> [] \<and> \<not> checkRolePermissions eng (roles ctx) a then Some a else None)"

definition evaluate :: "'n runtime \<Rightarrow> PolicyEngine \<Rightarrow> 'n PolicyContext \<Rightarrow> PolicyResult" where
  "evaluate rt eng ctx =
     (if ''admin'' \<in> set (roles ctx) \<or> ''super_admin'' \<in> set (roles ctx)
      then \<lparr>pr_allowed = True, pr_reason = Some ''Admin role'', pr_filters = None\<rparr>
      else case rbacDenied eng ctx of
        Some a \<Rightarrow>
          \<lparr>pr_allowed = False, pr_reason = Some (''No role permission for action: '' @ a),
           pr_filters = None\<rparr>
      | None \<Rightarrow>
        (let applicablePolicies = filter (applicable ctx) (policies eng);
             st = evalPolicies rt (conditionCtx ctx) applicablePolicies initialState
         in if explicitDeny st
            then \<lparr>pr_allowed = False, pr_reason = Some (denyReason st), pr_filters = None\<rparr>
            else if explicitAllow st \<or> applicablePolicies = []
            then \<lparr>pr_allowed = True, pr_reason = None, pr_filters = Some (filters st)\<rparr>
            else \<lparr>pr_allowed = False, pr_reason = Some ''No matching allow policy'',
                  pr_filters = None\<rparr>))"

section \<open>A runtime for running examples\<close>

text \<open>
  The theorems below hold for every \<open>'n runtime\<close>. To evaluate the model on concrete
  inputs one runtime is fixed here. It is used at the inputs of the examples only and is
  not a model of the whole JavaScript runtime:
  \<^item> numbers are exact decimals, \<open>None\<close> is NaN; \<^verbatim>\<open>Number\<close> and \<^verbatim>\<open>parseFloat\<close> read the
    strings of the form \<^verbatim>\<open>-?\d+(\.\d+)?\<close> (no exponent, no hexadecimal literal, no
    \<^verbatim>\<open>Infinity\<close>) and do not round to the nearest double;
  \<^item> arrays and strings have their \<^verbatim>\<open>length\<close> and their elements at the indices, plain
    objects the members they inherit from \<^verbatim>\<open>Object.prototype\<close>, as built-in functions; the
    members inherited from the other prototypes are left out;
  \<^item> values carry no identity: two objects are never the same object.
\<close>

definition digits_value :: "string \<Rightarrow> nat" where
  "digits_value s = foldl (\<lambda>a c. 10 * a + (of_char c - 48)) 0 s"

definition parse_decimal :: "string \<Rightarrow> rat" where
  "parse_decimal s =
     (let neg = startsWith s ''-'';
          body = (if neg then tl s else s);
          ip = takeWhile is_digit body;
          fp = drop 1 (dropWhile is_digit body);
          v = of_nat (digits_value ip) + of_nat (digits_value fp) / 10 ^ length fp
      in if neg then - v else v)"

fun frac_digits :: "nat \<Rightarrow> rat \<Rightarrow> string" where
  "frac_digits 0 r = []"
| "frac_digits (Suc k) r =
     (if r = 0 then []
      else char_of (48 + nat \<lfloor>r * 10\<rfloor>) # frac_digits k (r * 10 - of_int \<lfloor>r * 10\<rfloor>))"

definition show_decimal :: "rat \<Rightarrow> string" where
  "show_decimal q =
     (let a = \<bar>q\<bar>; f = a - of_int \<lfloor>a\<rfloor>
      in (if q < 0 then ''-'' else []) @ show_nat (nat \<lfloor>a\<rfloor>)
         @ (if f = 0 then [] else ''.'' @ frac_digits 17 f))"

definition string_to_number :: "string \<Rightarrow> rat option" where
  "string_to_number s =
     (if trim s = [] then Some 0
      else if is_number_literal (trim s) then Some (parse_decimal (trim s))
      else None)"

text \<open>
  \<^verbatim>\<open>String(v)\<close>; an array is the join of its elements with a comma, \<^verbatim>\<open>null\<close> and
  \<^verbatim>\<open>undefined\<close> elements being empty.
\<close>

fun example_String :: "rat option jsval \<Rightarrow> string"
  and example_join :: "rat option jsval list \<Rightarrow> string" where
  "example_String VUndefined = ''undefined''"
| "example_String VNull = ''null''"
| "example_String (VBool b) = (if b then ''true'' else ''false'')"
| "example_String (VNum None) = ''NaN''"
| "example_String (VNum (Some q)) = show_decimal q"
| "example_String (VStr s) = s"
| "example_String (VArr xs) = example_join xs"
| "example_String (VObj kvs) = ''[object Object]''"
| "example_String (VFunction f) = ''function '' @ f @ ''() { [native code] }''"
| "example_join [] = []"
| "example_join [x] = (if is_nullish x then [] else example_String x)"
| "example_join (x # y # ys) =
     (if is_nullish x then [] else example_String x) @ '','' @ example_join (y # ys)"

definition example_Number :: "rat option jsval \<Rightarrow> rat option" where
  "example_Number v =
     (case v of
        VNum n \<Rightarrow> n
      | VBool b \<Rightarrow> Some (if b then 1 else 0)
      | VNull \<Rightarrow> Some 0
      | VStr s \<Rightarrow> string_to_number s
      | VArr xs \<Rightarrow> string_to_number (example_join xs)
      | _ \<Rightarrow> None)"

definition index_of :: "string \<Rightarrow> nat \<Rightarrow> nat option" where
  "index_of k n = find (\<lambda>i. show_nat i = k) [0..<n]"

definition example_member :: "rat option jsval \<Rightarrow> string \<Rightarrow> rat option jsval" where
  "example_member v k =
     (case v of
        VArr xs \<Rightarrow>
          if k = ''length'' then VNum (Some (of_nat (length xs)))
          else (case index_of k (length xs) of Some i \<Rightarrow> xs ! i | None \<Rightarrow> VUndefined)
      | VStr s \<Rightarrow>
          if k = ''length'' then VNum (Some (of_nat (length s)))
          else (case index_of k (length s) of Some i \<Rightarrow> VStr [s ! i] | None \<Rightarrow> VUndefined)
      | VObj kvs \<Rightarrow> if k \<in> set Object_prototype_keys then VFunction k else VUndefined
      | _ \<Rightarrow> VUndefined)"

definition example_runtime :: "rat option runtime" where
  "example_runtime =
     \<lparr>rt_parseFloat = (\<lambda>s. Some (parse_decimal s)),
      rt_Number = example_Number,
      rt_String = example_String,
      rt_lt = (\<lambda>a b. case (a, b) of (Some x, Some y) \<Rightarrow> x < y | _ \<Rightarrow> False),
      rt_le = (\<lambda>a b. case (a, b) of (Some x, Some y) \<Rightarrow> x \<le> y | _ \<Rightarrow> False),
      rt_eq = (\<lambda>a b. case (a, b) of (Some x, Some y) \<Rightarrow> x = y | _ \<Rightarrow> False),
      rt_sameValueZero = (\<lambda>a b. a = b),
      rt_truthy = (\<lambda>a. case a of None \<Rightarrow> False | Some x \<Rightarrow> x \<noteq> 0),
      rt_sameObject = (\<lambda>a b. False),
      rt_member = example_member\<rparr>"

section \<open>JSON values and \<^verbatim>\<open>JSON.stringify\<close>\<close>

text \<open>
  A value as the YAML loader makes it and as \<^verbatim>\<open>JSON.stringify\<close> writes it. An object is
  the list of its own properties in the order in which the object enumerates them, which
  is the insertion order for keys that are not array indices; a key occurs once. A
  property whose value is \<^verbatim>\<open>undefined\<close> is not written, so it is not in the list.
  Numbers are the integers; the other numbers, and the dates that YAML can hold, are
  outside the model. With indent 0 nothing is written between the tokens.
\<close>

datatype json =
    JNull | JBool bool | JNumber int | JString string
  | JArray "json list" | JObject "(string \<times> json) list"

definition hex_digit :: "nat \<Rightarrow> char" where
  "hex_digit d = ''0123456789abcdef'' ! d"

definition escape_char :: "char \<Rightarrow> string" where
  "escape_char c =
     (if c = CHR 0x22 then [CHR 0x5C, CHR 0x22]
      else if c = CHR 0x5C then [CHR 0x5C, CHR 0x5C]
      else if c = CHR 0x08 then [CHR 0x5C, CHR ''b'']
      else if c = CHR 0x0C then [CHR 0x5C, CHR ''f'']
      else if c = CHR 0x0A then [CHR 0x5C, CHR ''n'']
      else if c = CHR 0x0D then [CHR 0x5C, CHR ''r'']
      else if c = CHR 0x09 then [CHR 0x5C, CHR ''t'']
      else if (of_char c :: nat) < 32
      then [CHR 0x5C, CHR ''u'', CHR ''0'', CHR ''0'',
            hex_digit (of_char c div 16), hex_digit (of_char c mod 16)]
      else [c])"

definition quote :: "string \<Rightarrow> string" where
  "quote s = [CHR 0x22] @ concat (map escape_char s) @ [CHR 0x22]"

definition show_int :: "int \<Rightarrow> string" where
  "show_int i = (if i < 0 then ''-'' @ show_nat (nat (- i)) else show_nat (nat i))"

fun JSON_stringify :: "json \<Rightarrow> string"
  and stringify_elements :: "json list \<Rightarrow> string"
  and stringify_members :: "(string \<times> json) list \<Rightarrow> string" where
  "JSON_stringify JNull = ''null''"
| "JSON_stringify (JBool b) = (if b then ''true'' else ''false'')"
| "JSON_stringify (JNumber n) = show_int n"
| "JSON_stringify (JString s) = quote s"
| "JSON_stringify (JArray xs) = ''['' @ stringify_elements xs @ '']''"
| "JSON_stringify (JObject kvs) = ''{'' @ stringify_members kvs @ ''}''"
| "stringify_elements [] = []"
| "stringify_elements [x] = JSON_stringify x"
| "stringify_elements (x # y # ys) = JSON_stringify x @ '','' @ stringify_elements (y # ys)"
| "stringify_members [] = []"
| "stringify_members [(k, v)] = quote k @ '':'' @ JSON_stringify v"
| "stringify_members ((k, v) # kv # kvs) =
     quote k @ '':'' @ JSON_stringify v @ '','' @ stringify_members (kv # kvs)"

text \<open>
  Deep equality of two values whatever the order of their keys: the same keys with deeply
  equal values in objects, the same elements in the same order in arrays.
\<close>

fun same_content :: "json \<Rightarrow> json \<Rightarrow> bool"
  and same_elements :: "json list \<Rightarrow> json list \<Rightarrow> bool"
  and members_in :: "(string \<times> json) list \<Rightarrow> (string \<times> json) list \<Rightarrow> bool" where
  "same_content JNull j = (j = JNull)"
| "same_content (JBool b) j = (j = JBool b)"
| "same_content (JNumber n) j = (j = JNumber n)"
| "same_content (JString s) j = (j = JString s)"
| "same_content (JArray xs) j = (case j of JArray ys \<Rightarrow> same_elements xs ys | _ \<Rightarrow> False)"
| "same_content (JObject xs) j =
     (case j of JObject ys \<Rightarrow> length xs = length ys \<and> members_in xs ys | _ \<Rightarrow> False)"
| "same_elements [] ys = (ys = [])"
| "same_elements (x # xs) ys =
     (case ys of [] \<Rightarrow> False | y # ys' \<Rightarrow> same_content x y \<and> same_elements xs ys')"
| "members_in [] ys = True"
| "members_in ((k, v) # xs) ys =
     ((case map_of ys k of None \<Rightarrow> False | Some w \<Rightarrow> same_content v w) \<and> members_in xs ys)"

section \<open>SHA-256 (the digest behind \<^verbatim>\<open>crypto.createHash('sha256')\<close>)\<close>

text \<open>
  \<^verbatim>\<open>computeHash\<close> calls Node's \<^verbatim>\<open>crypto\<close> module. SHA-256 is modelled after FIPS 180-4
  on 32-bit words held as integers, with the reduction modulo \<open>2^32\<close> written out.
\<close>

definition w32 :: "int \<Rightarrow> int" where
  "w32 x = x mod 4294967296"

definition rotr :: "nat \<Rightarrow> int \<Rightarrow> int" where
  "rotr n x = x div 2 ^ n + (x mod 2 ^ n) * 2 ^ (32 - n)"

definition shr :: "nat \<Rightarrow> int \<Rightarrow> int" where
  "shr n x = x div 2 ^ n"

definition xor3 :: "int \<Rightarrow> int \<Rightarrow> int \<Rightarrow> int" where
  "xor3 x y z = Bit_Operations.xor (Bit_Operations.xor x y) z"

definition Ch :: "int \<Rightarrow> int \<Rightarrow> int \<Rightarrow> int" where
  "Ch x y z = Bit_Operations.xor (Bit_Operations.and x y) (Bit_Operations.and (4294967295 - x) z)"

definition Maj :: "int \<Rightarrow> int \<Rightarrow> int \<Rightarrow> int" where
  "Maj x y z = xor3 (Bit_Operations.and x y) (Bit_Operations.and x z) (Bit_Operations.and y z)"

definition Sigma0 :: "int \<Rightarrow> int" where
  "Sigma0 x = xor3 (rotr 2 x) (rotr 13 x) (rotr 22 x)"

definition Sigma1 :: "int \<Rightarrow> int" where
  "Sigma1 x = xor3 (rotr 6 x) (rotr 11 x) (rotr 25 x)"

definition sigma0 :: "int \<Rightarrow> int" where
  "sigma0 x = xor3 (rotr 7 x) (rotr 18 x) (shr 3 x)"

definition sigma1 :: "int \<Rightarrow> int" where
  "sigma1 x = xor3 (rotr 17 x) (rotr 19 x) (shr 10 x)"

text \<open>
  The round constants of SHA-256 (the first 32 bits of the fractional parts of the cube
  roots of the first 64 primes), in decimal.
\<close>

definition K256 :: "int list" where
  "K256 =
    [1116352408, 1899447441, 3049323471, 3921009573, 961987163, 1508970993,
     2453635748, 2870763221, 3624381080, 310598401, 607225278, 1426881987,
     1925078388, 2162078206, 2614888103, 3248222580, 3835390401, 4022224774,
     264347078, 604807628, 770255983, 1249150122, 1555081692, 1996064986,
     2554220882, 2821834349, 2952996808, 3210313671, 3336571891, 3584528711,
     113926993, 338241895, 666307205, 773529912, 1294757372, 1396182291,
     1695183700, 1986661051, 2177026350, 2456956037, 2730485921, 2820302411,
     3259730800, 3345764771, 3516065817, 3600352804, 4094571909, 275423344,
     430227734, 506948616, 659060556, 883997877, 958139571, 1322822218,
     1537002063, 1747873779, 1955562222, 2024104815, 2227730452, 2361852424,
     2428436474, 2756734187, 3204031479, 3329325298]"

text \<open>
  Padding: the byte \<open>0x80\<close>, zero bytes up to 56 modulo 64, then the length in bits as 8
  bytes, most significant first. The length is counted with an accumulator.
\<close>

fun byte_count :: "nat \<Rightarrow> int list \<Rightarrow> nat" where
  "byte_count n [] = n"
| "byte_count n (b # bs) = byte_count (n + 1) bs"

definition length_bytes :: "nat \<Rightarrow> int list" where
  "length_bytes bits =
     [int (bits div 72057594037927936 mod 256), int (bits div 281474976710656 mod 256),
      int (bits div 1099511627776 mod 256), int (bits div 4294967296 mod 256),
      int (bits div 16777216 mod 256), int (bits div 65536 mod 256),
      int (bits div 256 mod 256), int (bits mod 256)]"

definition sha_pad_n :: "nat \<Rightarrow> int list \<Rightarrow> int list" where
  "sha_pad_n n bs = bs @ [128] @ replicate ((119 - n mod 64) mod 64) 0 @ length_bytes (8 * n)"

definition sha_pad :: "int list \<Rightarrow> int list" where
  "sha_pad bs = sha_pad_n (byte_count 0 bs) bs"

fun be_words :: "int list \<Rightarrow> int list" where
  "be_words (a # b # c # d # rest) = (((a * 256 + b) * 256 + c) * 256 + d) # be_words rest"
| "be_words bs = []"

text \<open>The message schedule, kept newest first: after \<open>t\<close> steps the head is \<open>W\<^sub>t\<^sub>-\<^sub>1\<close>.\<close>

fun schedule :: "nat \<Rightarrow> int list \<Rightarrow> int list" where
  "schedule 0 ws = ws"
| "schedule (Suc n) ws =
     schedule n (w32 (sigma1 (ws ! 1) + ws ! 6 + sigma0 (ws ! 14) + ws ! 15) # ws)"

type_synonym sha_state = "int \<times> int \<times> int \<times> int \<times> int \<times> int \<times> int \<times> int"

fun sha_step :: "sha_state \<Rightarrow> int \<Rightarrow> int \<Rightarrow> sha_state" where
  "sha_step (a, b, c, d, e, f, g, h) t1 t2 = (w32 (t1 + t2), a, b, c, w32 (d + t1), e, f, g)"

fun sha_round :: "sha_state \<Rightarrow> int \<times> int \<Rightarrow> sha_state" where
  "sha_round (a, b, c, d, e, f, g, h) (k, w) =
     sha_step (a, b, c, d, e, f, g, h)
       (w32 (h + Sigma1 e + Ch e f g + k + w)) (w32 (Sigma0 a + Maj a b c))"

fun sha_add :: "sha_state \<Rightarrow> sha_state \<Rightarrow> sha_state" where
  "sha_add (a, b, c, d, e, f, g, h) (a', b', c', d', e', f', g', h') =
     (w32 (a + a'), w32 (b + b'), w32 (c + c'), w32 (d + d'),
      w32 (e + e'), w32 (f + f'), w32 (g + g'), w32 (h + h'))"

definition sha_block :: "sha_state \<Rightarrow> int list \<Rightarrow> sha_state" where
  "sha_block s block =
     sha_add s (foldl sha_round s (zip K256 (rev (schedule 48 (rev (be_words block))))))"

fun sha_blocks :: "sha_state \<Rightarrow> int list \<Rightarrow> sha_state" where
  "sha_blocks s [] = s"
| "sha_blocks s (b # bs) = sha_blocks (sha_block s (take 64 (b # bs))) (drop 64 (b # bs))"

definition hex_word :: "int \<Rightarrow> string" where
  "hex_word w =
     [hex_digit (nat (w div 268435456 mod 16)), hex_digit (nat (w div 16777216 mod 16)),
      hex_digit (nat (w div 1048576 mod 16)), hex_digit (nat (w div 65536 mod 16)),
      hex_digit (nat (w div 4096 mod 16)), hex_digit (nat (w div 256 mod 16)),
      hex_digit (nat (w div 16 mod 16)), hex_digit (nat (w mod 16))]"

fun hex_state :: "sha_state \<Rightarrow> string" where
  "hex_state (a, b, c, d, e, f, g, h) =
     hex_word a @ hex_word b @ hex_word c @ hex_word d
     @ hex_word e @ hex_word f @ hex_word g @ hex_word h"

text \<open>
  \<^verbatim>\<open>hash.update(content)\<close> digests the UTF-8 encoding of the string: one byte for a
  character below U+0080, two bytes for the others of the range.
\<close>

definition utf8_char :: "char \<Rightarrow> int list" where
  "utf8_char c =
     (if (of_char c :: nat) < 128 then [int (of_char c)]
      else [192 + int (of_char c div 64), 128 + int (of_char c mod 64)])"

definition utf8 :: "string \<Rightarrow> int list" where
  "utf8 s = concat (map utf8_char s)"

definition sha256_hex :: "string \<Rightarrow> string" where
  "sha256_hex s =
     hex_state (sha_blocks
       (1779033703, 3144134277, 1013904242, 2773480762,
        1359893119, 2600822924, 528734635, 1541459225)
       (sha_pad (utf8 s)))"

lemma schedule_numeral:
  "schedule (numeral k) ws =
     schedule (pred_numeral k) (w32 (sigma1 (ws ! 1) + ws ! 6 + sigma0 (ws ! 14) + ws ! 15) # ws)"
  by (simp add: numeral_eq_Suc)

lemma replicate_numeral: "replicate (numeral k) x = x # replicate (pred_numeral k) x"
  by (simp add: numeral_eq_Suc)

lemmas sha_eval = w32_def rotr_def shr_def xor3_def Ch_def Maj_def Sigma0_def Sigma1_def
  sigma0_def sigma1_def sha256_hex_def sha_pad_def sha_pad_n_def length_bytes_def
  sha_block_def K256_def hex_word_def hex_digit_def utf8_def utf8_char_def
  schedule_numeral replicate_numeral

text \<open>Two test vectors: the digest of \<^verbatim>\<open>abc\<close>, and of the one character U+00E9.\<close>

lemma sha256_hex_abc:
  "sha256_hex ''abc'' = ''ba7816bf8f01cfea414140de5dae2223b00361a396177a9cb410ff61f20015ad''"
  by (simp add: sha_eval)

lemma sha256_hex_e_acute:
  "sha256_hex [CHR 0xE9] = ''4a99557e4033c3539de2eb65472017cad5f9557f7a0625a09f1c3f6e2ba69c4c''"
  by (simp add: sha_eval)

section \<open>The spec data model (types/spec.ts)\<close>

text \<open>
  The typed reading of a spec: the records carry the required properties of each
  interface and the optional properties that \<^verbatim>\<open>SpecLinker\<close> and \<^verbatim>\<open>SpecValidator\<close>
  read; a \<^verbatim>\<open>Record<string, T>\<close> is an association list in the order \<^verbatim>\<open>Object.entries\<close>
  walks. String unions that the code only passes on are strings. \<^verbatim>\<open>MetricsSpec\<close> is
  never read and is carried as a JSON value. The spec object itself, with every own
  property, is a \<^typ>\<open>json\<close> value; \<open>read_Spec\<close> below gives its typed reading.
\<close>

datatype TenancyMode = Single | Multi

datatype Profile = Dev | Prod

datatype ActionType = Command | Query

record Tenancy =
  tn_mode :: TenancyMode
  tn_isolation :: string
  tn_tenant_id_column :: "string option"

record ProfileConfig =
  require_idempotency :: "bool option"
  require_rate_limits :: "bool option"
  strict_tenancy :: "bool option"

record Profiles =
  profiles_dev :: "ProfileConfig option"
  profiles_prod :: "ProfileConfig option"

record ProductSpec =
  prod_name :: string
  prod_version :: string
  prod_tenancy :: Tenancy
  prod_profile :: Profile
  prod_profiles :: "Profiles option"

record FieldReference =
  ref_entity :: string
  ref_field :: "string option"

record FieldSpec =
  fld_type :: string
  fld_reference :: "FieldReference option"

record RelationSpec =
  rel_type :: string
  rel_target :: string
  rel_through :: "string option"

record EntitySpec =
  ent_description :: "string option"
  ent_tenant_scoped :: "bool option"
  ent_immutable :: "bool option"
  ent_ai_suggest_only :: "bool option"
  ent_fields :: "(string \<times> FieldSpec) list"
  ent_relations :: "(string \<times> RelationSpec) list option"

record ActionAuth =
  auth_roles :: "string list option"

record ActionRateLimit =
  arl_requests_per_minute :: "int option"
  arl_burst :: "int option"

record ActionSpec =
  act_type :: ActionType
  act_description :: "string option"
  act_entity :: "string option"
  act_idempotent :: "bool option"
  act_auth :: "ActionAuth option"
  act_rate_limit :: "ActionRateLimit option"
  act_triggers_job :: "string option"

record TransitionSpec =
  tr_target :: string
  tr_action :: "string option"

record OnEnter =
  on_enter_action :: "string option"

record StepSpec =
  step_screen :: string
  step_transitions :: "(string \<times> TransitionSpec) list option"
  step_on_enter :: "OnEnter option"

record FlowSpec =
  flow_name :: string
  flow_steps :: "(string \<times> StepSpec) list"
  flow_initial_step :: "string option"

record RoleSpec =
  rs_name :: string
  rs_inherits :: "string list option"
  rs_permissions :: "string list option"
  rs_can :: "string list option"

record PolicySpec =
  ps_resource :: string

record AiEntityRules =
  aie_suggest_only :: "bool option"

record AiActionRules =
  aia_suggest_only :: "bool option"

record AiRules =
  ai_entities :: "(string \<times> AiEntityRules) list option"
  ai_actions :: "(string \<times> AiActionRules) list option"

record PoliciesSpec =
  pol_roles :: "(string \<times> RoleSpec) list option"
  pol_policies :: "(string \<times> PolicySpec) list option"
  pol_ai_rules :: "AiRules option"

record ScreenSpec =
  scr_layout_type :: string
  scr_entity :: "string option"
  scr_load_action :: "string option"
  scr_submit_action :: "string option"

record UiSpec =
  ui_screens :: "(string \<times> ScreenSpec) list option"

record JobSpec =
  job_name :: string
  job_queue :: "string option"
  job_triggers :: "string list option"
  job_dead_letter_queue :: "string option"

record QueueSpec =
  queue_name :: "string option"

record JobsSpec =
  jobs_jobs :: "(string \<times> JobSpec) list option"
  jobs_queues :: "(string \<times> QueueSpec) list option"

record Spec =
  product :: ProductSpec
  entities :: "(string \<times> EntitySpec) list"
  actions :: "(string \<times> ActionSpec) list"
  flows :: "(string \<times> FlowSpec) list"
  spec_policies :: PoliciesSpec
  ui :: UiSpec
  metrics :: json
  jobs :: JobsSpec

section \<open>The typed reading of a spec object\<close>

text \<open>
  \<open>read_Spec obj = Some spec\<close>: the object \<open>obj\<close> is a value of the interface \<^verbatim>\<open>Spec\<close>, and
  \<open>spec\<close> holds the properties that the checks read. A property that an interface declares
  and the code never reads, and any further property, is passed over: two objects with
  one reading can differ in them and in the order of their keys. \<open>None\<close>: a property that
  is read does not have the declared type.
\<close>

definition as_string :: "json \<Rightarrow> string option" where
  "as_string j = (case j of JString s \<Rightarrow> Some s | _ \<Rightarrow> None)"

definition as_bool :: "json \<Rightarrow> bool option" where
  "as_bool j = (case j of JBool b \<Rightarrow> Some b | _ \<Rightarrow> None)"

definition as_int :: "json \<Rightarrow> int option" where
  "as_int j = (case j of JNumber n \<Rightarrow> Some n | _ \<Rightarrow> None)"

definition as_strings :: "json \<Rightarrow> string list option" where
  "as_strings j = (case j of JArray xs \<Rightarrow> those (map as_string xs) | _ \<Rightarrow> None)"

definition as_object :: "json \<Rightarrow> (string \<times> json) list option" where
  "as_object j = (case j of JObject ms \<Rightarrow> Some ms | _ \<Rightarrow> None)"

definition as_record :: "(json \<Rightarrow> 'a option) \<Rightarrow> json \<Rightarrow> (string \<times> 'a) list option" where
  "as_record read j =
     (case j of
        JObject ms \<Rightarrow> those (map (\<lambda>(k, v). map_option (Pair k) (read v)) ms)
      | _ \<Rightarrow> None)"

definition required_prop :: "(json \<Rightarrow> 'a option) \<Rightarrow> (string \<times> json) list \<Rightarrow> string \<Rightarrow> 'a option" where
  "required_prop read ms k = (case map_of ms k of None \<Rightarrow> None | Some v \<Rightarrow> read v)"

definition optional_prop ::
  "(json \<Rightarrow> 'a option) \<Rightarrow> (string \<times> json) list \<Rightarrow> string \<Rightarrow> 'a option option" where
  "optional_prop read ms k =
     (case map_of ms k of None \<Rightarrow> Some None | Some v \<Rightarrow> map_option Some (read v))"

definition read_TenancyMode :: "json \<Rightarrow> TenancyMode option" where
  "read_TenancyMode j =
     (if j = JString ''single'' then Some Single
      else if j = JString ''multi'' then Some Multi else None)"

definition read_Profile :: "json \<Rightarrow> Profile option" where
  "read_Profile j =
     (if j = JString ''dev'' then Some Dev else if j = JString ''prod'' then Some Prod else None)"

definition read_ActionType :: "json \<Rightarrow> ActionType option" where
  "read_ActionType j =
     (if j = JString ''command'' then Some Command
      else if j = JString ''query'' then Some Query else None)"

definition read_Tenancy :: "json \<Rightarrow> Tenancy option" where
  "read_Tenancy j = do {
     ms \<leftarrow> as_object j;
     mode \<leftarrow> required_prop read_TenancyMode ms ''mode'';
     isolation \<leftarrow> required_prop as_string ms ''isolation'';
     column \<leftarrow> optional_prop as_string ms ''tenant_id_column'';
     Some \<lparr>tn_mode = mode, tn_isolation = isolation, tn_tenant_id_column = column\<rparr>
   }"

definition read_ProfileConfig :: "json \<Rightarrow> ProfileConfig option" where
  "read_ProfileConfig j = do {
     ms \<leftarrow> as_object j;
     idempotency \<leftarrow> optional_prop as_bool ms ''require_idempotency'';
     rate_limits \<leftarrow> optional_prop as_bool ms ''require_rate_limits'';
     tenancy \<leftarrow> optional_prop as_bool ms ''strict_tenancy'';
     Some \<lparr>require_idempotency = idempotency, require_rate_limits = rate_limits,
           strict_tenancy = tenancy\<rparr>
   }"

definition read_Profiles :: "json \<Rightarrow> Profiles option" where
  "read_Profiles j = do {
     ms \<leftarrow> as_object j;
     dev \<leftarrow> optional_prop read_ProfileConfig ms ''dev'';
     prod \<leftarrow> optional_prop read_ProfileConfig ms ''prod'';
     Some \<lparr>profiles_dev = dev, profiles_prod = prod\<rparr>
   }"

definition read_ProductSpec :: "json \<Rightarrow> ProductSpec option" where
  "read_ProductSpec j = do {
     ms \<leftarrow> as_object j;
     name \<leftarrow> required_prop as_string ms ''name'';
     version \<leftarrow> required_prop as_string ms ''version'';
     tenancy \<leftarrow> required_prop read_Tenancy ms ''tenancy'';
     profile \<leftarrow> required_prop read_Profile ms ''profile'';
     profiles \<leftarrow> optional_prop read_Profiles ms ''profiles'';
     Some \<lparr>prod_name = name, prod_version = version, prod_tenancy = tenancy,
           prod_profile = profile, prod_profiles = profiles\<rparr>
   }"

definition read_FieldReference :: "json \<Rightarrow> FieldReference option" where
  "read_FieldReference j = do {
     ms \<leftarrow> as_object j;
     entity \<leftarrow> required_prop as_string ms ''entity'';
     field \<leftarrow> optional_prop as_string ms ''field'';
     Some \<lparr>ref_entity = entity, ref_field = field\<rparr>
   }"

definition read_FieldSpec :: "json \<Rightarrow> FieldSpec option" where
  "read_FieldSpec j = do {
     ms \<leftarrow> as_object j;
     type \<leftarrow> required_prop as_string ms ''type'';
     reference \<leftarrow> optional_prop read_FieldReference ms ''reference'';
     Some \<lparr>fld_type = type, fld_reference = reference\<rparr>
   }"

definition read_RelationSpec :: "json \<Rightarrow> RelationSpec option" where
  "read_RelationSpec j = do {
     ms \<leftarrow> as_object j;
     type \<leftarrow> required_prop as_string ms ''type'';
     target \<leftarrow> required_prop as_string ms ''target'';
     through \<leftarrow> optional_prop as_string ms ''through'';
     Some \<lparr>rel_type = type, rel_target = target, rel_through = through\<rparr>
   }"

definition read_EntitySpec :: "json \<Rightarrow> EntitySpec option" where
  "read_EntitySpec j = do {
     ms \<leftarrow> as_object j;
     description \<leftarrow> optional_prop as_string ms ''description'';
     tenant_scoped \<leftarrow> optional_prop as_bool ms ''tenant_scoped'';
     immutable \<leftarrow> optional_prop as_bool ms ''immutable'';
     ai_suggest_only \<leftarrow> optional_prop as_bool ms ''ai_suggest_only'';
     fields \<leftarrow> required_prop (as_record read_FieldSpec) ms ''fields'';
     relations \<leftarrow> optional_prop (as_record read_RelationSpec) ms ''relations'';
     Some \<lparr>ent_description = description, ent_tenant_scoped = tenant_scoped,
           ent_immutable = immutable, ent_ai_suggest_only = ai_suggest_only,
           ent_fields = fields, ent_relations = relations\<rparr>
   }"

definition read_ActionAuth :: "json \<Rightarrow> ActionAuth option" where
  "read_ActionAuth j = do {
     ms \<leftarrow> as_object j;
     roles \<leftarrow> optional_prop as_strings ms ''roles'';
     Some \<lparr>auth_roles = roles\<rparr>
   }"

definition read_ActionRateLimit :: "json \<Rightarrow> ActionRateLimit option" where
  "read_ActionRateLimit j = do {
     ms \<leftarrow> as_object j;
     rpm \<leftarrow> optional_prop as_int ms ''requests_per_minute'';
     burst \<leftarrow> optional_prop as_int ms ''burst'';
     Some \<lparr>arl_requests_per_minute = rpm, arl_burst = burst\<rparr>
   }"

definition read_ActionSpec :: "json \<Rightarrow> ActionSpec option" where
  "read_ActionSpec j = do {
     ms \<leftarrow> as_object j;
     type \<leftarrow> required_prop read_ActionType ms ''type'';
     description \<leftarrow> optional_prop as_string ms ''description'';
     entity \<leftarrow> optional_prop as_string ms ''entity'';
     idempotent \<leftarrow> optional_prop as_bool ms ''idempotent'';
     auth \<leftarrow> optional_prop read_ActionAuth ms ''auth'';
     rate_limit \<leftarrow> optional_prop read_ActionRateLimit ms ''rate_limit'';
     triggers_job \<leftarrow> optional_prop as_string ms ''triggers_job'';
     Some \<lparr>act_type = type, act_description = description, act_entity = entity,
           act_idempotent = idempotent, act_auth = auth, act_rate_limit = rate_limit,
           act_triggers_job = triggers_job\<rparr>
   }"

definition read_TransitionSpec :: "json \<Rightarrow> TransitionSpec option" where
  "read_TransitionSpec j = do {
     ms \<leftarrow> as_object j;
     target \<leftarrow> required_prop as_string ms ''target'';
     action \<leftarrow> optional_prop as_string ms ''action'';
     Some \<lparr>tr_target = target, tr_action = action\<rparr>
   }"

definition read_OnEnter :: "json \<Rightarrow> OnEnter option" where
  "read_OnEnter j = do {
     ms \<leftarrow> as_object j;
     action \<leftarrow> optional_prop as_string ms ''action'';
     Some \<lparr>on_enter_action = action\<rparr>
   }"

definition read_StepSpec :: "json \<Rightarrow> StepSpec option" where
  "read_StepSpec j = do {
     ms \<leftarrow> as_object j;
     screen \<leftarrow> required_prop as_string ms ''screen'';
     transitions \<leftarrow> optional_prop (as_record read_TransitionSpec) ms ''transitions'';
     on_enter \<leftarrow> optional_prop read_OnEnter ms ''on_enter'';
     Some \<lparr>step_screen = screen, step_transitions = transitions, step_on_enter = on_enter\<rparr>
   }"

definition read_FlowSpec :: "json \<Rightarrow> FlowSpec option" where
  "read_FlowSpec j = do {
     ms \<leftarrow> as_object j;
     name \<leftarrow> required_prop as_string ms ''name'';
     steps \<leftarrow> required_prop (as_record read_StepSpec) ms ''steps'';
     initial_step \<leftarrow> optional_prop as_string ms ''initial_step'';
     Some \<lparr>flow_name = name, flow_steps = steps, flow_initial_step = initial_step\<rparr>
   }"

definition read_RoleSpec :: "json \<Rightarrow> RoleSpec option" where
  "read_RoleSpec j = do {
     ms \<leftarrow> as_object j;
     name \<leftarrow> required_prop as_string ms ''name'';
     inherits \<leftarrow> optional_prop as_strings ms ''inherits'';
     permissions \<leftarrow> optional_prop as_strings ms ''permissions'';
     can \<leftarrow> optional_prop as_strings ms ''can'';
     Some \<lparr>rs_name = name, rs_inherits = inherits, rs_permissions = permissions, rs_can = can\<rparr>
   }"

definition read_PolicySpec :: "json \<Rightarrow> PolicySpec option" where
  "read_PolicySpec j = do {
     ms \<leftarrow> as_object j;
     resource \<leftarrow> required_prop as_string ms ''resource'';
     Some \<lparr>ps_resource = resource\<rparr>
   }"

definition read_AiEntityRules :: "json \<Rightarrow> AiEntityRules option" where
  "read_AiEntityRules j = do {
     ms \<leftarrow> as_object j;
     suggest_only \<leftarrow> optional_prop as_bool ms ''suggest_only'';
     Some \<lparr>aie_suggest_only = suggest_only\<rparr>
   }"

definition read_AiActionRules :: "json \<Rightarrow> AiActionRules option" where
  "read_AiActionRules j = do {
     ms \<leftarrow> as_object j;
     suggest_only \<leftarrow> optional_prop as_bool ms ''suggest_only'';
     Some \<lparr>aia_suggest_only = suggest_only\<rparr>
   }"

definition read_AiRules :: "json \<Rightarrow> AiRules option" where
  "read_AiRules j = do {
     ms \<leftarrow> as_object j;
     entities \<leftarrow> optional_prop (as_record read_AiEntityRules) ms ''entities'';
     actions \<leftarrow> optional_prop (as_record read_AiActionRules) ms ''actions'';
     Some \<lparr>ai_entities = entities, ai_actions = actions\<rparr>
   }"

definition read_PoliciesSpec :: "json \<Rightarrow> PoliciesSpec option" where
  "read_PoliciesSpec j = do {
     ms \<leftarrow> as_object j;
     roles \<leftarrow> optional_prop (as_record read_RoleSpec) ms ''roles'';
     policies \<leftarrow> optional_prop (as_record read_PolicySpec) ms ''policies'';
     ai_rules \<leftarrow> optional_prop read_AiRules ms ''ai_rules'';
     Some \<lparr>pol_roles = roles, pol_policies = policies, pol_ai_rules = ai_rules\<rparr>
   }"

definition read_ScreenSpec :: "json \<Rightarrow> ScreenSpec option" where
  "read_ScreenSpec j = do {
     ms \<leftarrow> as_object j;
     layout_type \<leftarrow> required_prop as_string ms ''layout_type'';
     entity \<leftarrow> optional_prop as_string ms ''entity'';
     load_action \<leftarrow> optional_prop as_string ms ''load_action'';
     submit_action \<leftarrow> optional_prop as_string ms ''submit_action'';
     Some \<lparr>scr_layout_type = layout_type, scr_entity = entity, scr_load_action = load_action,
           scr_submit_action = submit_action\<rparr>
   }"

definition read_UiSpec :: "json \<Rightarrow> UiSpec option" where
  "read_UiSpec j = do {
     ms \<leftarrow> as_object j;
     screens \<leftarrow> optional_prop (as_record read_ScreenSpec) ms ''screens'';
     Some \<lparr>ui_screens = screens\<rparr>
   }"

definition read_JobSpec :: "json \<Rightarrow> JobSpec option" where
  "read_JobSpec j = do {
     ms \<leftarrow> as_object j;
     name \<leftarrow> required_prop as_string ms ''name'';
     queue \<leftarrow> optional_prop as_string ms ''queue'';
     triggers \<leftarrow> optional_prop as_strings ms ''triggers'';
     dead_letter_queue \<leftarrow> optional_prop as_string ms ''dead_letter_queue'';
     Some \<lparr>job_name = name, job_queue = queue, job_triggers = triggers,
           job_dead_letter_queue = dead_letter_queue\<rparr>
   }"

definition read_QueueSpec :: "json \<Rightarrow> QueueSpec option" where
  "read_QueueSpec j = do {
     ms \<leftarrow> as_object j;
     name \<leftarrow> optional_prop as_string ms ''name'';
     Some \<lparr>queue_name = name\<rparr>
   }"

definition read_JobsSpec :: "json \<Rightarrow> JobsSpec option" where
  "read_JobsSpec j = do {
     ms \<leftarrow> as_object j;
     jobs \<leftarrow> optional_prop (as_record read_JobSpec) ms ''jobs'';
     queues \<leftarrow> optional_prop (as_record read_QueueSpec) ms ''queues'';
     Some \<lparr>jobs_jobs = jobs, jobs_queues = queues\<rparr>
   }"

definition read_Spec :: "json \<Rightarrow> Spec option" where
  "read_Spec j = do {
     ms \<leftarrow> as_object j;
     product \<leftarrow> required_prop read_ProductSpec ms ''product'';
     entities \<leftarrow> required_prop (as_record read_EntitySpec) ms ''entities'';
     actions \<leftarrow> required_prop (as_record read_ActionSpec) ms ''actions'';
     flows \<leftarrow> required_prop (as_record read_FlowSpec) ms ''flows'';
     policies \<leftarrow> required_prop read_PoliciesSpec ms ''policies'';
     ui \<leftarrow> required_prop read_UiSpec ms ''ui'';
     metrics \<leftarrow> required_prop Some ms ''metrics'';
     jobs \<leftarrow> required_prop read_JobsSpec ms ''jobs'';
     Some \<lparr>product = product, entities = entities, actions = actions, flows = flows,
           spec_policies = policies, ui = ui, metrics = metrics, jobs = jobs\<rparr>
   }"

lemmas read_defs = read_Spec_def read_ProductSpec_def read_Tenancy_def read_TenancyMode_def
  read_Profile_def read_Profiles_def read_ProfileConfig_def read_EntitySpec_def
  read_FieldSpec_def read_FieldReference_def read_RelationSpec_def read_ActionSpec_def
  read_ActionType_def read_ActionAuth_def read_ActionRateLimit_def read_FlowSpec_def
  read_StepSpec_def read_TransitionSpec_def read_OnEnter_def read_PoliciesSpec_def
  read_RoleSpec_def read_PolicySpec_def read_AiRules_def read_AiEntityRules_def
  read_AiActionRules_def read_UiSpec_def read_ScreenSpec_def read_JobsSpec_def
  read_JobSpec_def read_QueueSpec_def as_string_def as_bool_def as_int_def as_strings_def
  as_object_def as_record_def required_prop_def optional_prop_def

section \<open>Spec linker (core/spec-linker.ts)\<close>

datatype LinkErrorType =
  missing_reference | circular_reference | invalid_relation | invariant_violation

record LinkError =
  le_type :: LinkErrorType
  le_message :: string
  le_source :: string
  le_target :: "string option"

datatype LinkWarningType = unused | shadowed | deprecated

record LinkWarning =
  lw_type :: LinkWarningType
  lw_message :: string
  lw_path :: string

record Meta =
  meta_version :: string
  meta_generated_at :: string
  meta_hash :: string

text \<open>The bundle \<^verbatim>\<open>{...spec, _meta}\<close>: the own properties of the spec object, and \<^verbatim>\<open>_meta\<close>.\<close>

record SpecBundle =
  bundle_spec :: json
  bundle_meta :: Meta

record LinkResult =
  lr_valid :: bool
  lr_errors :: "LinkError list"
  lr_warnings :: "LinkWarning list"
  lr_bundle :: "SpecBundle option"

subsection \<open>Property reads on records\<close>

text \<open>
  \<^verbatim>\<open>record[key]\<close> finds an own property, or else a member inherited from
  \<^verbatim>\<open>Object.prototype\<close>, or else \<^verbatim>\<open>undefined\<close>. The values of the records are objects,
  so \<^verbatim>\<open>!record[key]\<close> holds exactly when nothing is found.
\<close>

datatype 'a member = Own 'a | Inherited | Absent

definition lookup :: "(string \<times> 'a) list \<Rightarrow> string \<Rightarrow> 'a member" where
  "lookup kvs k =
     (case map_of kvs k of
        Some v \<Rightarrow> Own v
      | None \<Rightarrow> if k \<in> set Object_prototype_keys then Inherited else Absent)"

definition defined :: "(string \<times> 'a) list \<Rightarrow> string \<Rightarrow> bool" where
  "defined kvs k = (case lookup kvs k of Absent \<Rightarrow> False | _ \<Rightarrow> True)"

definition opt_defined :: "(string \<times> 'a) list option \<Rightarrow> string \<Rightarrow> bool" where
  "opt_defined r k = (case r of None \<Rightarrow> False | Some kvs \<Rightarrow> defined kvs k)"

text \<open>\<^verbatim>\<open>name && ...\<close> on an optional string: absent and empty names are skipped.\<close>

definition when_truthy :: "string option \<Rightarrow> (string \<Rightarrow> 'a list) \<Rightarrow> 'a list" where
  "when_truthy v f = (case v of None \<Rightarrow> [] | Some s \<Rightarrow> if s = [] then [] else f s)"

definition dq :: "string \<Rightarrow> string" where
  "dq s = [CHR 0x22] @ s @ [CHR 0x22]"

definition missing :: "string \<Rightarrow> string \<Rightarrow> string \<Rightarrow> LinkError" where
  "missing message source target =
     \<lparr>le_type = missing_reference, le_message = message, le_source = source,
      le_target = Some target\<rparr>"

text \<open>A loop that pushes errors and stops at the first exception.\<close>

fun collect :: "('a \<Rightarrow> js_error + 'b list) \<Rightarrow> 'a list \<Rightarrow> js_error + 'b list" where
  "collect f [] = Inr []"
| "collect f (x # xs) =
     (case f x of
        Inl e \<Rightarrow> Inl e
      | Inr ys \<Rightarrow> (case collect f xs of Inl e \<Rightarrow> Inl e | Inr zs \<Rightarrow> Inr (ys @ zs)))"

subsection \<open>\<^verbatim>\<open>validateEntityReferences\<close>\<close>

text \<open>
  For a reference to a name that \<^verbatim>\<open>spec.entities\<close> only inherits, \<^verbatim>\<open>targetEntity\<close> is
  a built-in function (or \<^verbatim>\<open>Object.prototype\<close> itself): it is truthy, its
  \<^verbatim>\<open>fields\<close> is \<^verbatim>\<open>undefined\<close>, and \<^verbatim>\<open>targetEntity.fields[targetField]\<close> raises a
  \<^verbatim>\<open>TypeError\<close>.
\<close>

definition fieldErrors :: "Spec \<Rightarrow> string \<Rightarrow> string \<times> FieldSpec \<Rightarrow> js_error + LinkError list" where
  "fieldErrors spec entityName = (\<lambda>(fieldName, field).
     case fld_reference field of
       None \<Rightarrow> Inr []
     | Some reference \<Rightarrow>
         (case lookup (entities spec) (ref_entity reference) of
            Absent \<Rightarrow>
              Inr [missing
                (''Entity '' @ dq (ref_entity reference) @ '' referenced by field ''
                   @ dq fieldName @ '' does not exist'')
                (''entities.'' @ entityName @ ''.fields.'' @ fieldName)
                (''entities.'' @ ref_entity reference)]
          | Inherited \<Rightarrow> Inl TypeError
          | Own targetEntity \<Rightarrow>
              (let targetField = or_default (ref_field reference) ''id'' in
               if \<not> defined (ent_fields targetEntity) targetField
               then Inr [missing
                 (''Field '' @ dq targetField @ '' in entity '' @ dq (ref_entity reference)
                    @ '' does not exist'')
                 (''entities.'' @ entityName @ ''.fields.'' @ fieldName)
                 (''entities.'' @ ref_entity reference @ ''.fields.'' @ targetField)]
               else Inr [])))"

definition relationErrors :: "Spec \<Rightarrow> string \<Rightarrow> string \<times> RelationSpec \<Rightarrow> LinkError list" where
  "relationErrors spec entityName = (\<lambda>(relName, relation).
     (if \<not> defined (entities spec) (rel_target relation)
      then [missing (''Relation target '' @ dq (rel_target relation) @ '' does not exist'')
              (''entities.'' @ entityName @ ''.relations.'' @ relName)
              (''entities.'' @ rel_target relation)]
      else [])
     @ when_truthy (rel_through relation) (\<lambda>through.
         if \<not> defined (entities spec) through
         then [missing (''Through table '' @ dq through @ '' does not exist'')
                 (''entities.'' @ entityName @ ''.relations.'' @ relName)
                 (''entities.'' @ through)]
         else []))"

definition entityErrors :: "Spec \<Rightarrow> string \<times> EntitySpec \<Rightarrow> js_error + LinkError list" where
  "entityErrors spec = (\<lambda>(entityName, entity).
     case collect (fieldErrors spec entityName) (ent_fields entity) of
       Inl e \<Rightarrow> Inl e
     | Inr errs \<Rightarrow>
         Inr (errs @ concat (map (relationErrors spec entityName)
                               (or_empty (ent_relations entity)))))"

definition validateEntityReferences :: "Spec \<Rightarrow> js_error + LinkError list" where
  "validateEntityReferences spec = collect (entityErrors spec) (entities spec)"

subsection \<open>\<^verbatim>\<open>validateActionReferences\<close>\<close>

definition actionErrors :: "Spec \<Rightarrow> string \<times> ActionSpec \<Rightarrow> LinkError list" where
  "actionErrors spec = (\<lambda>(actionName, action).
     when_truthy (act_entity action) (\<lambda>entity.
       if \<not> defined (entities spec) entity
       then [missing (''Entity '' @ dq entity @ '' referenced by action does not exist'')
               (''actions.'' @ actionName) (''entities.'' @ entity)]
       else [])
     @ when_truthy (act_triggers_job action) (\<lambda>job.
         if \<not> opt_defined (jobs_jobs (jobs spec)) job
         then [missing (''Job '' @ dq job @ '' triggered by action does not exist'')
                 (''actions.'' @ actionName) (''jobs.'' @ job)]
         else [])
     @ (case act_auth action of
          None \<Rightarrow> []
        | Some auth \<Rightarrow>
            concat (map (\<lambda>role.
              if \<not> opt_defined (pol_roles (spec_policies spec)) role
              then [missing (''Role '' @ dq role @ '' required by action does not exist'')
                      (''actions.'' @ actionName) (''policies.roles.'' @ role)]
              else []) (or_empty (auth_roles auth)))))"

definition validateActionReferences :: "Spec \<Rightarrow> LinkError list" where
  "validateActionReferences spec = concat (map (actionErrors spec) (actions spec))"

subsection \<open>\<^verbatim>\<open>validateFlowReferences\<close>\<close>

definition transitionErrors ::
  "Spec \<Rightarrow> string \<Rightarrow> FlowSpec \<Rightarrow> string \<Rightarrow> string \<times> TransitionSpec \<Rightarrow> LinkError list" where
  "transitionErrors spec flowName flow stepName = (\<lambda>(transName, transition).
     (if \<not> defined (flow_steps flow) (tr_target transition)
      then [missing (''Step '' @ dq (tr_target transition)
                       @ '' referenced by transition does not exist'')
              (''flows.'' @ flowName @ ''.steps.'' @ stepName @ ''.transitions.'' @ transName)
              (''flows.'' @ flowName @ ''.steps.'' @ tr_target transition)]
      else [])
     @ when_truthy (tr_action transition) (\<lambda>act.
         if \<not> defined (actions spec) act
         then [missing (''Action '' @ dq act @ '' referenced by transition does not exist'')
                 (''flows.'' @ flowName @ ''.steps.'' @ stepName @ ''.transitions.'' @ transName)
                 (''actions.'' @ act)]
         else []))"

definition stepErrors :: "Spec \<Rightarrow> string \<Rightarrow> FlowSpec \<Rightarrow> string \<times> StepSpec \<Rightarrow> LinkError list" where
  "stepErrors spec flowName flow = (\<lambda>(stepName, step).
     (if \<not> opt_defined (ui_screens (ui spec)) (step_screen step)
      then [missing (''Screen '' @ dq (step_screen step)
                       @ '' referenced by flow step does not exist'')
              (''flows.'' @ flowName @ ''.steps.'' @ stepName)
              (''ui.screens.'' @ step_screen step)]
      else [])
     @ concat (map (transitionErrors spec flowName flow stepName)
                 (or_empty (step_transitions step)))
     @ (case step_on_enter step of
          None \<Rightarrow> []
        | Some on_enter \<Rightarrow>
            when_truthy (on_enter_action on_enter) (\<lambda>act.
              if \<not> defined (actions spec) act
              then [missing (''Action '' @ dq act @ '' referenced by on_enter does not exist'')
                      (''flows.'' @ flowName @ ''.steps.'' @ stepName @ ''.on_enter'')
                      (''actions.'' @ act)]
              else [])))"

definition flowErrors :: "Spec \<Rightarrow> string \<times> FlowSpec \<Rightarrow> LinkError list" where
  "flowErrors spec = (\<lambda>(flowName, flow).
     concat (map (stepErrors spec flowName flow) (flow_steps flow))
     @ when_truthy (flow_initial_step flow) (\<lambda>initial.
         if \<not> defined (flow_steps flow) initial
         then [missing (''Initial step '' @ dq initial @ '' does not exist'')
                 (''flows.'' @ flowName) (''flows.'' @ flowName @ ''.steps.'' @ initial)]
         else []))"

definition validateFlowReferences :: "Spec \<Rightarrow> LinkError list" where
  "validateFlowReferences spec = concat (map (flowErrors spec) (flows spec))"

subsection \<open>\<^verbatim>\<open>validatePolicyReferences\<close>\<close>

definition roleErrors ::
  "Spec \<Rightarrow> (string \<times> RoleSpec) list \<Rightarrow> string \<times> RoleSpec \<Rightarrow> LinkError list" where
  "roleErrors spec roleSpecs = (\<lambda>(roleName, role).
     concat (map (\<lambda>parent.
       if \<not> defined roleSpecs parent
       then [missing (''Parent role '' @ dq parent @ '' does not exist'')
               (''policies.roles.'' @ roleName) (''policies.roles.'' @ parent)]
       else []) (or_empty (rs_inherits role)))
     @ concat (map (\<lambda>actionName.
         if \<not> defined (actions spec) actionName
         then [missing (''Action '' @ dq actionName @ '' referenced in role.can does not exist'')
                 (''policies.roles.'' @ roleName) (''actions.'' @ actionName)]
         else []) (or_empty (rs_can role))))"

definition policyErrors :: "Spec \<Rightarrow> string \<times> PolicySpec \<Rightarrow> LinkError list" where
  "policyErrors spec = (\<lambda>(policyName, policy).
     if \<not> defined (entities spec) (ps_resource policy)
     then [missing (''Entity '' @ dq (ps_resource policy) @ '' referenced by policy does not exist'')
             (''policies.policies.'' @ policyName) (''entities.'' @ ps_resource policy)]
     else [])"

definition aiRulesErrors :: "Spec \<Rightarrow> AiRules \<Rightarrow> LinkError list" where
  "aiRulesErrors spec rules =
     concat (map (\<lambda>entityName.
       if \<not> defined (entities spec) entityName
       then [missing (''Entity '' @ dq entityName @ '' in AI rules does not exist'')
               (''policies.ai_rules.entities.'' @ entityName) (''entities.'' @ entityName)]
       else []) (map fst (or_empty (ai_entities rules))))
     @ concat (map (\<lambda>actionName.
         if \<not> defined (actions spec) actionName
         then [missing (''Action '' @ dq actionName @ '' in AI rules does not exist'')
                 (''policies.ai_rules.actions.'' @ actionName) (''actions.'' @ actionName)]
         else []) (map fst (or_empty (ai_actions rules))))"

definition validatePolicyReferences :: "Spec \<Rightarrow> LinkError list" where
  "validatePolicyReferences spec =
     (case pol_roles (spec_policies spec) of
        None \<Rightarrow> []
      | Some roleSpecs \<Rightarrow> concat (map (roleErrors spec roleSpecs) roleSpecs))
     @ concat (map (policyErrors spec) (or_empty (pol_policies (spec_policies spec))))
     @ (case pol_ai_rules (spec_policies spec) of
          None \<Rightarrow> []
        | Some rules \<Rightarrow> aiRulesErrors spec rules)"

subsection \<open>\<^verbatim>\<open>validateUiReferences\<close> and \<^verbatim>\<open>validateJobReferences\<close>\<close>

definition screenErrors :: "Spec \<Rightarrow> string \<times> ScreenSpec \<Rightarrow> LinkError list" where
  "screenErrors spec = (\<lambda>(screenName, screen).
     when_truthy (scr_entity screen) (\<lambda>entity.
       if \<not> defined (entities spec) entity
       then [missing (''Entity '' @ dq entity @ '' referenced by screen does not exist'')
               (''ui.screens.'' @ screenName) (''entities.'' @ entity)]
       else [])
     @ when_truthy (scr_load_action screen) (\<lambda>act.
         if \<not> defined (actions spec) act
         then [missing (''Action '' @ dq act @ '' referenced by screen does not exist'')
                 (''ui.screens.'' @ screenName) (''actions.'' @ act)]
         else [])
     @ when_truthy (scr_submit_action screen) (\<lambda>act.
         if \<not> defined (actions spec) act
         then [missing (''Action '' @ dq act @ '' referenced by screen does not exist'')
                 (''ui.screens.'' @ screenName) (''actions.'' @ act)]
         else []))"

definition validateUiReferences :: "Spec \<Rightarrow> LinkError list" where
  "validateUiReferences spec = concat (map (screenErrors spec) (or_empty (ui_screens (ui spec))))"

definition jobErrors :: "Spec \<Rightarrow> string \<times> JobSpec \<Rightarrow> LinkError list" where
  "jobErrors spec = (\<lambda>(jobName, job).
     when_truthy (job_queue job) (\<lambda>queue.
       if queue \<noteq> ''default'' \<and> \<not> opt_defined (jobs_queues (jobs spec)) queue
       then [missing (''Queue '' @ dq queue @ '' referenced by job does not exist'')
               (''jobs.'' @ jobName) (''jobs.queues.'' @ queue)]
       else [])
     @ when_truthy (job_dead_letter_queue job) (\<lambda>queue.
         if \<not> opt_defined (jobs_queues (jobs spec)) queue
         then [missing (''Dead letter queue '' @ dq queue @ '' does not exist'')
                 (''jobs.'' @ jobName) (''jobs.queues.'' @ queue)]
         else [])
     @ concat (map (\<lambda>trigger.
         if \<not> defined (actions spec) trigger
         then [missing (''Trigger action '' @ dq trigger @ '' does not exist'')
                 (''jobs.'' @ jobName) (''actions.'' @ trigger)]
         else []) (or_empty (job_triggers job))))"

definition validateJobReferences :: "Spec \<Rightarrow> LinkError list" where
  "validateJobReferences spec = concat (map (jobErrors spec) (or_empty (jobs_jobs (jobs spec))))"

subsection \<open>\<^verbatim>\<open>checkUnused\<close>\<close>

definition usedEntities :: "Spec \<Rightarrow> string list" where
  "usedEntities spec =
     concat (map (\<lambda>(n, action). when_truthy (act_entity action) (\<lambda>e. [e])) (actions spec))
     @ concat (map (\<lambda>(n, screen). when_truthy (scr_entity screen) (\<lambda>e. [e]))
                 (or_empty (ui_screens (ui spec))))
     @ concat (map (\<lambda>(n, entity).
         concat (map (\<lambda>(f, field). case fld_reference field of
                                       None \<Rightarrow> [] | Some r \<Rightarrow> [ref_entity r])
                   (ent_fields entity))
         @ concat (map (\<lambda>(r, relation).
                     rel_target relation # when_truthy (rel_through relation) (\<lambda>t. [t]))
                     (or_empty (ent_relations entity))))
         (entities spec))"

definition checkUnused :: "Spec \<Rightarrow> LinkWarning list" where
  "checkUnused spec =
     concat (map (\<lambda>entityName.
       if entityName \<notin> set (usedEntities spec)
       then [\<lparr>lw_type = unused,
              lw_message = ''Entity '' @ dq entityName
                 @ '' is not referenced by any action, screen, or relation'',
              lw_path = ''entities.'' @ entityName\<rparr>]
       else []) (map fst (entities spec)))"

subsection \<open>\<^verbatim>\<open>checkInvariants\<close>\<close>

text \<open>
  \<^verbatim>\<open>spec.entities['JournalEntry'] || spec.entities['journal_entry']\<close>: the first of the
  two names that is a key. The loop over the entities under multi-tenancy computes a flag
  and does nothing with it, so it adds no error.
\<close>

definition first_entity :: "Spec \<Rightarrow> string \<Rightarrow> string \<Rightarrow> EntitySpec option" where
  "first_entity spec a b =
     (case map_of (entities spec) a of Some e \<Rightarrow> Some e | None \<Rightarrow> map_of (entities spec) b)"

definition checkInvariants :: "Spec \<Rightarrow> LinkError list" where
  "checkInvariants spec =
     (case first_entity spec ''JournalEntry'' ''journal_entry'' of
        None \<Rightarrow> []
      | Some journalEntry \<Rightarrow>
          (case first_entity spec ''JournalLine'' ''journal_line'' of
             None \<Rightarrow> []
           | Some journalLine \<Rightarrow>
               (let hasDebit = defined (ent_fields journalLine) ''debit''
                                \<or> defined (ent_fields journalLine) ''debit_amount'';
                    hasCredit = defined (ent_fields journalLine) ''credit''
                                \<or> defined (ent_fields journalLine) ''credit_amount''
                in (if \<not> hasDebit \<or> \<not> hasCredit
                    then [\<lparr>le_type = invariant_violation,
                           le_message = ''JournalLine must have both debit and credit fields for balance invariant'',
                           le_source = ''entities.JournalLine'', le_target = None\<rparr>]
                    else [])
                   @ (if ent_immutable journalEntry \<noteq> Some True \<and> prod_profile (product spec) = Prod
                      then [\<lparr>le_type = invariant_violation,
                             le_message = ''JournalEntry should be immutable in production for audit compliance'',
                             le_source = ''entities.JournalEntry'', le_target = None\<rparr>]
                      else []))))"

subsection \<open>\<^verbatim>\<open>computeHash\<close> and \<^verbatim>\<open>link\<close>\<close>

text \<open>
  The spec is given to \<^verbatim>\<open>link\<close> twice: as the object \<open>obj\<close>, which \<^verbatim>\<open>JSON.stringify\<close> and
  the spread \<^verbatim>\<open>{...spec}\<close> see with every own property in its order, and as its typed
  reading \<open>spec\<close>, whose properties the checks read (\<open>read_Spec obj = Some spec\<close>).
\<close>

definition computeHash :: "json \<Rightarrow> string" where
  "computeHash obj = take 16 (sha256_hex (JSON_stringify obj))"

text \<open>
  \<^verbatim>\<open>link\<close>; \<open>now\<close> is \<^verbatim>\<open>new Date().toISOString()\<close>. An exception raised by a check
  leaves \<^verbatim>\<open>link\<close> uncaught.
\<close>

definition link :: "string \<Rightarrow> json \<Rightarrow> Spec \<Rightarrow> js_error + LinkResult" where
  "link now obj spec =
     (case validateEntityReferences spec of
        Inl e \<Rightarrow> Inl e
      | Inr entityErrs \<Rightarrow>
          (let errors = entityErrs @ validateActionReferences spec @ validateFlowReferences spec
                        @ validatePolicyReferences spec @ validateUiReferences spec
                        @ validateJobReferences spec @ checkInvariants spec;
               warnings = checkUnused spec
           in if errors \<noteq> []
              then Inr \<lparr>lr_valid = False, lr_errors = errors, lr_warnings = warnings,
                        lr_bundle = None\<rparr>
              else Inr \<lparr>lr_valid = True, lr_errors = errors, lr_warnings = warnings,
                        lr_bundle = Some \<lparr>bundle_spec = obj,
                          bundle_meta = \<lparr>meta_version = prod_version (product spec),
                                          meta_generated_at = now,
                                          meta_hash = computeHash obj\<rparr>\<rparr>\<rparr>))"

section \<open>Spec validator (core/spec-validator.ts)\<close>

record ValidationError =
  ve_path :: string
  ve_message :: string
  ve_schemaPath :: "string option"

record ValidationWarning =
  vw_path :: string
  vw_message :: string
  vw_suggestion :: "string option"

record ValidationResult =
  vr_valid :: bool
  vr_errors :: "ValidationError list"
  vr_warnings :: "ValidationWarning list"

record ValidateOptions =
  opt_strict :: "bool option"
  opt_profile :: "Profile option"

text \<open>
  Schema validation is done by the Ajv library, on schemas read from files that are not
  among the sources, applied to parts of the spec object. Its outcome is an input of the
  model: \<open>getSchema name\<close> is \<open>None\<close> when no schema is registered under the name, and else
  the function that gives, for the part of the spec named by a path (\<^verbatim>\<open>product\<close>, or
  \<^verbatim>\<open>entities.<name>\<close> for the object \<^verbatim>\<open>{entities: {[name]: entity}}\<close>, and so on), the
  errors that Ajv reports for it: none when the part is valid.
\<close>

record AjvError =
  ajv_instancePath :: string
  ajv_message :: "string option"
  ajv_schemaPath :: string

type_synonym schemas = "string \<Rightarrow> (string \<Rightarrow> AjvError list) option"

fun json_truthy :: "json \<Rightarrow> bool" where
  "json_truthy JNull = False"
| "json_truthy (JBool b) = b"
| "json_truthy (JNumber n) = (n \<noteq> 0)"
| "json_truthy (JString s) = (s \<noteq> [])"
| "json_truthy (JArray xs) = True"
| "json_truthy (JObject ms) = True"

definition falsy_string :: "string option \<Rightarrow> bool" where
  "falsy_string v = (v = None \<or> v = Some [])"

definition validateSchema :: "schemas \<Rightarrow> string \<Rightarrow> string \<Rightarrow> string \<Rightarrow> ValidationError list" where
  "validateSchema getSchema schemaName part prefix =
     (case getSchema schemaName of
        None \<Rightarrow> []
      | Some validate \<Rightarrow>
          map (\<lambda>error.
                 \<lparr>ve_path = (if prefix \<noteq> [] then prefix @ ajv_instancePath error
                             else drop 1 (ajv_instancePath error)),
                  ve_message = or_default (ajv_message error) ''Validation failed'',
                  ve_schemaPath = Some (ajv_schemaPath error)\<rparr>)
              (validate part))"

definition schemaErrors :: "schemas \<Rightarrow> Spec \<Rightarrow> ValidationError list" where
  "schemaErrors getSchema spec =
     validateSchema getSchema ''product'' ''product'' []
     @ concat (map (\<lambda>(name, entity).
         validateSchema getSchema ''entity'' (''entities.'' @ name) (''entities.'' @ name))
         (entities spec))
     @ concat (map (\<lambda>(name, action).
         validateSchema getSchema ''action'' (''actions.'' @ name) (''actions.'' @ name))
         (actions spec))
     @ concat (map (\<lambda>(name, flow).
         validateSchema getSchema ''flow'' (''flows.'' @ name) (''flows.'' @ name))
         (flows spec))
     @ validateSchema getSchema ''policies'' ''policies'' ''policies''
     @ validateSchema getSchema ''ui'' ''ui'' ''ui''
     @ (if json_truthy (metrics spec)
        then validateSchema getSchema ''metrics'' ''metrics'' ''metrics'' else [])
     @ validateSchema getSchema ''jobs'' ''jobs'' ''jobs''"

text \<open>
  The product, policies, ui and jobs parts of a spec are objects, so the tests
  \<^verbatim>\<open>if (spec.policies)\<close>, \<^verbatim>\<open>if (spec.ui)\<close> and \<^verbatim>\<open>if (spec.jobs)\<close> succeed; the metrics part is
  kept as a JSON value and tested.
\<close>

subsection \<open>\<^verbatim>\<open>validateProductionRules\<close>\<close>

definition emptyProfileConfig :: ProfileConfig where
  "emptyProfileConfig =
     \<lparr>require_idempotency = None, require_rate_limits = None, strict_tenancy = None\<rparr>"

definition idempotencyErrors :: "Spec \<Rightarrow> ProfileConfig \<Rightarrow> ValidationError list" where
  "idempotencyErrors spec profileConfig =
     (if require_idempotency profileConfig \<noteq> Some False
      then concat (map (\<lambda>(name, action).
             if act_type action = Command \<and> act_idempotent action \<noteq> Some True
             then [\<lparr>ve_path = ''actions.'' @ name,
                    ve_message = ''Commands must be idempotent in production profile'',
                    ve_schemaPath = None\<rparr>]
             else []) (actions spec))
      else [])"

text \<open>
  \<^verbatim>\<open>toLowerCase\<close> on the characters of the model: \<^verbatim>\<open>A\<close> to \<^verbatim>\<open>Z\<close>, and the capital letters
  U+00C0 to U+00DE without the multiplication sign U+00D7, move up by 32.
\<close>

definition toLowerCase :: "string \<Rightarrow> string" where
  "toLowerCase s =
     map (\<lambda>c. if ((65 :: nat) \<le> of_char c \<and> (of_char c :: nat) \<le> 90)
                   \<or> ((192 :: nat) \<le> of_char c \<and> (of_char c :: nat) \<le> 222
                       \<and> (of_char c :: nat) \<noteq> 215)
                then char_of (of_char c + (32 :: nat)) else c) s"

definition isFinancial :: "string \<Rightarrow> bool" where
  "isFinancial name =
     (str_includes (toLowerCase name) ''journal'' \<or> str_includes (toLowerCase name) ''ledger''
      \<or> str_includes (toLowerCase name) ''entry'' \<or> str_includes (toLowerCase name) ''posting'')"

definition productionWarnings :: "Spec \<Rightarrow> ProfileConfig \<Rightarrow> ValidationWarning list" where
  "productionWarnings spec profileConfig =
     (if require_rate_limits profileConfig \<noteq> Some False
      then concat (map (\<lambda>(name, action).
             if act_rate_limit action = None \<and> act_type action = Command
             then [\<lparr>vw_path = ''actions.'' @ name,
                    vw_message = ''Command should have rate limit defined for production'',
                    vw_suggestion = Some ''Add rate_limit configuration''\<rparr>]
             else []) (actions spec))
      else [])
     @ (if strict_tenancy profileConfig \<noteq> Some False \<and> tn_mode (prod_tenancy (product spec)) = Multi
        then concat (map (\<lambda>(name, entity).
               if ent_tenant_scoped entity = Some False
               then [\<lparr>vw_path = ''entities.'' @ name,
                      vw_message = ''Entity is not tenant-scoped in multi-tenant mode'',
                      vw_suggestion = Some
                        ''Set tenant_scoped: true or explicitly document why this is global''\<rparr>]
               else []) (entities spec))
        else [])
     @ concat (map (\<lambda>(name, entity).
         if isFinancial name \<and> ent_ai_suggest_only entity \<noteq> Some True
         then [\<lparr>vw_path = ''entities.'' @ name,
                vw_message = ''Financial entity should be ai_suggest_only for safety'',
                vw_suggestion = Some ''Set ai_suggest_only: true''\<rparr>]
         else []) (entities spec))"

subsection \<open>\<^verbatim>\<open>validateStrictRules\<close>\<close>

definition strictWarnings :: "Spec \<Rightarrow> ValidationWarning list" where
  "strictWarnings spec =
     concat (map (\<lambda>(name, entity).
       if falsy_string (ent_description entity)
       then [\<lparr>vw_path = ''entities.'' @ name, vw_message = ''Entity should have a description'',
              vw_suggestion = None\<rparr>]
       else []) (entities spec))
     @ concat (map (\<lambda>(name, action).
         if falsy_string (act_description action)
         then [\<lparr>vw_path = ''actions.'' @ name, vw_message = ''Action should have a description'',
                vw_suggestion = None\<rparr>]
         else []) (actions spec))
     @ concat (map (\<lambda>screenName.
         if screenName \<notin> set (concat (map (\<lambda>(n, flow). map (\<lambda>(s, step). step_screen step)
                                                        (flow_steps flow)) (flows spec)))
         then [\<lparr>vw_path = ''ui.screens.'' @ screenName,
                vw_message = ''Screen is not referenced by any flow'', vw_suggestion = None\<rparr>]
         else []) (map fst (or_empty (ui_screens (ui spec)))))"

subsection \<open>\<^verbatim>\<open>validate\<close>\<close>

definition effectiveProfile :: "ValidateOptions \<Rightarrow> Spec \<Rightarrow> Profile" where
  "effectiveProfile options spec =
     (case opt_profile options of Some p \<Rightarrow> p | None \<Rightarrow> prod_profile (product spec))"

definition profileConfigOf :: "Spec \<Rightarrow> Profile \<Rightarrow> ProfileConfig option" where
  "profileConfigOf spec profile =
     (case prod_profiles (product spec) of
        None \<Rightarrow> None
      | Some ps \<Rightarrow> (case profile of Dev \<Rightarrow> profiles_dev ps | Prod \<Rightarrow> profiles_prod ps))"

definition validate :: "schemas \<Rightarrow> Spec \<Rightarrow> ValidateOptions \<Rightarrow> ValidationResult" where
  "validate getSchema spec options =
     (let profile = effectiveProfile options spec;
          profileConfig = profileConfigOf spec profile;
          production = (profile = Prod \<or> profileConfig \<noteq> None);
          config = (case profileConfig of None \<Rightarrow> emptyProfileConfig | Some c \<Rightarrow> c);
          errors = schemaErrors getSchema spec
                   @ (if production then idempotencyErrors spec config else []);
          warnings = (if production then productionWarnings spec config else [])
                     @ (if opt_strict options = Some True then strictWarnings spec else [])
      in \<lparr>vr_valid = (errors = []), vr_errors = errors, vr_warnings = warnings\<rparr>)"

section \<open>Properties of the rate limiter\<close>

lemma ceil_seconds_ceiling:
  "1000 * (ceil_seconds ms - 1) < ms \<and> ms \<le> 1000 * ceil_seconds ms"
proof -
  have d: "- ms = 1000 * ((- ms) div 1000) + (- ms) mod 1000" by simp
  have r: "0 \<le> (- ms) mod 1000" "(- ms) mod 1000 < 1000" by simp_all
  have "1000 * (- ((- ms) div 1000)) - 1000 < ms" using d r by linarith
  moreover have "ms \<le> 1000 * (- ((- ms) div 1000))" using d r by linarith
  ultimately show ?thesis by (simp add: ceil_seconds_def algebra_simps)
qed

lemma seconds_range:
  fixes k m :: int
  assumes "0 < m" "m \<le> 60000" "1000 * (k - 1) < m" "m \<le> 1000 * k"
  shows "0 < k \<and> k \<le> 60"
proof -
  from assms(3) have "1000 * k - 1000 < m" by (simp add: algebra_simps)
  with assms have "0 < k" "k < 61" by linarith+
  then show ?thesis by simp
qed

lemma consume_fresh:
  assumes "store key = None"
  shows "consume cfg a b key store =
     (if 0 < maxRequests cfg
      then (\<lparr>allowed = True, remaining = maxRequests cfg - 1, resetAt = a + windowMs, retryAfter = None\<rparr>,
            store(key \<mapsto> \<lparr>count = 1, entryResetAt = b + windowMs\<rparr>))
      else (\<lparr>allowed = False, remaining = 0, resetAt = a + windowMs,
             retryAfter = Some (ceil_seconds windowMs)\<rparr>, store))"
  using assms by (auto simp: consume_def check_def currentEntry_def Let_def)

lemma consume_expired:
  assumes "store key = Some en" "entryResetAt en < a" "a \<le> b"
  shows "consume cfg a b key store =
     (if 0 < maxRequests cfg
      then (\<lparr>allowed = True, remaining = maxRequests cfg - 1, resetAt = a + windowMs, retryAfter = None\<rparr>,
            store(key \<mapsto> \<lparr>count = 1, entryResetAt = b + windowMs\<rparr>))
      else (\<lparr>allowed = False, remaining = 0, resetAt = a + windowMs,
             retryAfter = Some (ceil_seconds windowMs)\<rparr>, store))"
  using assms by (auto simp: consume_def check_def currentEntry_def Let_def)

lemma consume_live:
  assumes "store key = Some en" "a \<le> entryResetAt en" "b \<le> entryResetAt en"
  shows "consume cfg a b key store =
     (if count en < maxRequests cfg
      then (\<lparr>allowed = True, remaining = maxRequests cfg - count en - 1,
             resetAt = entryResetAt en, retryAfter = None\<rparr>,
            store(key \<mapsto> en\<lparr>count := count en + 1\<rparr>))
      else (\<lparr>allowed = False, remaining = 0, resetAt = entryResetAt en,
             retryAfter = Some (ceil_seconds (entryResetAt en - a))\<rparr>, store))"
  using assms by (auto simp: consume_def check_def currentEntry_def Let_def)

lemma consumeAll_live:
  assumes "store key = Some en" "\<forall>(a, b) \<in> set ts. a \<le> entryResetAt en \<and> b \<le> entryResetAt en"
  shows "length (filter allowed (fst (consumeAll cfg key ts store)))
           = min (length ts) (nat (maxRequests cfg - count en))"
  using assms
proof (induction ts arbitrary: store en)
  case Nil
  then show ?case by simp
next
  case (Cons t ts)
  obtain a b where t: "t = (a, b)" by (cases t)
  from Cons.prems have ab: "a \<le> entryResetAt en" "b \<le> entryResetAt en"
    and rest: "\<forall>(a, b) \<in> set ts. a \<le> entryResetAt en \<and> b \<le> entryResetAt en"
    by (auto simp: t)
  show ?case
  proof (cases "count en < maxRequests cfg")
    case True
    let ?en = "en\<lparr>count := count en + 1\<rparr>"
    let ?st = "store(key \<mapsto> ?en)"
    have c: "consume cfg a b key store = (\<lparr>allowed = True, remaining = maxRequests cfg - count en - 1,
             resetAt = entryResetAt en, retryAfter = None\<rparr>, ?st)"
      using consume_live[where store=store and key=key, OF Cons.prems(1) ab] True by simp
    have "length (filter allowed (fst (consumeAll cfg key ts ?st)))
           = min (length ts) (nat (maxRequests cfg - count ?en))"
      by (rule Cons.IH) (use rest in auto)
    then show ?thesis using True by (simp add: t c case_prod_beta)
  next
    case False
    have c: "consume cfg a b key store = (\<lparr>allowed = False, remaining = 0, resetAt = entryResetAt en,
             retryAfter = Some (ceil_seconds (entryResetAt en - a))\<rparr>, store)"
      using consume_live[where store=store and key=key, OF Cons.prems(1) ab] False by simp
    have "length (filter allowed (fst (consumeAll cfg key ts store)))
           = min (length ts) (nat (maxRequests cfg - count en))"
      by (rule Cons.IH) (use Cons.prems(1) rest in auto)
    then show ?thesis using False by (simp add: t c case_prod_beta)
  qed
qed

lemma consumeAll_no_quota:
  assumes "store key = None" "maxRequests cfg \<le> 0"
  shows "filter allowed (fst (consumeAll cfg key ts store)) = []"
  using assms
proof (induction ts arbitrary: store)
  case Nil
  then show ?case by simp
next
  case (Cons t ts)
  obtain a b where t: "t = (a, b)" by (cases t)
  have c: "consume cfg a b key store = (\<lparr>allowed = False, remaining = 0, resetAt = a + windowMs,
             retryAfter = Some (ceil_seconds windowMs)\<rparr>, store)"
    using consume_fresh[where store=store and key=key, OF Cons.prems(1)] Cons.prems(2) by simp
  have "filter allowed (fst (consumeAll cfg key ts store)) = []"
    by (rule Cons.IH) (use Cons.prems in auto)
  then show ?case by (simp add: t c case_prod_beta)
qed

lemma quota_per_window:
  assumes fresh: "store key = None"
    and within: "\<forall>(a, b) \<in> set ts. a \<le> b1 + windowMs \<and> b \<le> b1 + windowMs"
  shows "length (filter allowed (fst (consumeAll cfg key ((a1, b1) # ts) store)))
           = min (Suc (length ts)) (nat (maxRequests cfg))"
proof (cases "0 < maxRequests cfg")
  case True
  let ?en = "\<lparr>count = 1, entryResetAt = b1 + windowMs\<rparr>"
  let ?st = "store(key \<mapsto> ?en)"
  have c: "consume cfg a1 b1 key store =
      (\<lparr>allowed = True, remaining = maxRequests cfg - 1, resetAt = a1 + windowMs, retryAfter = None\<rparr>, ?st)"
    using consume_fresh[where store=store and key=key, OF fresh] True by simp
  have "length (filter allowed (fst (consumeAll cfg key ts ?st)))
          = min (length ts) (nat (maxRequests cfg - count ?en))"
    by (rule consumeAll_live) (use within in auto)
  then show ?thesis using True by (simp add: c case_prod_beta)
next
  case False
  then have "maxRequests cfg \<le> 0" by simp
  then have "filter allowed (fst (consumeAll cfg key ((a1, b1) # ts) store)) = []"
    by (rule consumeAll_no_quota[where store=store and key=key, OF fresh])
  then show ?thesis using False by simp
qed

text \<open>
  Claim C6. With \<^verbatim>\<open>requestsPerMinute = 2\<close> and \<^verbatim>\<open>burst = 0\<close>, three consecutive
  \<^verbatim>\<open>consume(key)\<close> calls on a fresh key inside one window of 60000 ms return allowed,
  allowed, denied. The window is the one the first call stores: it ends at \<open>b1 + 60000\<close>,
  where \<open>b1\<close> is the first call's second clock reading. The denied third result carries a
  \<^verbatim>\<open>retryAfter\<close> \<open>k\<close> that is the ceiling in whole seconds of the remaining time
  \<open>resetAt - a3\<close>: \<open>1000 (k - 1) < resetAt - a3 \<le> 1000 k\<close>, so \<open>k\<close> is greater than 0 and at
  most 60. A call after \<^verbatim>\<open>resetAt\<close> is allowed again and stores a fresh window. In
  general, for every configuration, of a run of calls on a fresh key inside the first
  window exactly the first \<^verbatim>\<open>requestsPerMinute + burst\<close> are allowed.
\<close>

theorem rate_limiter_windowing:
  assumes cfg: "requestsPerMinute cfg = 2" "burst cfg = Some 0"
    and fresh: "store key = None"
    and clock: "a1 \<le> b1" "b1 \<le> a2" "a2 \<le> b2" "b2 \<le> a3"
    and window: "a3 < b1 + 60000"
    and later: "b1 + 60000 < a4" "a4 \<le> b4"
  shows "(case consume cfg a1 b1 key store of (r1, s1) \<Rightarrow>
          case consume cfg a2 b2 key s1 of (r2, s2) \<Rightarrow>
          case consume cfg a3 b3 key s2 of (r3, s3) \<Rightarrow>
          case consume cfg a4 b4 key s3 of (r4, s4) \<Rightarrow>
            allowed r1 \<and> allowed r2 \<and> \<not> allowed r3
            \<and> resetAt r3 = b1 + 60000
            \<and> (\<exists>k. retryAfter r3 = Some k
                   \<and> 1000 * (k - 1) < resetAt r3 - a3 \<and> resetAt r3 - a3 \<le> 1000 * k
                   \<and> 0 < k \<and> k \<le> 60)
            \<and> allowed r4 \<and> resetAt r4 = a4 + 60000
            \<and> s4 key = Some \<lparr>count = 1, entryResetAt = b4 + 60000\<rparr>)
         \<and> (\<forall>cfg' ts. (\<forall>(a, b) \<in> set ts. a \<le> b1 + 60000 \<and> b \<le> b1 + 60000) \<longrightarrow>
               length (filter allowed (fst (consumeAll cfg' key ((a1, b1) # ts) store)))
                 = min (Suc (length ts))
                       (nat (requestsPerMinute cfg' + (case burst cfg' of None \<Rightarrow> 0 | Some b \<Rightarrow> b))))"
proof -
  have m: "maxRequests cfg = 2" using cfg by (simp add: maxRequests_def)
  let ?e1 = "\<lparr>count = 1, entryResetAt = b1 + 60000\<rparr>"
  let ?e2 = "\<lparr>count = 2, entryResetAt = b1 + 60000\<rparr>"
  let ?s1 = "store(key \<mapsto> ?e1)"
  let ?s2 = "store(key \<mapsto> ?e2)"
  let ?k = "ceil_seconds (b1 + 60000 - a3)"
  have c1: "consume cfg a1 b1 key store =
      (\<lparr>allowed = True, remaining = 1, resetAt = a1 + 60000, retryAfter = None\<rparr>, ?s1)"
    using consume_fresh[where store=store and key=key and cfg=cfg, OF fresh] m
    by (simp add: windowMs_def)
  have c2: "consume cfg a2 b2 key ?s1 =
      (\<lparr>allowed = True, remaining = 0, resetAt = b1 + 60000, retryAfter = None\<rparr>, ?s2)"
    using consume_live[where store="?s1" and key=key and en="?e1" and a=a2 and b=b2 and cfg=cfg]
      m clock window by simp
  have c3: "consume cfg a3 b3 key ?s2 =
      (\<lparr>allowed = False, remaining = 0, resetAt = b1 + 60000, retryAfter = Some ?k\<rparr>, ?s2)"
    using m clock window
    by (simp add: consume_def check_def currentEntry_def Let_def)
  have c4: "consume cfg a4 b4 key ?s2 =
      (\<lparr>allowed = True, remaining = 1, resetAt = a4 + 60000, retryAfter = None\<rparr>,
       ?s2(key \<mapsto> \<lparr>count = 1, entryResetAt = b4 + 60000\<rparr>))"
    using consume_expired[where store="?s2" and key=key and en="?e2" and a=a4 and b=b4 and cfg=cfg]
      m later by (simp add: windowMs_def)
  have rng: "0 < b1 + 60000 - a3" "b1 + 60000 - a3 \<le> 60000"
    using clock window by simp_all
  have ceil: "1000 * (?k - 1) < b1 + 60000 - a3" "b1 + 60000 - a3 \<le> 1000 * ?k"
    using ceil_seconds_ceiling[of "b1 + 60000 - a3"] by simp_all
  have k: "0 < ?k" "?k \<le> 60"
    using seconds_range[OF rng ceil] by simp_all
  have retry: "\<exists>k. Some ?k = Some k
                   \<and> 1000 * (k - 1) < b1 + 60000 - a3 \<and> b1 + 60000 - a3 \<le> 1000 * k
                   \<and> 0 < k \<and> k \<le> 60"
    using ceil k by blast
  have scenario: "(case consume cfg a1 b1 key store of (r1, s1) \<Rightarrow>
          case consume cfg a2 b2 key s1 of (r2, s2) \<Rightarrow>
          case consume cfg a3 b3 key s2 of (r3, s3) \<Rightarrow>
          case consume cfg a4 b4 key s3 of (r4, s4) \<Rightarrow>
            allowed r1 \<and> allowed r2 \<and> \<not> allowed r3
            \<and> resetAt r3 = b1 + 60000
            \<and> (\<exists>k. retryAfter r3 = Some k
                   \<and> 1000 * (k - 1) < resetAt r3 - a3 \<and> resetAt r3 - a3 \<le> 1000 * k
                   \<and> 0 < k \<and> k \<le> 60)
            \<and> allowed r4 \<and> resetAt r4 = a4 + 60000
            \<and> s4 key = Some \<lparr>count = 1, entryResetAt = b4 + 60000\<rparr>)"
    using retry by (simp add: c1 c2 c3 c4)
  have general: "\<forall>cfg' ts. (\<forall>(a, b) \<in> set ts. a \<le> b1 + 60000 \<and> b \<le> b1 + 60000) \<longrightarrow>
               length (filter allowed (fst (consumeAll cfg' key ((a1, b1) # ts) store)))
                 = min (Suc (length ts))
                       (nat (requestsPerMinute cfg' + (case burst cfg' of None \<Rightarrow> 0 | Some b \<Rightarrow> b)))"
    using quota_per_window[where store=store and key=key, OF fresh]
    by (simp add: maxRequests_def windowMs_def)
  from scenario general show ?thesis by (rule conjI)
qed

definition cfg0 :: RateLimitConfig where
  "cfg0 = \<lparr>requestsPerMinute = 2, burst = Some 0, scope = ScopeUser\<rparr>"

theorem rate_limiter_windowing_witness:
  "requestsPerMinute cfg0 = 2 \<and> burst cfg0 = Some 0
   \<and> (Map.empty :: RateLimitStore) ''rate:user:u1'' = None
   \<and> (case consume cfg0 1000 1000 ''rate:user:u1'' Map.empty of (r1, s1) \<Rightarrow>
        case consume cfg0 1500 1501 ''rate:user:u1'' s1 of (r2, s2) \<Rightarrow>
        case consume cfg0 2499 2500 ''rate:user:u1'' s2 of (r3, s3) \<Rightarrow>
        case consume cfg0 61001 61002 ''rate:user:u1'' s3 of (r4, s4) \<Rightarrow>
          map allowed [r1, r2, r3, r4] = [True, True, False, True]
          \<and> resetAt r3 = 61000 \<and> retryAfter r3 = Some 59
          \<and> resetAt r4 = 121001
          \<and> s4 ''rate:user:u1'' = Some \<lparr>count = 1, entryResetAt = 121002\<rparr>)
   \<and> length (filter allowed (fst (consumeAll cfg0 ''rate:user:u1''
         [(1000, 1000), (1500, 1501), (2000, 2000), (60001, 60001)] Map.empty))) = 2"
proof -
  have inst:
    "(case consume cfg0 1000 1000 ''rate:user:u1'' Map.empty of (r1, s1) \<Rightarrow>
        case consume cfg0 1500 1501 ''rate:user:u1'' s1 of (r2, s2) \<Rightarrow>
        case consume cfg0 2499 2500 ''rate:user:u1'' s2 of (r3, s3) \<Rightarrow>
        case consume cfg0 61001 61002 ''rate:user:u1'' s3 of (r4, s4) \<Rightarrow>
            allowed r1 \<and> allowed r2 \<and> \<not> allowed r3
            \<and> resetAt r3 = 1000 + 60000
            \<and> (\<exists>k. retryAfter r3 = Some k
                   \<and> 1000 * (k - 1) < resetAt r3 - 2499 \<and> resetAt r3 - 2499 \<le> 1000 * k
                   \<and> 0 < k \<and> k \<le> 60)
            \<and> allowed r4 \<and> resetAt r4 = 61001 + 60000
            \<and> s4 ''rate:user:u1'' = Some \<lparr>count = 1, entryResetAt = 61002 + 60000\<rparr>)
     \<and> (\<forall>cfg' ts. (\<forall>(a, b) \<in> set ts. a \<le> 1000 + 60000 \<and> b \<le> 1000 + 60000) \<longrightarrow>
           length (filter allowed (fst (consumeAll cfg' ''rate:user:u1'' ((1000, 1000) # ts) Map.empty)))
             = min (Suc (length ts))
                   (nat (requestsPerMinute cfg' + (case burst cfg' of None \<Rightarrow> 0 | Some b \<Rightarrow> b))))"
    by (rule rate_limiter_windowing[of cfg0 Map.empty "''rate:user:u1''" 1000 1000 1500 1501 2499
          61001 61002 2500])
       (simp_all add: cfg0_def)
  from inst have quota:
    "length (filter allowed (fst (consumeAll cfg0 ''rate:user:u1''
         ((1000, 1000) # [(1500, 1501), (2000, 2000), (60001, 60001)]) Map.empty))) = 2"
    by (simp add: cfg0_def del: consumeAll.simps)
  have scen:
    "(case consume cfg0 1000 1000 ''rate:user:u1'' Map.empty of (r1, s1) \<Rightarrow>
        case consume cfg0 1500 1501 ''rate:user:u1'' s1 of (r2, s2) \<Rightarrow>
        case consume cfg0 2499 2500 ''rate:user:u1'' s2 of (r3, s3) \<Rightarrow>
        case consume cfg0 61001 61002 ''rate:user:u1'' s3 of (r4, s4) \<Rightarrow>
          map allowed [r1, r2, r3, r4] = [True, True, False, True]
          \<and> resetAt r3 = 61000 \<and> retryAfter r3 = Some 59
          \<and> resetAt r4 = 121001
          \<and> s4 ''rate:user:u1'' = Some \<lparr>count = 1, entryResetAt = 121002\<rparr>)"
    by (simp add: cfg0_def consume_def check_def currentEntry_def maxRequests_def
          ceil_seconds_def windowMs_def Let_def)
  from scen quota show ?thesis by (simp add: cfg0_def del: consumeAll.simps)
qed

section \<open>Properties of the condition evaluator\<close>

lemma resolvePath_returns: "\<exists>x. resolvePath rt v parts = Inr x"
proof (induction parts arbitrary: v)
  case Nil
  then show ?case by simp
next
  case (Cons part parts)
  show ?case
  proof (cases "is_nullish v")
    case True
    then show ?thesis by simp
  next
    case False
    then have "\<exists>v'. getProp rt v part = Inr v'"
      by (cases v) (auto split: option.splits)
    then obtain v' where "getProp rt v part = Inr v'" by blast
    with False Cons.IH[of v'] show ?thesis by simp
  qed
qed

lemma resolveValue_returns: "\<exists>x. resolveValue rt (Some expr) ctx = Inr x"
  using resolvePath_returns[of rt "ctxObject ctx" "str_split (trim expr) ''.''"]
  by (simp add: Let_def)

declare resolveValue.simps [simp del]

lemma nth_opt_split:
  assumes "sep \<noteq> []" "str_includes expr sep"
  shows "\<exists>l r. nth_opt (map f (str_split expr sep)) 0 = Some l
             \<and> nth_opt (map f (str_split expr sep)) (Suc 0) = Some r"
  using split_two_parts[OF assms] by (cases "str_split expr sep") (auto simp: nth_opt_def)

lemma case_Inr_returns:
  "\<exists>x. r = Inr x \<Longrightarrow> \<exists>b. (case r of Inl e \<Rightarrow> Inl e | Inr v \<Rightarrow> Inr (g v)) = Inr b"
  by auto

lemma resolveBoth_returns:
  assumes "sep \<noteq> []" "str_includes expr sep"
  shows "\<exists>b. resolveBoth rt expr sep ctx f = Inr b"
proof -
  obtain l r where lr: "nth_opt (map trim (str_split expr sep)) 0 = Some l"
      "nth_opt (map trim (str_split expr sep)) (Suc 0) = Some r"
    using nth_opt_split[OF assms, of trim] by blast
  obtain lv where lv: "resolveValue rt (Some l) ctx = Inr lv"
    using resolveValue_returns by blast
  obtain rv where rv: "resolveValue rt (Some r) ctx = Inr rv"
    using resolveValue_returns by blast
  show ?thesis by (simp add: resolveBoth_def Let_def lr lv rv)
qed

lemma evaluateAtom_returns: "\<exists>b. evaluateAtom rt expr ctx = Inr b"
proof (cases "str_includes expr '' IS NOT NULL''")
  case True
  then show ?thesis
    unfolding evaluateAtom_def
    by (simp add: case_Inr_returns resolveValue_returns)
next
  case nn: False
  show ?thesis
  proof (cases "str_includes expr '' IS NULL''")
    case True
    with nn show ?thesis
      unfolding evaluateAtom_def
      by (simp add: case_Inr_returns resolveValue_returns)
  next
    case n: False
    show ?thesis
    proof (cases "str_includes expr '' IN ''")
      case True
      with nn n show ?thesis
        unfolding evaluateAtom_def
        by (simp add: resolveBoth_returns)
    next
      case i: False
      show ?thesis
      proof (cases "find (\<lambda>op. str_includes expr ('' '' @ op @ '' '')) operators")
        case None
        with nn n i show ?thesis
          unfolding evaluateAtom_def
          by (simp add: case_Inr_returns resolveValue_returns)
      next
        case (Some op)
        then have "str_includes expr ('' '' @ op @ '' '')"
          by (auto simp: find_Some_iff)
        then have "\<exists>b. resolveBoth rt expr ('' '' @ op @ '' '') ctx (\<lambda>l r. compareValues rt l r op) = Inr b"
          by (intro resolveBoth_returns) simp_all
        with nn n i Some show ?thesis
          unfolding evaluateAtom_def by simp
      qed
    qed
  qed
qed

lemma evaluateCondition_try_returns:
  "evaluateCondition_try rt expression ctx = Inr (evaluateCondition rt expression ctx)"
proof -
  obtain b where "evaluateAtom rt (trim expression) ctx = Inr b"
    using evaluateAtom_returns by blast
  then have "\<exists>b. evaluateCondition_try rt expression ctx = Inr b"
    by (subst evaluateCondition_try.simps) (simp add: Let_def)
  then show ?thesis by (auto simp: evaluateCondition_def catch_false_def)
qed

subsection \<open>Fail-closed evaluation\<close>

text \<open>
  The shapes of a trimmed expression, as the tests of \<^verbatim>\<open>evaluateCondition\<close> take them in
  order: no logical operator; none of the keywords at all; a comparison with the first
  operator of the list that occurs.
\<close>

definition atom_expression :: "string \<Rightarrow> bool" where
  "atom_expression e =
     (\<not> str_includes e '' AND '' \<and> \<not> str_includes e '' OR '' \<and> \<not> startsWith e ''NOT '')"

definition bare_expression :: "string \<Rightarrow> bool" where
  "bare_expression e =
     (\<not> str_includes e '' AND '' \<and> \<not> str_includes e '' OR '' \<and> \<not> startsWith e ''NOT ''
      \<and> \<not> str_includes e '' IS NOT NULL'' \<and> \<not> str_includes e '' IS NULL''
      \<and> \<not> str_includes e '' IN ''
      \<and> find (\<lambda>op. str_includes e ('' '' @ op @ '' '')) operators = None)"

definition comparison_expression :: "string \<Rightarrow> string \<Rightarrow> bool" where
  "comparison_expression e op =
     (\<not> str_includes e '' AND '' \<and> \<not> str_includes e '' OR '' \<and> \<not> startsWith e ''NOT ''
      \<and> \<not> str_includes e '' IS NOT NULL'' \<and> \<not> str_includes e '' IS NULL''
      \<and> \<not> str_includes e '' IN ''
      \<and> find (\<lambda>op. str_includes e ('' '' @ op @ '' '')) operators = Some op)"

text \<open>
  The operands of a binary operator: \<^verbatim>\<open>[left, right] = expr.split(sep).map(trim)\<close>, each
  resolved.
\<close>

definition operand ::
  "'n runtime \<Rightarrow> string \<Rightarrow> string \<Rightarrow> nat \<Rightarrow> 'n ConditionContext \<Rightarrow> js_error + 'n jsval" where
  "operand rt e sep i ctx = resolveValue rt (nth_opt (map trim (str_split e sep)) i) ctx"

lemma evaluateCondition_atom:
  assumes "atom_expression (trim expression)"
  shows "evaluateCondition rt expression ctx = catch_false (evaluateAtom rt (trim expression) ctx)"
  using assms
  by (simp add: evaluateCondition_def evaluateCondition_try.simps[of rt expression ctx]
        atom_expression_def)

lemma evaluateCondition_bare:
  assumes "bare_expression (trim expression)"
    and "resolveValue rt (Some (trim expression)) ctx = Inr v"
  shows "evaluateCondition rt expression ctx = truthy rt v"
  using assms
  by (simp add: evaluateCondition_def evaluateCondition_try.simps[of rt expression ctx]
        bare_expression_def evaluateAtom_def catch_false_def)

lemma evaluateCondition_and:
  assumes "str_includes (trim expression) '' AND ''"
  shows "evaluateCondition rt expression ctx
           = list_all (\<lambda>part. evaluateCondition rt (trim part) ctx)
               (str_split (trim expression) '' AND '')"
  using assms
  by (simp add: evaluateCondition_def evaluateCondition_try.simps[of rt expression ctx]
        catch_false_def)

lemma evaluateCondition_or:
  assumes "\<not> str_includes (trim expression) '' AND ''"
    and "str_includes (trim expression) '' OR ''"
  shows "evaluateCondition rt expression ctx
           = list_ex (\<lambda>part. evaluateCondition rt (trim part) ctx)
               (str_split (trim expression) '' OR '')"
  using assms
  by (simp add: evaluateCondition_def evaluateCondition_try.simps[of rt expression ctx]
        catch_false_def)

lemma evaluateCondition_is_not_null:
  assumes "atom_expression (trim expression)"
    and "str_includes (trim expression) '' IS NOT NULL''"
    and "resolveValue rt (Some (trim (replace_first (trim expression) '' IS NOT NULL'' []))) ctx
           = Inr v"
  shows "evaluateCondition rt expression ctx = (\<not> is_nullish v)"
  using assms by (simp add: evaluateCondition_atom evaluateAtom_def catch_false_def)

lemma evaluateCondition_in:
  assumes "atom_expression (trim expression)"
    and "\<not> str_includes (trim expression) '' IS NOT NULL''"
    and "\<not> str_includes (trim expression) '' IS NULL''"
    and "str_includes (trim expression) '' IN ''"
    and "operand rt (trim expression) '' IN '' 0 ctx = Inr lv"
    and "operand rt (trim expression) '' IN '' 1 ctx = Inr rv"
  shows "evaluateCondition rt expression ctx = inList rt lv rv"
  using assms
  by (simp add: evaluateCondition_atom evaluateAtom_def resolveBoth_def operand_def
        catch_false_def Let_def)

lemma evaluateCondition_comparison:
  assumes "comparison_expression (trim expression) op"
    and "operand rt (trim expression) ('' '' @ op @ '' '') 0 ctx = Inr lv"
    and "operand rt (trim expression) ('' '' @ op @ '' '') 1 ctx = Inr rv"
  shows "evaluateCondition rt expression ctx = compareValues rt lv rv op"
proof -
  from assms(1) have a: "atom_expression (trim expression)"
    by (simp add: comparison_expression_def atom_expression_def)
  from assms show ?thesis
    unfolding evaluateCondition_atom[OF a]
    by (simp add: comparison_expression_def evaluateAtom_def resolveBoth_def operand_def
          catch_false_def Let_def)
qed

lemma strictEquals_undefined:
  "strictEquals rt VUndefined v = (v = VUndefined)"
  "strictEquals rt v VUndefined = (v = VUndefined)"
  by (cases v; simp)+

lemma inList_nullish: "is_nullish rv \<Longrightarrow> inList rt lv rv = False"
  by (cases rv) (simp_all add: inList_def)

lemma malformed_example_bare: "bare_expression (trim ''not.a.valid>>expr'')"
  by code_simp

lemma malformed_example_split:
  "trim ''not.a.valid>>expr'' = ''not.a.valid>>expr''
   \<and> trim (trim ''not.a.valid>>expr'') = ''not.a.valid>>expr''
   \<and> \<not> startsWith ''not.a.valid>>expr'' [CHR 0x27]
   \<and> \<not> startsWith ''not.a.valid>>expr'' [CHR 0x22]
   \<and> \<not> is_number_literal ''not.a.valid>>expr''
   \<and> \<not> startsWith ''not.a.valid>>expr'' ''(''
   \<and> str_split ''not.a.valid>>expr'' ''.'' = [''not'', ''a'', ''valid>>expr'']"
  by code_simp

lemma malformed_example_resolves:
  assumes "rt_member rt (ctxObject ctx) ''not'' = VUndefined"
  shows "resolveValue rt (Some (trim ''not.a.valid>>expr'')) ctx = Inr VUndefined"
  using assms malformed_example_split
  by (simp add: resolveValue.simps Let_def ctxObject_def)

text \<open>
  Claim C3, as amended. \<^verbatim>\<open>evaluateCondition\<close> never throws: for every runtime, expression
  and context its \<^verbatim>\<open>try\<close> body returns a boolean. A resolution that fails (a dotted path
  with a missing segment, a malformed expression read as a path) is the value
  \<^verbatim>\<open>undefined\<close>, not an error, and the result is \<^verbatim>\<open>false\<close> in these cases, \<open>e\<close> being the
  trimmed expression:
  \<^item> \<open>e\<close> has none of the operator keywords and resolves to \<^verbatim>\<open>undefined\<close> or \<^verbatim>\<open>null\<close>; so
    for \<^verbatim>\<open>'not.a.valid>>expr'\<close> in every context without a member \<^verbatim>\<open>not\<close>;
  \<^item> \<open>e\<close> is an \<^verbatim>\<open>AND\<close> and one of its parts evaluates to \<^verbatim>\<open>false\<close>, or an \<^verbatim>\<open>OR\<close> and
    all of its parts evaluate to \<^verbatim>\<open>false\<close>;
  \<^item> \<open>e\<close> is an \<^verbatim>\<open>IS NOT NULL\<close> test of something that resolves to \<^verbatim>\<open>undefined\<close> or
    \<^verbatim>\<open>null\<close>;
  \<^item> \<open>e\<close> is an \<^verbatim>\<open>IN\<close> test whose right operand resolves to \<^verbatim>\<open>undefined\<close> or \<^verbatim>\<open>null\<close>;
  \<^item> \<open>e\<close> is a comparison with \<^verbatim>\<open>=\<close> and exactly one operand resolves to \<^verbatim>\<open>undefined\<close>;
  \<^item> \<open>e\<close> is a comparison with \<^verbatim>\<open><\<close>, \<^verbatim>\<open>>\<close>, \<^verbatim>\<open><=\<close> or \<^verbatim>\<open>>=\<close>, an operand resolves to
    \<^verbatim>\<open>undefined\<close>, and the runtime has \<^verbatim>\<open>Number(undefined)\<close> compare false with every
    number, as NaN does.

  The amendment leaves out a failed resolution under \<^verbatim>\<open>NOT\<close>, \<^verbatim>\<open>IS NULL\<close> and \<^verbatim>\<open>!=\<close>, and
  under \<^verbatim>\<open>=\<close> when both operands fail: there the condition can be true.
\<close>

theorem evaluateCondition_never_throws:
  "evaluateCondition_try rt expression ctx = Inr (evaluateCondition rt expression ctx)
   \<and> (bare_expression (trim expression)
        \<and> (\<exists>v. resolveValue rt (Some (trim expression)) ctx = Inr v \<and> is_nullish v)
        \<longrightarrow> evaluateCondition rt expression ctx = False)
   \<and> (rt_member rt (ctxObject ctx) ''not'' = VUndefined
        \<longrightarrow> evaluateCondition rt ''not.a.valid>>expr'' ctx = False)
   \<and> (str_includes (trim expression) '' AND ''
        \<and> (\<exists>part \<in> set (str_split (trim expression) '' AND '').
               evaluateCondition rt (trim part) ctx = False)
        \<longrightarrow> evaluateCondition rt expression ctx = False)
   \<and> (\<not> str_includes (trim expression) '' AND '' \<and> str_includes (trim expression) '' OR ''
        \<and> (\<forall>part \<in> set (str_split (trim expression) '' OR '').
               evaluateCondition rt (trim part) ctx = False)
        \<longrightarrow> evaluateCondition rt expression ctx = False)
   \<and> (atom_expression (trim expression) \<and> str_includes (trim expression) '' IS NOT NULL''
        \<and> (\<exists>v. resolveValue rt
                   (Some (trim (replace_first (trim expression) '' IS NOT NULL'' []))) ctx = Inr v
                 \<and> is_nullish v)
        \<longrightarrow> evaluateCondition rt expression ctx = False)
   \<and> (atom_expression (trim expression) \<and> \<not> str_includes (trim expression) '' IS NOT NULL''
        \<and> \<not> str_includes (trim expression) '' IS NULL''
        \<and> str_includes (trim expression) '' IN ''
        \<and> (\<exists>rv. operand rt (trim expression) '' IN '' 1 ctx = Inr rv \<and> is_nullish rv)
        \<longrightarrow> evaluateCondition rt expression ctx = False)
   \<and> (comparison_expression (trim expression) ''=''
        \<and> (\<exists>lv rv. operand rt (trim expression) '' = '' 0 ctx = Inr lv
                   \<and> operand rt (trim expression) '' = '' 1 ctx = Inr rv
                   \<and> (lv = VUndefined) \<noteq> (rv = VUndefined))
        \<longrightarrow> evaluateCondition rt expression ctx = False)
   \<and> (op \<in> {''<'', ''>'', ''<='', ''>=''} \<and> comparison_expression (trim expression) op
        \<and> (operand rt (trim expression) ('' '' @ op @ '' '') 0 ctx = Inr VUndefined
             \<or> operand rt (trim expression) ('' '' @ op @ '' '') 1 ctx = Inr VUndefined)
        \<and> (\<forall>n. \<not> rt_lt rt (rt_Number rt VUndefined) n \<and> \<not> rt_lt rt n (rt_Number rt VUndefined)
                \<and> \<not> rt_le rt (rt_Number rt VUndefined) n \<and> \<not> rt_le rt n (rt_Number rt VUndefined))
        \<longrightarrow> evaluateCondition rt expression ctx = False)"
proof (intro conjI impI)
  show "evaluateCondition_try rt expression ctx = Inr (evaluateCondition rt expression ctx)"
    by (rule evaluateCondition_try_returns)
next
  assume h: "bare_expression (trim expression)
        \<and> (\<exists>v. resolveValue rt (Some (trim expression)) ctx = Inr v \<and> is_nullish v)"
  then obtain v where v: "resolveValue rt (Some (trim expression)) ctx = Inr v" "is_nullish v"
    by blast
  from v(2) have "\<not> truthy rt v" by (cases v) simp_all
  with evaluateCondition_bare[OF _ v(1)] h show "evaluateCondition rt expression ctx = False"
    by simp
next
  assume "rt_member rt (ctxObject ctx) ''not'' = VUndefined"
  from evaluateCondition_bare[OF malformed_example_bare malformed_example_resolves[OF this]]
  show "evaluateCondition rt ''not.a.valid>>expr'' ctx = False" by simp
next
  assume h: "str_includes (trim expression) '' AND ''
        \<and> (\<exists>part \<in> set (str_split (trim expression) '' AND '').
               evaluateCondition rt (trim part) ctx = False)"
  then show "evaluateCondition rt expression ctx = False"
    by (auto simp: evaluateCondition_and list_all_iff)
next
  assume h: "\<not> str_includes (trim expression) '' AND '' \<and> str_includes (trim expression) '' OR ''
        \<and> (\<forall>part \<in> set (str_split (trim expression) '' OR '').
               evaluateCondition rt (trim part) ctx = False)"
  then show "evaluateCondition rt expression ctx = False"
    by (auto simp: evaluateCondition_or list_ex_iff)
next
  assume h: "atom_expression (trim expression) \<and> str_includes (trim expression) '' IS NOT NULL''
        \<and> (\<exists>v. resolveValue rt
                   (Some (trim (replace_first (trim expression) '' IS NOT NULL'' []))) ctx = Inr v
                 \<and> is_nullish v)"
  then obtain v where
    v: "resolveValue rt (Some (trim (replace_first (trim expression) '' IS NOT NULL'' []))) ctx
          = Inr v" "is_nullish v"
    by blast
  from h evaluateCondition_is_not_null[OF _ _ v(1)] v(2)
  show "evaluateCondition rt expression ctx = False" by simp
next
  assume h: "atom_expression (trim expression) \<and> \<not> str_includes (trim expression) '' IS NOT NULL''
        \<and> \<not> str_includes (trim expression) '' IS NULL''
        \<and> str_includes (trim expression) '' IN ''
        \<and> (\<exists>rv. operand rt (trim expression) '' IN '' 1 ctx = Inr rv \<and> is_nullish rv)"
  then obtain rv where rv: "operand rt (trim expression) '' IN '' 1 ctx = Inr rv" "is_nullish rv"
    by blast
  from h have inc: "str_includes (trim expression) '' IN ''" by simp
  obtain l r where l: "nth_opt (map trim (str_split (trim expression) '' IN '')) 0 = Some l"
    using nth_opt_split[OF _ inc, of trim] by auto
  obtain lv where "resolveValue rt (Some l) ctx = Inr lv"
    using resolveValue_returns by blast
  then have lv: "operand rt (trim expression) '' IN '' 0 ctx = Inr lv"
    by (simp add: operand_def l)
  from h evaluateCondition_in[OF _ _ _ _ lv rv(1)] inList_nullish[OF rv(2)]
  show "evaluateCondition rt expression ctx = False" by simp
next
  assume h: "comparison_expression (trim expression) ''=''
        \<and> (\<exists>lv rv. operand rt (trim expression) '' = '' 0 ctx = Inr lv
                   \<and> operand rt (trim expression) '' = '' 1 ctx = Inr rv
                   \<and> (lv = VUndefined) \<noteq> (rv = VUndefined))"
  then obtain lv rv where o: "operand rt (trim expression) '' = '' 0 ctx = Inr lv"
      "operand rt (trim expression) '' = '' 1 ctx = Inr rv"
      and d: "(lv = VUndefined) \<noteq> (rv = VUndefined)"
    by blast
  from h have c: "comparison_expression (trim expression) ''=''" by simp
  have "evaluateCondition rt expression ctx = compareValues rt lv rv ''=''"
    using evaluateCondition_comparison[OF c] o by simp
  also have "\<dots> = False"
    using d by (auto simp: compareValues_def strictEquals_undefined)
  finally show "evaluateCondition rt expression ctx = False" .
next
  assume h: "op \<in> {''<'', ''>'', ''<='', ''>=''} \<and> comparison_expression (trim expression) op
        \<and> (operand rt (trim expression) ('' '' @ op @ '' '') 0 ctx = Inr VUndefined
             \<or> operand rt (trim expression) ('' '' @ op @ '' '') 1 ctx = Inr VUndefined)
        \<and> (\<forall>n. \<not> rt_lt rt (rt_Number rt VUndefined) n \<and> \<not> rt_lt rt n (rt_Number rt VUndefined)
                \<and> \<not> rt_le rt (rt_Number rt VUndefined) n \<and> \<not> rt_le rt n (rt_Number rt VUndefined))"
  then have c: "comparison_expression (trim expression) op"
    and ops: "op \<in> {''<'', ''>'', ''<='', ''>=''}"
    and nan: "\<And>n. \<not> rt_lt rt (rt_Number rt VUndefined) n" "\<And>n. \<not> rt_lt rt n (rt_Number rt VUndefined)"
      "\<And>n. \<not> rt_le rt (rt_Number rt VUndefined) n" "\<And>n. \<not> rt_le rt n (rt_Number rt VUndefined)"
    by simp_all
  define sep where "sep = '' '' @ op @ '' ''"
  from c have inc: "str_includes (trim expression) sep"
    by (auto simp: comparison_expression_def sep_def dest: find_Some_iff[THEN iffD1])
  have ne: "sep \<noteq> []" by (simp add: sep_def)
  obtain l r where lr: "nth_opt (map trim (str_split (trim expression) sep)) 0 = Some l"
      "nth_opt (map trim (str_split (trim expression) sep)) (Suc 0) = Some r"
    using nth_opt_split[OF ne inc, of trim] by blast
  obtain lv where lv: "resolveValue rt (Some l) ctx = Inr lv"
    using resolveValue_returns by blast
  obtain rv where rv: "resolveValue rt (Some r) ctx = Inr rv"
    using resolveValue_returns by blast
  have o: "operand rt (trim expression) sep 0 ctx = Inr lv"
      "operand rt (trim expression) sep 1 ctx = Inr rv"
    by (simp_all add: operand_def lr lv rv)
  from h o have u: "lv = VUndefined \<or> rv = VUndefined"
    unfolding sep_def[symmetric] by auto
  have "evaluateCondition rt expression ctx = compareValues rt lv rv op"
    using evaluateCondition_comparison[OF c] o unfolding sep_def by blast
  also have "\<dots> = False"
    using u ops nan by (auto simp: compareValues_def)
  finally show "evaluateCondition rt expression ctx = False" .
qed

definition ctx0 :: "rat option ConditionContext" where
  "ctx0 = \<lparr>cc_user = [(''id'', VStr ''u1''), (''roles'', VArr [VStr ''viewer''])],
            cc_resource = [(''status'', VStr ''draft''), (''owner'', VStr ''u1'')],
            cc_request = []\<rparr>"

lemma example_runtime_nan:
  "\<not> rt_lt example_runtime (rt_Number example_runtime VUndefined) n
   \<and> \<not> rt_lt example_runtime n (rt_Number example_runtime VUndefined)
   \<and> \<not> rt_le example_runtime (rt_Number example_runtime VUndefined) n
   \<and> \<not> rt_le example_runtime n (rt_Number example_runtime VUndefined)"
  by (simp add: example_runtime_def example_Number_def split: option.splits)

theorem evaluateCondition_never_throws_witness:
  "bare_expression (trim ''user.nope'')
   \<and> resolveValue example_runtime (Some (trim ''user.nope'')) ctx0 = Inr VUndefined
   \<and> rt_member example_runtime (ctxObject ctx0) ''not'' = VUndefined
   \<and> evaluateCondition_try example_runtime ''user.nope'' ctx0 = Inr False
   \<and> evaluateCondition example_runtime ''user.nope'' ctx0 = False
   \<and> evaluateCondition example_runtime ''not.a.valid>>expr'' ctx0 = False
   \<and> evaluateCondition example_runtime ''user.id = resource.owner AND user.nope'' ctx0 = False
   \<and> evaluateCondition example_runtime ''user.nope OR resource.nope'' ctx0 = False
   \<and> evaluateCondition example_runtime ''user.nope IS NOT NULL'' ctx0 = False
   \<and> evaluateCondition example_runtime ''user.id IN user.nope'' ctx0 = False
   \<and> evaluateCondition example_runtime ''user.nope = resource.owner'' ctx0 = False
   \<and> evaluateCondition example_runtime ''user.nope < 5'' ctx0 = False
   \<and> evaluateCondition example_runtime ''5 >= user.nope'' ctx0 = False"
proof -
  let ?rt = example_runtime
  have b: "bare_expression (trim ''user.nope'')" by code_simp
  have r: "resolveValue ?rt (Some (trim ''user.nope'')) ctx0 = Inr VUndefined"
    by code_simp
  have m: "rt_member ?rt (ctxObject ctx0) ''not'' = VUndefined" by code_simp
  have 1: "evaluateCondition_try ?rt ''user.nope'' ctx0 = Inr False"
      "evaluateCondition ?rt ''user.nope'' ctx0 = False"
      "evaluateCondition ?rt ''not.a.valid>>expr'' ctx0 = False"
    using evaluateCondition_never_throws[of ?rt "''user.nope''" ctx0 "''<''"] b r m by simp_all
  have "str_includes (trim ''user.id = resource.owner AND user.nope'') '' AND ''"
    "str_split (trim ''user.id = resource.owner AND user.nope'') '' AND ''
       = [''user.id = resource.owner'', ''user.nope'']"
    "trim ''user.nope'' = ''user.nope''"
    by code_simp+
  then have 2: "evaluateCondition ?rt ''user.id = resource.owner AND user.nope'' ctx0 = False"
    using evaluateCondition_never_throws[of ?rt "''user.id = resource.owner AND user.nope''" ctx0 "''<''"]
      1(2) by simp
  have "\<not> str_includes (trim ''user.nope OR resource.nope'') '' AND ''"
    "str_includes (trim ''user.nope OR resource.nope'') '' OR ''"
    "str_split (trim ''user.nope OR resource.nope'') '' OR '' = [''user.nope'', ''resource.nope'']"
    "trim ''user.nope'' = ''user.nope''" "trim ''resource.nope'' = ''resource.nope''"
    "evaluateCondition ?rt ''resource.nope'' ctx0 = False"
    by code_simp+
  then have 8: "evaluateCondition ?rt ''user.nope OR resource.nope'' ctx0 = False"
    using evaluateCondition_never_throws[of ?rt "''user.nope OR resource.nope''" ctx0 "''<''"]
      1(2) by simp
  have "atom_expression (trim ''user.nope IS NOT NULL'')"
    "str_includes (trim ''user.nope IS NOT NULL'') '' IS NOT NULL''"
    "resolveValue ?rt (Some (trim (replace_first (trim ''user.nope IS NOT NULL'') '' IS NOT NULL'' []))) ctx0
       = Inr VUndefined"
    by code_simp+
  then have 3: "evaluateCondition ?rt ''user.nope IS NOT NULL'' ctx0 = False"
    using evaluateCondition_never_throws[of ?rt "''user.nope IS NOT NULL''" ctx0 "''<''"] by simp
  have "atom_expression (trim ''user.id IN user.nope'')"
    "\<not> str_includes (trim ''user.id IN user.nope'') '' IS NOT NULL''"
    "\<not> str_includes (trim ''user.id IN user.nope'') '' IS NULL''"
    "str_includes (trim ''user.id IN user.nope'') '' IN ''"
    "operand ?rt (trim ''user.id IN user.nope'') '' IN '' 1 ctx0 = Inr VUndefined"
    by code_simp+
  then have 4: "evaluateCondition ?rt ''user.id IN user.nope'' ctx0 = False"
    using evaluateCondition_never_throws[of ?rt "''user.id IN user.nope''" ctx0 "''<''"] by simp
  have "comparison_expression (trim ''user.nope = resource.owner'') ''=''"
    "operand ?rt (trim ''user.nope = resource.owner'') '' = '' 0 ctx0 = Inr VUndefined"
    "operand ?rt (trim ''user.nope = resource.owner'') '' = '' 1 ctx0 = Inr (VStr ''u1'')"
    by code_simp+
  then have 5: "evaluateCondition ?rt ''user.nope = resource.owner'' ctx0 = False"
    using evaluateCondition_never_throws[of ?rt "''user.nope = resource.owner''" ctx0 "''<''"] by simp
  have "comparison_expression (trim ''user.nope < 5'') ''<''"
    "operand ?rt (trim ''user.nope < 5'') ('' '' @ ''<'' @ '' '') 0 ctx0 = Inr VUndefined"
    by code_simp+
  then have 6: "evaluateCondition ?rt ''user.nope < 5'' ctx0 = False"
    using evaluateCondition_never_throws[of ?rt "''user.nope < 5''" ctx0 "''<''"]
      example_runtime_nan by simp
  have "comparison_expression (trim ''5 >= user.nope'') ''>=''"
    "operand ?rt (trim ''5 >= user.nope'') ('' '' @ ''>='' @ '' '') 1 ctx0 = Inr VUndefined"
    by code_simp+
  then have 7: "evaluateCondition ?rt ''5 >= user.nope'' ctx0 = False"
    using evaluateCondition_never_throws[of ?rt "''5 >= user.nope''" ctx0 "''>=''"]
      example_runtime_nan by simp
  from b r m 1 2 3 4 5 6 7 8 show ?thesis by simp
qed

theorem evaluateCondition_failure_true_counterexample:
  "resolveValue example_runtime (Some ''user.nope'') ctx0 = Inr VUndefined
   \<and> evaluateCondition example_runtime ''user.nope IS NULL'' ctx0 = True
   \<and> evaluateCondition example_runtime ''NOT user.nope'' ctx0 = True
   \<and> evaluateCondition example_runtime ''NOT not.a.valid>>expr'' ctx0 = True
   \<and> evaluateCondition example_runtime ''user.nope != user.id'' ctx0 = True
   \<and> evaluateCondition example_runtime ''user.nope = resource.nope'' ctx0 = True"
  by code_simp

section \<open>Properties of the policy engine\<close>

lemma evaluate_admin:
  assumes "''admin'' \<in> set (roles ctx) \<or> ''super_admin'' \<in> set (roles ctx)"
  shows "evaluate rt eng ctx = \<lparr>pr_allowed = True, pr_reason = Some ''Admin role'', pr_filters = None\<rparr>"
  using assms by (simp add: evaluate_def)

lemma evaluate_default_permit:
  assumes "''admin'' \<notin> set (roles ctx)" "''super_admin'' \<notin> set (roles ctx)"
    and "\<forall>a. action ctx = Some a \<longrightarrow>
           a \<in> set (getEffectivePermissions (engine_roles eng) (roles ctx))
           \<or> ''*'' \<in> set (getEffectivePermissions (engine_roles eng) (roles ctx))"
    and "\<forall>p \<in> set (policies eng). \<not> applicable ctx p"
  shows "evaluate rt eng ctx = \<lparr>pr_allowed = True, pr_reason = None, pr_filters = Some []\<rparr>"
proof -
  have rbac: "rbacDenied eng ctx = None"
    using assms(3) by (auto simp: rbacDenied_def checkRolePermissions_def Let_def split: option.splits)
  have none: "filter (applicable ctx) (policies eng) = []"
    using assms(4) by (simp add: filter_empty_conv)
  show ?thesis
    using assms(1,2) by (simp add: evaluate_def rbac none initialState_def)
qed

lemma applyCondition_keeps_deny:
  "explicitDeny (snd acc) \<Longrightarrow> explicitDeny (snd (applyCondition rt cctx policy c acc))"
  by (cases acc) (auto simp: applyCondition_def Let_def split: ConditionType.splits)

lemma evalConditions_keeps_deny:
  "explicitDeny (snd acc) \<Longrightarrow> explicitDeny (snd (evalConditions rt cctx policy cs acc))"
  by (induction cs arbitrary: acc) (auto simp: Let_def applyCondition_keeps_deny)

lemma evalConditions_deny_if:
  assumes "c \<in> set cs" "cond_type c = deny_if"
    "evaluateCondition rt (cond_expression c) cctx"
  shows "explicitDeny (snd (evalConditions rt cctx policy cs acc))"
  using assms
proof (induction cs arbitrary: acc)
  case Nil
  then show ?case by simp
next
  case (Cons d ds)
  show ?case
  proof (cases "explicitDeny (snd (applyCondition rt cctx policy d acc))")
    case True
    then show ?thesis by (simp add: Let_def)
  next
    case False
    then have "d \<noteq> c"
      using Cons.prems(2,3) by (cases acc) (auto simp: applyCondition_def Let_def)
    then have "c \<in> set ds" using Cons.prems(1) by simp
    from Cons.IH[OF this Cons.prems(2,3)] False show ?thesis by (simp add: Let_def)
  qed
qed

lemma evalPolicies_keeps_deny:
  "explicitDeny st \<Longrightarrow> explicitDeny (evalPolicies rt cctx ps st)"
proof (induction ps arbitrary: st)
  case Nil
  then show ?case by simp
next
  case (Cons p ps)
  have "explicitDeny (snd (evalConditions rt cctx p (or_empty (rule_conditions p)) (True, st)))"
    using Cons.prems by (simp add: evalConditions_keeps_deny)
  then show ?case by (simp add: case_prod_beta)
qed

lemma evalPolicies_deny_if:
  assumes "p \<in> set ps" "c \<in> set (or_empty (rule_conditions p))" "cond_type c = deny_if"
    "evaluateCondition rt (cond_expression c) cctx"
  shows "explicitDeny (evalPolicies rt cctx ps st)"
  using assms(1)
proof (induction ps arbitrary: st)
  case Nil
  then show ?case by simp
next
  case (Cons q qs)
  let ?r = "evalConditions rt cctx q (or_empty (rule_conditions q)) (True, st)"
  show ?case
  proof (cases "explicitDeny (snd ?r)")
    case True
    then show ?thesis by (simp add: case_prod_beta)
  next
    case False
    then have "q \<noteq> p"
      using evalConditions_deny_if[OF assms(2,3,4), of p "(True, st)"] by auto
    then have "p \<in> set qs" using Cons.prems by simp
    from Cons.IH[OF this] False show ?thesis by (simp add: case_prod_beta)
  qed
qed

lemma evalPolicies_append:
  assumes "\<not> explicitDeny (evalPolicies rt cctx pre st)"
  shows "evalPolicies rt cctx (pre @ rest) st = evalPolicies rt cctx rest (evalPolicies rt cctx pre st)"
  using assms
proof (induction pre arbitrary: st)
  case Nil
  then show ?case by simp
next
  case (Cons q qs)
  let ?r = "evalConditions rt cctx q (or_empty (rule_conditions q)) (True, st)"
  from Cons.prems have nd: "\<not> explicitDeny (snd ?r)"
    by (auto simp: case_prod_beta split: if_splits)
  let ?st = "if fst ?r then applyEffect q (snd ?r) else snd ?r"
  from Cons.prems nd have "\<not> explicitDeny (evalPolicies rt cctx qs ?st)"
    by (simp add: case_prod_beta)
  from Cons.IH[OF this] nd show ?case by (simp add: case_prod_beta)
qed

lemma evalConditions_append:
  assumes "\<not> explicitDeny (snd (evalConditions rt cctx policy pre acc))"
  shows "evalConditions rt cctx policy (pre @ rest) acc
           = evalConditions rt cctx policy rest (evalConditions rt cctx policy pre acc)"
  using assms
proof (induction pre arbitrary: acc)
  case Nil
  then show ?case by simp
next
  case (Cons d ds)
  from Cons.prems have nd: "\<not> explicitDeny (snd (applyCondition rt cctx policy d acc))"
    by (auto simp: Let_def split: if_splits)
  with Cons.prems have "\<not> explicitDeny (snd (evalConditions rt cctx policy ds (applyCondition rt cctx policy d acc)))"
    by (simp add: Let_def)
  from Cons.IH[OF this] nd show ?case by (simp add: Let_def)
qed

lemma evalConditions_first_deny_if:
  assumes "\<not> explicitDeny (snd (evalConditions rt cctx policy pre acc))"
    and "cond_type c = deny_if" "evaluateCondition rt (cond_expression c) cctx"
  shows "evalConditions rt cctx policy (pre @ c # post) acc
           = (False, (snd (evalConditions rt cctx policy pre acc))
                \<lparr>explicitDeny := True,
                 denyReason := or_default (cond_message c) (rule_name policy)\<rparr>)"
proof -
  obtain b s where bs: "evalConditions rt cctx policy pre acc = (b, s)"
    by (cases "evalConditions rt cctx policy pre acc")
  show ?thesis
    using assms(2,3)
    by (simp add: evalConditions_append[OF assms(1)] bs Let_def applyCondition_def)
qed

subsection \<open>Effective permissions: the traversal visits exactly the reachable roles\<close>

definition role_contrib :: "(string \<times> RoleDefinition) list \<Rightarrow> string \<Rightarrow> string set" where
  "role_contrib rs r =
     (case map_of rs r of
        None \<Rightarrow> {}
      | Some role \<Rightarrow> set (or_empty (role_permissions role)) \<union> set (or_empty (role_can role)))"

definition role_parents :: "(string \<times> RoleDefinition) list \<Rightarrow> string \<Rightarrow> string set" where
  "role_parents rs r =
     (case map_of rs r of None \<Rightarrow> {} | Some role \<Rightarrow> set (or_empty (role_inherits role)))"

definition inherits_rel :: "(string \<times> RoleDefinition) list \<Rightarrow> (string \<times> string) set" where
  "inherits_rel rs = {(a, b). b \<in> role_parents rs a}"

definition reachable_roles :: "(string \<times> RoleDefinition) list \<Rightarrow> string list \<Rightarrow> string set" where
  "reachable_roles rs roleNames = (inherits_rel rs)\<^sup>* `` set roleNames"

definition dfs_post ::
  "(string \<times> RoleDefinition) list \<Rightarrow> string set \<Rightarrow> string list \<times> string list
     \<Rightarrow> string list \<times> string list \<Rightarrow> bool" where
  "dfs_post rs targets st st' =
     (set (fst st) \<subseteq> set (fst st') \<and> targets \<subseteq> set (fst st')
      \<and> set (fst st') \<subseteq> set (fst st) \<union> (inherits_rel rs)\<^sup>* `` targets
      \<and> (\<forall>x \<in> set (fst st') - set (fst st). role_parents rs x \<subseteq> set (fst st'))
      \<and> set (snd st') = set (snd st) \<union> (\<Union>x \<in> set (fst st') - set (fst st). role_contrib rs x)
      \<and> (distinct (fst st) \<longrightarrow> distinct (fst st'))
      \<and> (distinct (snd st) \<longrightarrow> distinct (snd st')))"

lemma set_add_all: "set (add_all xs s) = set xs \<union> set s"
  unfolding add_all_def by (induction xs arbitrary: s) (auto simp: set_add_def)

lemma distinct_add_all: "distinct s \<Longrightarrow> distinct (add_all xs s)"
  unfolding add_all_def by (induction xs arbitrary: s) (auto simp: set_add_def)

lemma dfs_post_same: "targets \<subseteq> set (fst st) \<Longrightarrow> dfs_post rs targets st st"
  by (auto simp: dfs_post_def)

lemma dfs_post_trans:
  assumes "dfs_post rs A st st1" "dfs_post rs B st1 st2"
  shows "dfs_post rs (A \<union> B) st st2"
proof -
  let ?E = "(inherits_rel rs)\<^sup>*"
  from assms have sub: "set (fst st) \<subseteq> set (fst st1)" "set (fst st1) \<subseteq> set (fst st2)"
    and tg: "A \<subseteq> set (fst st1)" "B \<subseteq> set (fst st2)"
    and up: "set (fst st1) \<subseteq> set (fst st) \<union> ?E `` A" "set (fst st2) \<subseteq> set (fst st1) \<union> ?E `` B"
    and cl: "\<forall>x \<in> set (fst st1) - set (fst st). role_parents rs x \<subseteq> set (fst st1)"
            "\<forall>x \<in> set (fst st2) - set (fst st1). role_parents rs x \<subseteq> set (fst st2)"
    and pm: "set (snd st1) = set (snd st) \<union> (\<Union>x \<in> set (fst st1) - set (fst st). role_contrib rs x)"
            "set (snd st2) = set (snd st1) \<union> (\<Union>x \<in> set (fst st2) - set (fst st1). role_contrib rs x)"
    and ds: "distinct (fst st) \<longrightarrow> distinct (fst st1)" "distinct (fst st1) \<longrightarrow> distinct (fst st2)"
            "distinct (snd st) \<longrightarrow> distinct (snd st1)" "distinct (snd st1) \<longrightarrow> distinct (snd st2)"
    by (simp_all add: dfs_post_def)
  have 1: "set (fst st) \<subseteq> set (fst st2)" using sub by blast
  have 2: "A \<union> B \<subseteq> set (fst st2)" using tg sub by blast
  have 3: "set (fst st2) \<subseteq> set (fst st) \<union> ?E `` (A \<union> B)" using up by blast
  have 4: "\<forall>x \<in> set (fst st2) - set (fst st). role_parents rs x \<subseteq> set (fst st2)"
  proof
    fix x assume x: "x \<in> set (fst st2) - set (fst st)"
    show "role_parents rs x \<subseteq> set (fst st2)"
    proof (cases "x \<in> set (fst st1)")
      case True
      with x cl(1) have "role_parents rs x \<subseteq> set (fst st1)" by blast
      with sub(2) show ?thesis by blast
    next
      case False
      with x cl(2) show ?thesis by blast
    qed
  qed
  have split: "set (fst st2) - set (fst st)
                 = (set (fst st1) - set (fst st)) \<union> (set (fst st2) - set (fst st1))"
    using sub by blast
  have 5: "set (snd st2) = set (snd st) \<union> (\<Union>x \<in> set (fst st2) - set (fst st). role_contrib rs x)"
    unfolding split pm(2) pm(1) by blast
  show ?thesis
    unfolding dfs_post_def using 1 2 3 4 5 ds by blast
qed

lemma dfs_post_role:
  assumes nv: "r \<notin> set V" and role: "map_of rs r = Some role"
    and post: "dfs_post rs (set (or_empty (role_inherits role)))
                 (V @ [r], add_all (or_empty (role_can role))
                             (add_all (or_empty (role_permissions role)) P)) st'"
  shows "dfs_post rs {r} (V, P) st'"
proof -
  let ?E = "(inherits_rel rs)\<^sup>*"
  let ?inh = "set (or_empty (role_inherits role))"
  have par: "role_parents rs r = ?inh" by (simp add: role_parents_def role)
  have con: "role_contrib rs r
               = set (or_empty (role_permissions role)) \<union> set (or_empty (role_can role))"
    by (simp add: role_contrib_def role)
  from post have sub: "set V \<union> {r} \<subseteq> set (fst st')"
    and tg: "?inh \<subseteq> set (fst st')"
    and up: "set (fst st') \<subseteq> set V \<union> {r} \<union> ?E `` ?inh"
    and cl: "\<forall>x \<in> set (fst st') - (set V \<union> {r}). role_parents rs x \<subseteq> set (fst st')"
    and pm: "set (snd st') = set (or_empty (role_can role)) \<union> (set (or_empty (role_permissions role)) \<union> set P)
               \<union> (\<Union>x \<in> set (fst st') - (set V \<union> {r}). role_contrib rs x)"
    and ds: "distinct (V @ [r]) \<longrightarrow> distinct (fst st')"
            "distinct (add_all (or_empty (role_can role))
                         (add_all (or_empty (role_permissions role)) P)) \<longrightarrow> distinct (snd st')"
    by (simp_all add: dfs_post_def set_add_all Un_commute)
  have "?E `` ?inh \<subseteq> ?E `` {r}"
  proof
    fix y assume "y \<in> ?E `` ?inh"
    then obtain i where i: "i \<in> ?inh" "(i, y) \<in> ?E" by blast
    from i(1) have ri: "(r, i) \<in> inherits_rel rs" by (simp add: inherits_rel_def par)
    from ri i(2) have "(r, y) \<in> ?E" by (rule converse_rtrancl_into_rtrancl)
    then show "y \<in> ?E `` {r}" by blast
  qed
  with up have 3: "set (fst st') \<subseteq> set V \<union> ?E `` {r}" by blast
  have 4: "\<forall>x \<in> set (fst st') - set V. role_parents rs x \<subseteq> set (fst st')"
  proof
    fix x assume x: "x \<in> set (fst st') - set V"
    show "role_parents rs x \<subseteq> set (fst st')"
    proof (cases "x = r")
      case True
      with par tg show ?thesis by simp
    next
      case False
      with x cl show ?thesis by blast
    qed
  qed
  have split: "set (fst st') - set V = {r} \<union> (set (fst st') - (set V \<union> {r}))"
    using sub nv by blast
  have 5: "set (snd st') = set P \<union> (\<Union>x \<in> set (fst st') - set V. role_contrib rs x)"
    unfolding split pm using con by blast
  have 6: "distinct V \<longrightarrow> distinct (fst st')" using ds(1) nv by simp
  have 7: "distinct P \<longrightarrow> distinct (snd st')" using ds(2) by (simp add: distinct_add_all)
  show ?thesis
    unfolding dfs_post_def using sub 3 4 5 6 7 by simp
qed

lemma dfs_post_unknown:
  assumes "r \<notin> set V" "map_of rs r = None"
  shows "dfs_post rs {r} (V, P) (V @ [r], P)"
  using assms by (auto simp: dfs_post_def role_parents_def role_contrib_def)

lemma processRole_dfs_post:
  "dfs_post rs {roleName} st (processRole rs roleName st)"
  "dfs_post rs (set roleNames) st (processRoles rs roleNames st)"
proof (induction rs roleName st and rs roleNames st rule: processRole_processRoles.induct)
  case (1 rs roleName visited permissions)
  show ?case
  proof (cases "roleName \<in> set visited")
    case True
    then show ?thesis by (simp add: dfs_post_same)
  next
    case False
    show ?thesis
    proof (cases "map_of rs roleName")
      case None
      with False show ?thesis by (simp add: dfs_post_unknown)
    next
      case (Some role)
      from 1[OF False Some] dfs_post_role[OF False Some]
      show ?thesis using False Some by simp
    qed
  qed
next
  case (2 rs st)
  show ?case by (simp add: dfs_post_same)
next
  case (3 rs roleName roleNames st)
  from dfs_post_trans[OF 3(1) 3(2)] show ?case by simp
qed

lemma closed_reachable:
  assumes "\<forall>x \<in> V. role_parents rs x \<subseteq> V" "A \<subseteq> V"
  shows "(inherits_rel rs)\<^sup>* `` A \<subseteq> V"
proof
  fix y assume "y \<in> (inherits_rel rs)\<^sup>* `` A"
  then obtain a where a: "a \<in> A" "(a, y) \<in> (inherits_rel rs)\<^sup>*" by blast
  from a(2) show "y \<in> V"
  proof (induction rule: rtrancl_induct)
    case base
    with a(1) assms(2) show ?case by blast
  next
    case (step y z)
    then show ?case using assms(1) by (auto simp: inherits_rel_def)
  qed
qed

theorem getEffectivePermissions_reachable:
  "set (getEffectivePermissions rs roleNames)
     = (\<Union>r \<in> reachable_roles rs roleNames. role_contrib rs r)
   \<and> distinct (getEffectivePermissions rs roleNames)
   \<and> set (fst (processRoles rs roleNames ([], []))) = reachable_roles rs roleNames
   \<and> distinct (fst (processRoles rs roleNames ([], [])))"
proof -
  let ?st = "processRoles rs roleNames ([], [])"
  have post: "dfs_post rs (set roleNames) ([], []) ?st"
    by (rule processRole_dfs_post)
  then have tg: "set roleNames \<subseteq> set (fst ?st)"
    and up: "set (fst ?st) \<subseteq> (inherits_rel rs)\<^sup>* `` set roleNames"
    and cl: "\<forall>x \<in> set (fst ?st). role_parents rs x \<subseteq> set (fst ?st)"
    and pm: "set (snd ?st) = (\<Union>x \<in> set (fst ?st). role_contrib rs x)"
    and ds: "distinct (fst ?st)" "distinct (snd ?st)"
    by (simp_all add: dfs_post_def)
  have vis: "set (fst ?st) = reachable_roles rs roleNames"
    unfolding reachable_roles_def using up closed_reachable[OF cl tg] by blast
  show ?thesis
    unfolding getEffectivePermissions_def using pm vis ds by simp
qed

definition roleA :: RoleDefinition where
  "roleA = \<lparr>role_name = ''A'', role_inherits = Some [''B''], role_permissions = Some [''read''],
            role_can = Some [''list_orders'']\<rparr>"

definition roleB :: RoleDefinition where
  "roleB = \<lparr>role_name = ''B'', role_inherits = Some [''A''], role_permissions = Some [''write'', ''read''],
            role_can = None\<rparr>"

lemma cyclic_roles_example:
  "processRoles [(''A'', roleA), (''B'', roleB)] [''A''] ([], [])
     = ([''A'', ''B''], [''read'', ''list_orders'', ''write''])"
  by (simp add: roleA_def roleB_def or_empty_def add_all_def set_add_def)

subsection \<open>Admin bypass, default permit and deny precedence\<close>

definition viewerRole :: RoleDefinition where
  "viewerRole = \<lparr>role_name = ''viewer'', role_inherits = None, role_permissions = None,
                 role_can = Some [''list_orders'', ''update_order'']\<rparr>"

definition tenantPolicy :: PolicyRule where
  "tenantPolicy =
     \<lparr>rule_name = ''tenant-isolation'', rule_resource = ''Order'', rule_action = None,
      rule_effect = Allow,
      rule_conditions = Some [\<lparr>cond_type = allow_if,
                               cond_expression = ''user.tenant_id = resource.tenant_id'',
                               cond_message = None\<rparr>],
      rule_filter = Some ''tenant_id = :tenant_id'', rule_priority = Some 10\<rparr>"

definition lockedPolicy :: PolicyRule where
  "lockedPolicy =
     \<lparr>rule_name = ''no-locked-orders'', rule_resource = ''Order'', rule_action = Some ''update_order'',
      rule_effect = Allow,
      rule_conditions = Some [\<lparr>cond_type = deny_if,
                               cond_expression = ''resource.locked = true'',
                               cond_message = Some ''Order is locked''\<rparr>],
      rule_filter = None, rule_priority = Some 1\<rparr>"

definition engine0 :: PolicyEngine where
  "engine0 = newPolicyEngine (Some [lockedPolicy, tenantPolicy]) (Some [(''viewer'', viewerRole)])"

definition request0 :: "string list \<Rightarrow> string \<Rightarrow> string \<Rightarrow> rat option PolicyContext" where
  "request0 rs res act =
     \<lparr>userId = Some ''u1'', tenantId = Some ''t1'', roles = rs, resource = Some res,
      action = Some act,
      resourceData = Some [(''tenant_id'', VStr ''t1''), (''locked'', VBool True)],
      requestData = None\<rparr>"

lemma engine0_policies: "policies engine0 = [tenantPolicy, lockedPolicy]"
  by (simp add: engine0_def newPolicyEngine_def sortByPriority_def priority_or_0_def
        tenantPolicy_def lockedPolicy_def)

lemma engine0_roles: "engine_roles engine0 = [(''viewer'', viewerRole)]"
  by (simp add: engine0_def newPolicyEngine_def or_empty_def)

lemma viewer_permissions:
  "getEffectivePermissions [(''viewer'', viewerRole)] [''viewer''] = [''list_orders'', ''update_order'']"
  by (simp add: getEffectivePermissions_def viewerRole_def or_empty_def add_all_def set_add_def)

text \<open>
  Claim C10. For every engine and every context whose roles contain \<^verbatim>\<open>admin\<close> or
  \<^verbatim>\<open>super_admin\<close>, \<^verbatim>\<open>evaluate\<close> returns \<^verbatim>\<open>{ allowed: true, reason: 'Admin role' }\<close>
  with no \<^verbatim>\<open>filters\<close> field, whatever policies are registered: no condition is evaluated
  and no row filter of an applicable allow policy is applied.
\<close>

theorem admin_bypass:
  assumes "''admin'' \<in> set (roles ctx) \<or> ''super_admin'' \<in> set (roles ctx)"
  shows "evaluate rt eng ctx
           = \<lparr>pr_allowed = True, pr_reason = Some ''Admin role'', pr_filters = None\<rparr>"
  using assms by (rule evaluate_admin)

theorem admin_bypass_witness:
  "(''admin'' \<in> set (roles (request0 [''admin''] ''Order'' ''list_orders''))
     \<or> ''super_admin'' \<in> set (roles (request0 [''admin''] ''Order'' ''list_orders'')))
   \<and> applicable (request0 [''admin''] ''Order'' ''list_orders'') tenantPolicy
   \<and> evaluate example_runtime engine0 (request0 [''admin''] ''Order'' ''list_orders'')
       = \<lparr>pr_allowed = True, pr_reason = Some ''Admin role'', pr_filters = None\<rparr>"
proof -
  have h: "''admin'' \<in> set (roles (request0 [''admin''] ''Order'' ''list_orders''))
     \<or> ''super_admin'' \<in> set (roles (request0 [''admin''] ''Order'' ''list_orders''))"
    by (simp add: request0_def)
  have a: "applicable (request0 [''admin''] ''Order'' ''list_orders'') tenantPolicy"
    by (simp add: applicable_def request0_def tenantPolicy_def)
  from admin_bypass[OF h, of example_runtime engine0] h a show ?thesis by simp
qed

text \<open>
  Claim C2. For a context without \<^verbatim>\<open>admin\<close> and \<^verbatim>\<open>super_admin\<close> whose action, when
  given, is in the effective permissions of its roles (or these contain \<^verbatim>\<open>*\<close>): when no
  registered policy is applicable to the resource and action, \<^verbatim>\<open>evaluate\<close> returns
  \<^verbatim>\<open>allowed: true\<close> with the accumulated filter list, which is empty.
\<close>

theorem default_permit:
  assumes "''admin'' \<notin> set (roles ctx)" "''super_admin'' \<notin> set (roles ctx)"
    and "\<forall>a. action ctx = Some a \<longrightarrow>
           a \<in> set (getEffectivePermissions (engine_roles eng) (roles ctx))
           \<or> ''*'' \<in> set (getEffectivePermissions (engine_roles eng) (roles ctx))"
    and "\<forall>p \<in> set (policies eng). \<not> applicable ctx p"
  shows "evaluate rt eng ctx = \<lparr>pr_allowed = True, pr_reason = None, pr_filters = Some []\<rparr>"
  using assms by (rule evaluate_default_permit)

theorem default_permit_witness:
  "''admin'' \<notin> set (roles (request0 [''viewer''] ''Invoice'' ''list_orders''))
   \<and> ''super_admin'' \<notin> set (roles (request0 [''viewer''] ''Invoice'' ''list_orders''))
   \<and> action (request0 [''viewer''] ''Invoice'' ''list_orders'') = Some ''list_orders''
   \<and> ''list_orders'' \<in> set (getEffectivePermissions (engine_roles engine0) [''viewer''])
   \<and> filter (applicable (request0 [''viewer''] ''Invoice'' ''list_orders'')) (policies engine0) = []
   \<and> evaluate example_runtime engine0 (request0 [''viewer''] ''Invoice'' ''list_orders'')
       = \<lparr>pr_allowed = True, pr_reason = None, pr_filters = Some []\<rparr>"
proof -
  let ?ctx = "request0 [''viewer''] ''Invoice'' ''list_orders''"
  have 1: "''admin'' \<notin> set (roles ?ctx)" "''super_admin'' \<notin> set (roles ?ctx)"
    by (simp_all add: request0_def)
  have 2: "action ?ctx = Some ''list_orders''" "roles ?ctx = [''viewer'']"
    by (simp_all add: request0_def)
  have 3: "''list_orders'' \<in> set (getEffectivePermissions (engine_roles engine0) [''viewer''])"
    by (simp add: engine0_roles viewer_permissions)
  have 4: "\<forall>p \<in> set (policies engine0). \<not> applicable ?ctx p"
    by (simp add: engine0_policies applicable_def request0_def tenantPolicy_def lockedPolicy_def)
  have 5: "\<forall>a. action ?ctx = Some a \<longrightarrow>
           a \<in> set (getEffectivePermissions (engine_roles engine0) (roles ?ctx))
           \<or> ''*'' \<in> set (getEffectivePermissions (engine_roles engine0) (roles ?ctx))"
    using 3 by (simp add: 2)
  from default_permit[OF 1 5 4, of example_runtime] 1 2 3 4 show ?thesis
    by (simp add: filter_empty_conv)
qed

text \<open>
  Claim C4. For a context that passes the admin test and the RBAC gate: when an applicable
  policy has a \<^verbatim>\<open>deny_if\<close> condition that evaluates true, \<^verbatim>\<open>evaluate\<close> returns
  \<^verbatim>\<open>allowed: false\<close> without filters, whatever the other applicable policies allow.
  When the policies evaluated before it and the conditions before it in its policy record
  no explicit deny, so that this condition is the first explicit deny, the reason is the
  condition's message, or the policy name when the message is absent or empty.
\<close>

theorem deny_precedence:
  assumes "''admin'' \<notin> set (roles ctx)" "''super_admin'' \<notin> set (roles ctx)"
    and "rbacDenied eng ctx = None"
    and "p \<in> set (filter (applicable ctx) (policies eng))"
    and "c \<in> set (or_empty (rule_conditions p))"
    and "cond_type c = deny_if"
    and "evaluateCondition rt (cond_expression c) (conditionCtx ctx)"
  shows "pr_allowed (evaluate rt eng ctx) = False \<and> pr_filters (evaluate rt eng ctx) = None
    \<and> (\<forall>pre post cpre cpost.
          filter (applicable ctx) (policies eng) = pre @ p # post
          \<and> or_empty (rule_conditions p) = cpre @ c # cpost
          \<and> \<not> explicitDeny (evalPolicies rt (conditionCtx ctx) pre initialState)
          \<and> \<not> explicitDeny (snd (evalConditions rt (conditionCtx ctx) p cpre
                  (True, evalPolicies rt (conditionCtx ctx) pre initialState)))
          \<longrightarrow> evaluate rt eng ctx
                = \<lparr>pr_allowed = False,
                   pr_reason = Some (or_default (cond_message c) (rule_name p)),
                   pr_filters = None\<rparr>)"
proof (intro conjI allI impI)
  let ?ps = "filter (applicable ctx) (policies eng)"
  let ?cctx = "conditionCtx ctx"
  have deny: "explicitDeny (evalPolicies rt ?cctx ?ps initialState)"
    by (rule evalPolicies_deny_if[OF assms(4,5,6,7)])
  have ev: "evaluate rt eng ctx
      = \<lparr>pr_allowed = False,
         pr_reason = Some (denyReason (evalPolicies rt ?cctx ?ps initialState)),
         pr_filters = None\<rparr>"
    using assms(1,2,3) deny by (simp add: evaluate_def Let_def)
  show "pr_allowed (evaluate rt eng ctx) = False" by (simp add: ev)
  show "pr_filters (evaluate rt eng ctx) = None" by (simp add: ev)
  fix pre post cpre cpost
  assume h: "?ps = pre @ p # post
          \<and> or_empty (rule_conditions p) = cpre @ c # cpost
          \<and> \<not> explicitDeny (evalPolicies rt ?cctx pre initialState)
          \<and> \<not> explicitDeny (snd (evalConditions rt ?cctx p cpre
                  (True, evalPolicies rt ?cctx pre initialState)))"
  let ?st = "evalPolicies rt ?cctx pre initialState"
  have cs: "evalConditions rt ?cctx p (cpre @ c # cpost) (True, ?st)
      = (False, (snd (evalConditions rt ?cctx p cpre (True, ?st)))
                \<lparr>explicitDeny := True,
                 denyReason := or_default (cond_message c) (rule_name p)\<rparr>)"
    using h by (intro evalConditions_first_deny_if assms(6,7)) simp
  have "evalPolicies rt ?cctx ?ps initialState = evalPolicies rt ?cctx (p # post) ?st"
    using h evalPolicies_append[of rt ?cctx pre initialState "p # post"] by simp
  also have "\<dots> = (snd (evalConditions rt ?cctx p cpre (True, ?st)))
                \<lparr>explicitDeny := True,
                 denyReason := or_default (cond_message c) (rule_name p)\<rparr>"
    using h cs by simp
  finally have "denyReason (evalPolicies rt ?cctx ?ps initialState)
      = or_default (cond_message c) (rule_name p)" by simp
  then show "evaluate rt eng ctx
                = \<lparr>pr_allowed = False,
                   pr_reason = Some (or_default (cond_message c) (rule_name p)),
                   pr_filters = None\<rparr>"
    by (simp add: ev)
qed

theorem deny_precedence_witness:
  "''admin'' \<notin> set (roles (request0 [''viewer''] ''Order'' ''update_order''))
   \<and> ''super_admin'' \<notin> set (roles (request0 [''viewer''] ''Order'' ''update_order''))
   \<and> rbacDenied engine0 (request0 [''viewer''] ''Order'' ''update_order'') = None
   \<and> filter (applicable (request0 [''viewer''] ''Order'' ''update_order'')) (policies engine0)
       = [tenantPolicy, lockedPolicy]
   \<and> priority_or_0 tenantPolicy = 10 \<and> priority_or_0 lockedPolicy = 1
   \<and> explicitAllow (evalPolicies example_runtime
         (conditionCtx (request0 [''viewer''] ''Order'' ''update_order'')) [tenantPolicy] initialState)
   \<and> evaluateCondition example_runtime ''resource.locked = true''
         (conditionCtx (request0 [''viewer''] ''Order'' ''update_order''))
   \<and> evaluate example_runtime engine0 (request0 [''viewer''] ''Order'' ''update_order'')
       = \<lparr>pr_allowed = False, pr_reason = Some ''Order is locked'', pr_filters = None\<rparr>"
proof -
  let ?ctx = "request0 [''viewer''] ''Order'' ''update_order''"
  let ?c = "\<lparr>cond_type = deny_if, cond_expression = ''resource.locked = true'',
             cond_message = Some ''Order is locked''\<rparr>"
  have 1: "''admin'' \<notin> set (roles ?ctx)" "''super_admin'' \<notin> set (roles ?ctx)"
    by (simp_all add: request0_def)
  have 2: "rbacDenied engine0 ?ctx = None"
    by (simp add: rbacDenied_def checkRolePermissions_def engine0_roles request0_def
          viewer_permissions)
  have 3: "filter (applicable ?ctx) (policies engine0) = [tenantPolicy, lockedPolicy]"
    by (simp add: engine0_policies applicable_def request0_def tenantPolicy_def lockedPolicy_def)
  have 4: "lockedPolicy \<in> set (filter (applicable ?ctx) (policies engine0))"
    by (simp add: 3)
  have 5: "or_empty (rule_conditions lockedPolicy) = [?c]"
    by (simp add: lockedPolicy_def or_empty_def)
  have 6: "evaluateCondition example_runtime (cond_expression ?c) (conditionCtx ?ctx)"
    by code_simp
  have 7: "explicitAllow (evalPolicies example_runtime (conditionCtx ?ctx) [tenantPolicy] initialState)
           \<and> \<not> explicitDeny (evalPolicies example_runtime (conditionCtx ?ctx) [tenantPolicy] initialState)"
    by code_simp
  have 8: "priority_or_0 tenantPolicy = 10 \<and> priority_or_0 lockedPolicy = 1"
    by (simp add: priority_or_0_def tenantPolicy_def lockedPolicy_def)
  have "\<forall>pre post cpre cpost.
          filter (applicable ?ctx) (policies engine0) = pre @ lockedPolicy # post
          \<and> or_empty (rule_conditions lockedPolicy) = cpre @ ?c # cpost
          \<and> \<not> explicitDeny (evalPolicies example_runtime (conditionCtx ?ctx) pre initialState)
          \<and> \<not> explicitDeny (snd (evalConditions example_runtime (conditionCtx ?ctx) lockedPolicy cpre
                  (True, evalPolicies example_runtime (conditionCtx ?ctx) pre initialState)))
          \<longrightarrow> evaluate example_runtime engine0 ?ctx
                = \<lparr>pr_allowed = False,
                   pr_reason = Some (or_default (cond_message ?c) (rule_name lockedPolicy)),
                   pr_filters = None\<rparr>"
    using deny_precedence[OF 1 2 4, of ?c example_runtime] 5 6 by simp
  from this[rule_format, of "[tenantPolicy]" "[]" "[]" "[]"] 3 5 7
  have "evaluate example_runtime engine0 ?ctx
          = \<lparr>pr_allowed = False,
             pr_reason = Some (or_default (cond_message ?c) (rule_name lockedPolicy)),
             pr_filters = None\<rparr>"
    by simp
  then have "evaluate example_runtime engine0 ?ctx
          = \<lparr>pr_allowed = False, pr_reason = Some ''Order is locked'', pr_filters = None\<rparr>"
    by (simp add: or_default_def)
  with 1 2 3 6 7 8 show ?thesis by simp
qed

section \<open>Properties of the spec linker\<close>

definition baseProduct :: ProductSpec where
  "baseProduct =
     \<lparr>prod_name = ''p'', prod_version = ''1'',
      prod_tenancy = \<lparr>tn_mode = Single, tn_isolation = ''row'', tn_tenant_id_column = None\<rparr>,
      prod_profile = Dev, prod_profiles = None\<rparr>"

definition specWith :: "ProductSpec \<Rightarrow> (string \<times> EntitySpec) list \<Rightarrow> Spec" where
  "specWith p es =
     \<lparr>product = p, entities = es, actions = [], flows = [],
      spec_policies = \<lparr>pol_roles = None, pol_policies = None, pol_ai_rules = None\<rparr>,
      ui = \<lparr>ui_screens = None\<rparr>, metrics = JObject [],
      jobs = \<lparr>jobs_jobs = None, jobs_queues = None\<rparr>\<rparr>"

definition entityWith :: "(string \<times> FieldSpec) list \<Rightarrow> EntitySpec" where
  "entityWith fs =
     \<lparr>ent_description = None, ent_tenant_scoped = None, ent_immutable = None,
      ent_ai_suggest_only = None, ent_fields = fs, ent_relations = None\<rparr>"

definition specAB :: Spec where
  "specAB = specWith baseProduct [(''A'', entityWith []), (''B'', entityWith [])]"

definition specBA :: Spec where
  "specBA = specWith baseProduct [(''B'', entityWith []), (''A'', entityWith [])]"

definition constructorRefSpec :: Spec where
  "constructorRefSpec =
     specWith baseProduct
       [(''Order'', entityWith
           [(''id'', \<lparr>fld_type = ''uuid'', fld_reference = None\<rparr>),
            (''owner'', \<lparr>fld_type = ''uuid'',
                          fld_reference = Some \<lparr>ref_entity = ''constructor'', ref_field = None\<rparr>\<rparr>)])]"

text \<open>The same examples as objects, with their typed readings.\<close>

definition baseProductObject :: json where
  "baseProductObject =
     JObject [(''name'', JString ''p''), (''version'', JString ''1''),
              (''tenancy'', JObject [(''mode'', JString ''single''), (''isolation'', JString ''row'')]),
              (''profile'', JString ''dev'')]"

definition prodProductObject :: json where
  "prodProductObject =
     JObject [(''name'', JString ''p''), (''version'', JString ''1''),
              (''tenancy'', JObject [(''mode'', JString ''single''), (''isolation'', JString ''row'')]),
              (''profile'', JString ''prod'')]"

definition objectWith :: "json \<Rightarrow> (string \<times> json) list \<Rightarrow> json" where
  "objectWith p es =
     JObject [(''product'', p), (''entities'', JObject es), (''actions'', JObject []),
              (''flows'', JObject []), (''policies'', JObject []), (''ui'', JObject []),
              (''metrics'', JObject []), (''jobs'', JObject [])]"

definition entityObject :: "(string \<times> json) list \<Rightarrow> json" where
  "entityObject fs = JObject [(''fields'', JObject fs)]"

definition objectAB :: json where
  "objectAB = objectWith baseProductObject [(''A'', entityObject []), (''B'', entityObject [])]"

definition objectBA :: json where
  "objectBA = objectWith baseProductObject [(''B'', entityObject []), (''A'', entityObject [])]"

definition constructorRefObject :: json where
  "constructorRefObject =
     objectWith baseProductObject
       [(''Order'', entityObject
           [(''id'', JObject [(''type'', JString ''uuid'')]),
            (''owner'', JObject [(''type'', JString ''uuid''),
                                 (''reference'', JObject [(''entity'', JString ''constructor'')])])])]"

lemmas object_examples = objectWith_def entityObject_def baseProductObject_def
  prodProductObject_def

lemmas link_defs = link_def validateEntityReferences_def entityErrors_def fieldErrors_def
  relationErrors_def validateActionReferences_def validateFlowReferences_def
  validatePolicyReferences_def validateUiReferences_def validateJobReferences_def
  checkInvariants_def first_entity_def checkUnused_def usedEntities_def
  lookup_def defined_def opt_defined_def when_truthy_def or_empty_def or_default_def
  Object_prototype_keys_def missing_def dq_def

lemmas spec_examples = specWith_def entityWith_def baseProduct_def

subsection \<open>Reference integrity\<close>

lemma collect_Inr_member:
  assumes "collect f xs = Inr errs" "x \<in> set xs"
  shows "\<exists>ys. f x = Inr ys \<and> set ys \<subseteq> set errs"
  using assms
proof (induction xs arbitrary: errs)
  case Nil
  then show ?case by simp
next
  case (Cons a as)
  from Cons.prems(1) obtain ys zs where a: "f a = Inr ys" and as: "collect f as = Inr zs"
    and errs: "errs = ys @ zs"
    by (auto split: sum.splits)
  show ?case
  proof (cases "x = a")
    case True
    with a errs show ?thesis by auto
  next
    case False
    with Cons.prems(2) have "x \<in> set as" by simp
    from Cons.IH[OF as this] errs show ?thesis by auto
  qed
qed

lemma link_errors_block_bundle:
  assumes "link now obj spec = Inr r" "lr_errors r \<noteq> []"
  shows "\<not> lr_valid r \<and> lr_bundle r = None"
  using assms by (auto simp: link_def Let_def split: sum.splits if_splits)

lemma link_entity_errors:
  assumes "link now obj spec = Inr r"
  shows "\<exists>errs. validateEntityReferences spec = Inr errs \<and> set errs \<subseteq> set (lr_errors r)"
  using assms by (auto simp: link_def Let_def split: sum.splits if_splits)

lemma missing_entity_reference_reported:
  assumes ent: "(entityName, entity) \<in> set (entities spec)"
    and fld: "(fieldName, field) \<in> set (ent_fields entity)"
    and ref: "fld_reference field = Some reference"
    and absent: "map_of (entities spec) (ref_entity reference) = None"
    and plain: "ref_entity reference \<notin> set Object_prototype_keys"
    and ret: "link now obj spec = Inr r"
  shows "(\<exists>e \<in> set (lr_errors r). le_type e = missing_reference
            \<and> le_source e = ''entities.'' @ entityName @ ''.fields.'' @ fieldName
            \<and> le_target e = Some (''entities.'' @ ref_entity reference))
         \<and> \<not> lr_valid r \<and> lr_bundle r = None"
proof -
  let ?e = "missing
      (''Entity '' @ dq (ref_entity reference) @ '' referenced by field ''
         @ dq fieldName @ '' does not exist'')
      (''entities.'' @ entityName @ ''.fields.'' @ fieldName)
      (''entities.'' @ ref_entity reference)"
  obtain errs where errs: "validateEntityReferences spec = Inr errs"
      "set errs \<subseteq> set (lr_errors r)"
    using link_entity_errors[OF ret] by blast
  from collect_Inr_member[OF errs(1)[unfolded validateEntityReferences_def] ent]
  obtain ys where ys: "entityErrors spec (entityName, entity) = Inr ys" "set ys \<subseteq> set errs"
    by blast
  from ys(1) obtain fs where fs: "collect (fieldErrors spec entityName) (ent_fields entity) = Inr fs"
      "set fs \<subseteq> set ys"
    by (auto simp: entityErrors_def split: sum.splits)
  from collect_Inr_member[OF fs(1) fld]
  obtain zs where zs: "fieldErrors spec entityName (fieldName, field) = Inr zs" "set zs \<subseteq> set fs"
    by blast
  have "fieldErrors spec entityName (fieldName, field) = Inr [?e]"
    using ref absent plain by (simp add: fieldErrors_def lookup_def)
  with zs have "?e \<in> set fs" by auto
  with fs(2) ys(2) errs(2) have mem: "?e \<in> set (lr_errors r)" by blast
  then have "lr_errors r \<noteq> []" by auto
  from link_errors_block_bundle[OF ret this] mem show ?thesis
    by (auto simp: missing_def intro!: bexI[of _ ?e])
qed

text \<open>
  Claim C7, at the input where the code leaves it. The spec object is
  \<open>constructorRefObject\<close>, with the typed reading \<open>constructorRefSpec\<close>. The entity \<^verbatim>\<open>Order\<close> has a field
  whose \<^verbatim>\<open>reference.entity\<close> is \<^verbatim>\<open>constructor\<close>, a name absent from \<^verbatim>\<open>spec.entities\<close>.
  \<^verbatim>\<open>spec.entities['constructor']\<close> is the inherited \<^verbatim>\<open>Object\<close> function, the test
  \<^verbatim>\<open>!targetEntity\<close> fails, and \<^verbatim>\<open>targetEntity.fields[targetField]\<close> raises a
  \<^verbatim>\<open>TypeError\<close>: \<^verbatim>\<open>link\<close> returns no result, so no \<^verbatim>\<open>missing_reference\<close> error either.
  For a name that is not a member of \<^verbatim>\<open>Object.prototype\<close> the error is reported
  (\<open>missing_entity_reference_reported\<close>).
\<close>

theorem link_inherited_reference_raises:
  "read_Spec constructorRefObject = Some constructorRefSpec
   \<and> map_of (entities constructorRefSpec) ''constructor'' = None
   \<and> link now constructorRefObject constructorRefSpec = Inl TypeError"
proof -
  have "read_Spec constructorRefObject = Some constructorRefSpec"
    by (simp add: read_defs constructorRefObject_def object_examples constructorRefSpec_def
          spec_examples)
  moreover have "map_of (entities constructorRefSpec) ''constructor'' = None
      \<and> link now constructorRefObject constructorRefSpec = Inl TypeError"
    by (simp add: link_defs spec_examples constructorRefSpec_def)
  ultimately show ?thesis by simp
qed

theorem link_inherited_reference_raises_witness:
  "link ''2024-01-01T00:00:00.000Z'' constructorRefObject constructorRefSpec = Inl TypeError"
  using link_inherited_reference_raises[of "''2024-01-01T00:00:00.000Z''"] by simp

subsection \<open>Journal invariants\<close>

lemma defined_plain_key:
  "k \<notin> set Object_prototype_keys \<Longrightarrow> defined kvs k = (k \<in> fst ` set kvs)"
  by (auto simp: defined_def lookup_def map_of_eq_None_iff split: option.splits dest: map_of_SomeD
           intro: rev_image_eqI)

text \<open>
  The journal invariants. The journal entry entity is the one the code takes:
  \<^verbatim>\<open>JournalEntry\<close>, or else \<^verbatim>\<open>journal_entry\<close>; likewise the journal line entity. When the
  entry is not flagged \<^verbatim>\<open>immutable\<close>, the line has none of the fields \<^verbatim>\<open>debit\<close>,
  \<^verbatim>\<open>debit_amount\<close>, \<^verbatim>\<open>credit\<close>, \<^verbatim>\<open>credit_amount\<close>, and \<^verbatim>\<open>product.profile\<close> is \<^verbatim>\<open>prod\<close>,
  \<^verbatim>\<open>checkInvariants\<close> yields two \<^verbatim>\<open>invariant_violation\<close> errors, and every result that
  \<^verbatim>\<open>link\<close> returns holds at least these two, is not valid and has no bundle.
\<close>

lemma journal_invariant_violations:
  assumes entry: "first_entity spec ''JournalEntry'' ''journal_entry'' = Some journalEntry"
    and line: "first_entity spec ''JournalLine'' ''journal_line'' = Some journalLine"
    and mutable: "ent_immutable journalEntry \<noteq> Some True"
    and nodebit: "''debit'' \<notin> fst ` set (ent_fields journalLine)"
                 "''debit_amount'' \<notin> fst ` set (ent_fields journalLine)"
    and nocredit: "''credit'' \<notin> fst ` set (ent_fields journalLine)"
                  "''credit_amount'' \<notin> fst ` set (ent_fields journalLine)"
    and prod: "prod_profile (product spec) = Prod"
  shows "length (filter (\<lambda>e. le_type e = invariant_violation) (checkInvariants spec)) = 2
    \<and> (\<forall>r. link now obj spec = Inr r \<longrightarrow>
          2 \<le> length (filter (\<lambda>e. le_type e = invariant_violation) (lr_errors r))
          \<and> \<not> lr_valid r \<and> lr_bundle r = None)"
proof -
  have keys: "\<not> defined (ent_fields journalLine) ''debit''"
      "\<not> defined (ent_fields journalLine) ''debit_amount''"
      "\<not> defined (ent_fields journalLine) ''credit''"
      "\<not> defined (ent_fields journalLine) ''credit_amount''"
    using nodebit nocredit by (simp_all add: defined_plain_key Object_prototype_keys_def)
  have inv: "checkInvariants spec =
      [\<lparr>le_type = invariant_violation,
        le_message = ''JournalLine must have both debit and credit fields for balance invariant'',
        le_source = ''entities.JournalLine'', le_target = None\<rparr>,
       \<lparr>le_type = invariant_violation,
        le_message = ''JournalEntry should be immutable in production for audit compliance'',
        le_source = ''entities.JournalEntry'', le_target = None\<rparr>]"
    using entry line mutable prod keys by (simp add: checkInvariants_def)
  have two: "length (filter (\<lambda>e. le_type e = invariant_violation) (checkInvariants spec)) = 2"
    by (simp add: inv)
  have "2 \<le> length (filter (\<lambda>e. le_type e = invariant_violation) (lr_errors r))
          \<and> \<not> lr_valid r \<and> lr_bundle r = None" if r: "link now obj spec = Inr r" for r
  proof -
    from r obtain pre where errs: "lr_errors r = pre @ checkInvariants spec"
      by (auto simp: link_def Let_def split: sum.splits if_splits)
    then have "lr_errors r \<noteq> []" by (simp add: inv)
    from link_errors_block_bundle[OF r this] errs two show ?thesis by simp
  qed
  with two show ?thesis by blast
qed

definition journalSpec :: Spec where
  "journalSpec =
     specWith (baseProduct\<lparr>prod_profile := Prod\<rparr>)
       [(''JournalEntry'', entityWith [(''id'', \<lparr>fld_type = ''uuid'', fld_reference = None\<rparr>)]),
        (''JournalLine'', entityWith [(''amount'', \<lparr>fld_type = ''decimal'', fld_reference = None\<rparr>)])]"

definition journalObject :: json where
  "journalObject =
     objectWith prodProductObject
       [(''JournalEntry'', entityObject [(''id'', JObject [(''type'', JString ''uuid'')])]),
        (''JournalLine'', entityObject [(''amount'', JObject [(''type'', JString ''decimal'')])])]"

lemma journal_invariant_violations_example:
  "read_Spec journalObject = Some journalSpec
   \<and> (\<exists>r. link ''2024-01-01T00:00:00.000Z'' journalObject journalSpec = Inr r
        \<and> map le_type (lr_errors r) = [invariant_violation, invariant_violation]
        \<and> 2 \<le> length (filter (\<lambda>e. le_type e = invariant_violation) (lr_errors r))
        \<and> \<not> lr_valid r \<and> lr_bundle r = None)"
proof -
  let ?je = "entityWith [(''id'', \<lparr>fld_type = ''uuid'', fld_reference = None\<rparr>)]"
  let ?jl = "entityWith [(''amount'', \<lparr>fld_type = ''decimal'', fld_reference = None\<rparr>)]"
  let ?now = "''2024-01-01T00:00:00.000Z''"
  have 0: "read_Spec journalObject = Some journalSpec"
    by (simp add: read_defs journalObject_def object_examples journalSpec_def spec_examples)
  have 1: "first_entity journalSpec ''JournalEntry'' ''journal_entry'' = Some ?je"
    by (simp add: first_entity_def journalSpec_def spec_examples)
  have 2: "first_entity journalSpec ''JournalLine'' ''journal_line'' = Some ?jl"
    by (simp add: first_entity_def journalSpec_def spec_examples)
  have 3: "ent_immutable ?je \<noteq> Some True" by (simp add: entityWith_def)
  have 4: "''debit'' \<notin> fst ` set (ent_fields ?jl)" "''debit_amount'' \<notin> fst ` set (ent_fields ?jl)"
      "''credit'' \<notin> fst ` set (ent_fields ?jl)" "''credit_amount'' \<notin> fst ` set (ent_fields ?jl)"
    by (simp_all add: entityWith_def)
  have 5: "prod_profile (product journalSpec) = Prod" by (simp add: journalSpec_def spec_examples)
  obtain r where r: "link ?now journalObject journalSpec = Inr r"
      "map le_type (lr_errors r) = [invariant_violation, invariant_violation]"
    by (simp add: link_defs journalSpec_def spec_examples)
  from journal_invariant_violations[OF 1 2 3 4 5, of ?now journalObject]
  have "\<forall>r. link ?now journalObject journalSpec = Inr r \<longrightarrow>
          2 \<le> length (filter (\<lambda>e. le_type e = invariant_violation) (lr_errors r))
          \<and> \<not> lr_valid r \<and> lr_bundle r = None"
    by (rule conjunct2)
  from this[rule_format, OF r(1)] 0 r show ?thesis
    by (intro conjI exI[of _ r]) simp_all
qed

definition journalRefSpec :: Spec where
  "journalRefSpec =
     specWith (baseProduct\<lparr>prod_profile := Prod\<rparr>)
       [(''JournalEntry'', entityWith [(''id'', \<lparr>fld_type = ''uuid'', fld_reference = None\<rparr>)]),
        (''JournalLine'', entityWith
           [(''amount'', \<lparr>fld_type = ''decimal'', fld_reference = None\<rparr>),
            (''owner'', \<lparr>fld_type = ''uuid'',
                          fld_reference = Some \<lparr>ref_entity = ''constructor'', ref_field = None\<rparr>\<rparr>)])]"

definition journalRefObject :: json where
  "journalRefObject =
     objectWith prodProductObject
       [(''JournalEntry'', entityObject [(''id'', JObject [(''type'', JString ''uuid'')])]),
        (''JournalLine'', entityObject
           [(''amount'', JObject [(''type'', JString ''decimal'')]),
            (''owner'', JObject [(''type'', JString ''uuid''),
                                 (''reference'', JObject [(''entity'', JString ''constructor'')])])])]"

text \<open>
  Claim C8, at an input where the code leaves it. The spec object is \<open>journalRefObject\<close>,
  with the typed reading \<open>journalRefSpec\<close>. It has the entities
  \<^verbatim>\<open>JournalEntry\<close>, not flagged \<^verbatim>\<open>immutable\<close>, and \<^verbatim>\<open>JournalLine\<close>, without debit and
  credit fields, and \<^verbatim>\<open>product.profile\<close> is \<^verbatim>\<open>prod\<close>: \<^verbatim>\<open>checkInvariants\<close> finds the two
  \<^verbatim>\<open>invariant_violation\<close> errors. A field of \<^verbatim>\<open>JournalLine\<close> has the \<^verbatim>\<open>reference.entity\<close>
  \<^verbatim>\<open>constructor\<close>, so \<^verbatim>\<open>validateEntityReferences\<close> raises a \<^verbatim>\<open>TypeError\<close> before
  \<^verbatim>\<open>checkInvariants\<close> is reached, and \<^verbatim>\<open>link\<close> yields no error list at all. For the specs on
  which \<^verbatim>\<open>link\<close> returns, the two errors are in its result
  (\<open>journal_invariant_violations\<close>).
\<close>

theorem link_journal_spec_raises:
  "read_Spec journalRefObject = Some journalRefSpec
   \<and> map (\<lambda>(name, e). (name, ent_immutable e, map fst (ent_fields e))) (entities journalRefSpec)
     = [(''JournalEntry'', None, [''id'']), (''JournalLine'', None, [''amount'', ''owner''])]
   \<and> prod_profile (product journalRefSpec) = Prod
   \<and> map le_type (checkInvariants journalRefSpec) = [invariant_violation, invariant_violation]
   \<and> link now journalRefObject journalRefSpec = Inl TypeError"
proof -
  have "read_Spec journalRefObject = Some journalRefSpec"
    by (simp add: read_defs journalRefObject_def object_examples journalRefSpec_def spec_examples)
  moreover have
    "map (\<lambda>(name, e). (name, ent_immutable e, map fst (ent_fields e))) (entities journalRefSpec)
       = [(''JournalEntry'', None, [''id'']), (''JournalLine'', None, [''amount'', ''owner''])]
     \<and> prod_profile (product journalRefSpec) = Prod
     \<and> map le_type (checkInvariants journalRefSpec) = [invariant_violation, invariant_violation]
     \<and> link now journalRefObject journalRefSpec = Inl TypeError"
    by (simp add: link_defs spec_examples journalRefSpec_def)
  ultimately show ?thesis by simp
qed

theorem link_journal_spec_raises_witness:
  "link ''2024-01-01T00:00:00.000Z'' journalRefObject journalRefSpec = Inl TypeError"
  using link_journal_spec_raises[of "''2024-01-01T00:00:00.000Z''"] by simp

subsection \<open>The content hash\<close>

definition link_hash :: "string \<Rightarrow> json \<Rightarrow> Spec \<Rightarrow> string option" where
  "link_hash now obj spec =
     (case link now obj spec of
        Inl e \<Rightarrow> None
      | Inr r \<Rightarrow> map_option (\<lambda>b. meta_hash (bundle_meta b)) (lr_bundle r))"

lemma read_objectAB: "read_Spec objectAB = Some specAB"
  by (simp add: read_defs objectAB_def object_examples specAB_def spec_examples)

lemma read_objectBA: "read_Spec objectBA = Some specBA"
  by (simp add: read_defs objectBA_def object_examples specBA_def spec_examples)

lemma same_content_objectAB_objectBA: "same_content objectAB objectBA \<and> objectAB \<noteq> objectBA"
  by (simp add: objectAB_def objectBA_def object_examples)

lemma link_objectAB:
  "link now objectAB specAB =
     Inr \<lparr>lr_valid = True, lr_errors = [], lr_warnings = checkUnused specAB,
          lr_bundle = Some \<lparr>bundle_spec = objectAB,
            bundle_meta = \<lparr>meta_version = ''1'', meta_generated_at = now,
                            meta_hash = computeHash objectAB\<rparr>\<rparr>\<rparr>"
  unfolding link_def
  by (simp add: validateEntityReferences_def entityErrors_def fieldErrors_def
        validateActionReferences_def validateFlowReferences_def validatePolicyReferences_def
        validateUiReferences_def validateJobReferences_def checkInvariants_def first_entity_def
        or_empty_def spec_examples specAB_def)

lemma link_objectBA:
  "link now objectBA specBA =
     Inr \<lparr>lr_valid = True, lr_errors = [], lr_warnings = checkUnused specBA,
          lr_bundle = Some \<lparr>bundle_spec = objectBA,
            bundle_meta = \<lparr>meta_version = ''1'', meta_generated_at = now,
                            meta_hash = computeHash objectBA\<rparr>\<rparr>\<rparr>"
  unfolding link_def
  by (simp add: validateEntityReferences_def entityErrors_def fieldErrors_def
        validateActionReferences_def validateFlowReferences_def validatePolicyReferences_def
        validateUiReferences_def validateJobReferences_def checkInvariants_def first_entity_def
        or_empty_def spec_examples specBA_def)

text \<open>The two serializations differ where the entities are listed.\<close>

lemma stringify_objectAB:
  "JSON_stringify objectAB =
     ''{'' @ [CHR 0x22] @ ''product'' @ [CHR 0x22] @ '':{'' @ [CHR 0x22] @ ''name''
     @ [CHR 0x22] @ '':'' @ [CHR 0x22] @ ''p'' @ [CHR 0x22] @ '','' @ [CHR 0x22]
     @ ''version'' @ [CHR 0x22] @ '':'' @ [CHR 0x22] @ ''1'' @ [CHR 0x22] @ '',''
     @ [CHR 0x22] @ ''tenancy'' @ [CHR 0x22] @ '':{'' @ [CHR 0x22] @ ''mode''
     @ [CHR 0x22] @ '':'' @ [CHR 0x22] @ ''single'' @ [CHR 0x22] @ '','' @ [CHR 0x22]
     @ ''isolation'' @ [CHR 0x22] @ '':'' @ [CHR 0x22] @ ''row'' @ [CHR 0x22] @ ''},''
     @ [CHR 0x22] @ ''profile'' @ [CHR 0x22] @ '':'' @ [CHR 0x22] @ ''dev'' @ [CHR 0x22]
     @ ''},'' @ [CHR 0x22] @ ''entities'' @ [CHR 0x22] @ '':{'' @ [CHR 0x22] @ ''A''
     @ [CHR 0x22] @ '':{'' @ [CHR 0x22] @ ''fields'' @ [CHR 0x22] @ '':{}},''
     @ [CHR 0x22] @ ''B'' @ [CHR 0x22] @ '':{'' @ [CHR 0x22] @ ''fields'' @ [CHR 0x22]
     @ '':{}}},'' @ [CHR 0x22] @ ''actions'' @ [CHR 0x22] @ '':{},'' @ [CHR 0x22]
     @ ''flows'' @ [CHR 0x22] @ '':{},'' @ [CHR 0x22] @ ''policies'' @ [CHR 0x22]
     @ '':{},'' @ [CHR 0x22] @ ''ui'' @ [CHR 0x22] @ '':{},'' @ [CHR 0x22] @ ''metrics''
     @ [CHR 0x22] @ '':{},'' @ [CHR 0x22] @ ''jobs'' @ [CHR 0x22] @ '':{}}''"
  by (simp add: objectAB_def object_examples quote_def escape_char_def)

lemma stringify_objectBA:
  "JSON_stringify objectBA =
     ''{'' @ [CHR 0x22] @ ''product'' @ [CHR 0x22] @ '':{'' @ [CHR 0x22] @ ''name''
     @ [CHR 0x22] @ '':'' @ [CHR 0x22] @ ''p'' @ [CHR 0x22] @ '','' @ [CHR 0x22]
     @ ''version'' @ [CHR 0x22] @ '':'' @ [CHR 0x22] @ ''1'' @ [CHR 0x22] @ '',''
     @ [CHR 0x22] @ ''tenancy'' @ [CHR 0x22] @ '':{'' @ [CHR 0x22] @ ''mode''
     @ [CHR 0x22] @ '':'' @ [CHR 0x22] @ ''single'' @ [CHR 0x22] @ '','' @ [CHR 0x22]
     @ ''isolation'' @ [CHR 0x22] @ '':'' @ [CHR 0x22] @ ''row'' @ [CHR 0x22] @ ''},''
     @ [CHR 0x22] @ ''profile'' @ [CHR 0x22] @ '':'' @ [CHR 0x22] @ ''dev'' @ [CHR 0x22]
     @ ''},'' @ [CHR 0x22] @ ''entities'' @ [CHR 0x22] @ '':{'' @ [CHR 0x22] @ ''B''
     @ [CHR 0x22] @ '':{'' @ [CHR 0x22] @ ''fields'' @ [CHR 0x22] @ '':{}},''
     @ [CHR 0x22] @ ''A'' @ [CHR 0x22] @ '':{'' @ [CHR 0x22] @ ''fields'' @ [CHR 0x22]
     @ '':{}}},'' @ [CHR 0x22] @ ''actions'' @ [CHR 0x22] @ '':{},'' @ [CHR 0x22]
     @ ''flows'' @ [CHR 0x22] @ '':{},'' @ [CHR 0x22] @ ''policies'' @ [CHR 0x22]
     @ '':{},'' @ [CHR 0x22] @ ''ui'' @ [CHR 0x22] @ '':{},'' @ [CHR 0x22] @ ''metrics''
     @ [CHR 0x22] @ '':{},'' @ [CHR 0x22] @ ''jobs'' @ [CHR 0x22] @ '':{}}''"
  by (simp add: objectBA_def object_examples quote_def escape_char_def)

lemma computeHash_objectAB: "computeHash objectAB = ''85fe227d4e82a4e4''"
  unfolding computeHash_def stringify_objectAB by (simp add: sha_eval)

lemma computeHash_objectBA: "computeHash objectBA = ''914c4f735338250e''"
  unfolding computeHash_def stringify_objectBA by (simp add: sha_eval)

text \<open>
  Claim C1, as amended. \<^verbatim>\<open>computeHash\<close> digests \<^verbatim>\<open>JSON.stringify(spec)\<close>, which writes
  every own property of every object of the spec in the order of its keys; nothing sorts
  them. Two spec objects with the same serialization, in particular one object linked
  twice at different times, get bundles with the same \<^verbatim>\<open>_meta.hash\<close>: the first 16
  hexadecimal digits of the SHA-256 digest of that serialization.
\<close>

theorem hash_of_serialization:
  assumes "link t1 o1 s1 = Inr r1" "link t2 o2 s2 = Inr r2" "lr_valid r1" "lr_valid r2"
    and "JSON_stringify o1 = JSON_stringify o2"
  shows "\<exists>b1 b2. lr_bundle r1 = Some b1 \<and> lr_bundle r2 = Some b2
           \<and> meta_hash (bundle_meta b1) = meta_hash (bundle_meta b2)
           \<and> meta_hash (bundle_meta b1) = take 16 (sha256_hex (JSON_stringify o1))"
  using assms
  by (auto simp: link_def Let_def computeHash_def split: sum.splits if_splits)

theorem hash_of_serialization_witness:
  "read_Spec objectAB = Some specAB
   \<and> (\<exists>r1 r2 b1 b2.
        link ''2024-01-01T00:00:00.000Z'' objectAB specAB = Inr r1
      \<and> link ''2024-06-30T12:00:00.000Z'' objectAB specAB = Inr r2
      \<and> lr_valid r1 \<and> lr_valid r2
      \<and> lr_bundle r1 = Some b1 \<and> lr_bundle r2 = Some b2
      \<and> meta_generated_at (bundle_meta b1) \<noteq> meta_generated_at (bundle_meta b2)
      \<and> meta_hash (bundle_meta b1) = ''85fe227d4e82a4e4''
      \<and> meta_hash (bundle_meta b2) = ''85fe227d4e82a4e4'')"
proof -
  let ?t1 = "''2024-01-01T00:00:00.000Z''" and ?t2 = "''2024-06-30T12:00:00.000Z''"
  obtain r1 where r1: "link ?t1 objectAB specAB = Inr r1" "lr_valid r1"
      "\<forall>b. lr_bundle r1 = Some b \<longrightarrow> meta_generated_at (bundle_meta b) = ?t1"
    by (simp add: link_objectAB)
  obtain r2 where r2: "link ?t2 objectAB specAB = Inr r2" "lr_valid r2"
      "\<forall>b. lr_bundle r2 = Some b \<longrightarrow> meta_generated_at (bundle_meta b) = ?t2"
    by (simp add: link_objectAB)
  from hash_of_serialization[OF r1(1) r2(1) r1(2) r2(2) refl]
  obtain b1 b2 where b: "lr_bundle r1 = Some b1" "lr_bundle r2 = Some b2"
      "meta_hash (bundle_meta b1) = meta_hash (bundle_meta b2)"
      "meta_hash (bundle_meta b1) = take 16 (sha256_hex (JSON_stringify objectAB))"
    by blast
  from b(4) have h1: "meta_hash (bundle_meta b1) = ''85fe227d4e82a4e4''"
    using computeHash_objectAB by (simp add: computeHash_def)
  with b(3) have h2: "meta_hash (bundle_meta b2) = ''85fe227d4e82a4e4''" by simp
  from r1(3) r2(3) b have "meta_generated_at (bundle_meta b1) \<noteq> meta_generated_at (bundle_meta b2)"
    by simp
  with r1 r2 b h1 h2 read_objectAB show ?thesis by blast
qed

theorem hash_depends_on_key_order_counterexample:
  "same_content objectAB objectBA \<and> objectAB \<noteq> objectBA
   \<and> read_Spec objectAB = Some specAB \<and> read_Spec objectBA = Some specBA
   \<and> map_of (entities specBA) = map_of (entities specAB)
   \<and> link_hash ''2024-01-01T00:00:00.000Z'' objectAB specAB = Some ''85fe227d4e82a4e4''
   \<and> link_hash ''2024-01-01T00:00:00.000Z'' objectBA specBA = Some ''914c4f735338250e''"
proof -
  have 2: "map_of (entities specBA) = map_of (entities specAB)"
    by (rule ext) (simp add: specAB_def specBA_def specWith_def)
  have 3: "link_hash ''2024-01-01T00:00:00.000Z'' objectAB specAB = Some ''85fe227d4e82a4e4''"
    by (simp add: link_hash_def link_objectAB computeHash_objectAB)
  have 4: "link_hash ''2024-01-01T00:00:00.000Z'' objectBA specBA = Some ''914c4f735338250e''"
    by (simp add: link_hash_def link_objectBA computeHash_objectBA)
  from same_content_objectAB_objectBA read_objectAB read_objectBA 2 3 4 show ?thesis by blast
qed

section \<open>Properties of the spec validator\<close>

text \<open>
  Claim C9. The effective profile is the \<^verbatim>\<open>profile\<close> option, or else \<^verbatim>\<open>product.profile\<close>;
  the profile configuration is the block that \<^verbatim>\<open>product.profiles\<close> has for it, if any.
  When the effective profile is \<^verbatim>\<open>prod\<close>, or there is such a block, and the block does not
  set \<^verbatim>\<open>require_idempotency\<close> to \<^verbatim>\<open>false\<close>, the errors of \<^verbatim>\<open>validate\<close> are the schema
  errors followed by one error at \<^verbatim>\<open>actions.<name>\<close> for every action of type \<^verbatim>\<open>command\<close>
  that is not idempotent, in the order of the actions; and the result is valid exactly
  when there is no error.
\<close>

theorem production_idempotency_errors:
  assumes profile:
      "profile = (case opt_profile options of Some p \<Rightarrow> p | None \<Rightarrow> prod_profile (product spec))"
    and config:
      "config = (case prod_profiles (product spec) of
                   None \<Rightarrow> None
                 | Some blocks \<Rightarrow>
                     (case profile of Dev \<Rightarrow> profiles_dev blocks | Prod \<Rightarrow> profiles_prod blocks))"
    and production: "profile = Prod \<or> config \<noteq> None"
    and required: "\<forall>c. config = Some c \<longrightarrow> require_idempotency c \<noteq> Some False"
  shows "vr_errors (validate getSchema spec options)
           = schemaErrors getSchema spec
             @ map (\<lambda>(name, action).
                 \<lparr>ve_path = ''actions.'' @ name,
                  ve_message = ''Commands must be idempotent in production profile'',
                  ve_schemaPath = None\<rparr>)
               (filter (\<lambda>(name, action). act_type action = Command
                                          \<and> act_idempotent action \<noteq> Some True)
                  (actions spec))
         \<and> vr_valid (validate getSchema spec options)
             = (vr_errors (validate getSchema spec options) = [])"
proof -
  have p: "effectiveProfile options spec = profile"
    by (simp add: effectiveProfile_def profile)
  have c: "profileConfigOf spec profile = config"
    by (simp add: profileConfigOf_def config)
  have assms1: "effectiveProfile options spec = Prod
           \<or> profileConfigOf spec (effectiveProfile options spec) \<noteq> None"
    using production unfolding p c .
  have assms2: "\<forall>c. profileConfigOf spec (effectiveProfile options spec) = Some c
           \<longrightarrow> require_idempotency c \<noteq> Some False"
    using required unfolding p c .
  let ?cfg = "case profileConfigOf spec (effectiveProfile options spec) of
                None \<Rightarrow> emptyProfileConfig | Some c \<Rightarrow> c"
  have req: "require_idempotency ?cfg \<noteq> Some False"
    using assms2 by (auto simp: emptyProfileConfig_def split: option.splits)
  have shape: "\<And>xs :: (string \<times> ActionSpec) list.
      concat (map (\<lambda>(name, action).
             if act_type action = Command \<and> act_idempotent action \<noteq> Some True
             then [\<lparr>ve_path = ''actions.'' @ name,
                    ve_message = ''Commands must be idempotent in production profile'',
                    ve_schemaPath = None\<rparr>]
             else []) xs)
      = map (\<lambda>(name, action).
                 \<lparr>ve_path = ''actions.'' @ name,
                  ve_message = ''Commands must be idempotent in production profile'',
                  ve_schemaPath = None\<rparr>)
          (filter (\<lambda>(name, action). act_type action = Command
                                     \<and> act_idempotent action \<noteq> Some True) xs)"
  proof -
    fix xs :: "(string \<times> ActionSpec) list"
    show "?thesis xs" by (induction xs) (simp_all add: case_prod_beta)
  qed
  have "idempotencyErrors spec ?cfg
      = map (\<lambda>(name, action).
                 \<lparr>ve_path = ''actions.'' @ name,
                  ve_message = ''Commands must be idempotent in production profile'',
                  ve_schemaPath = None\<rparr>)
          (filter (\<lambda>(name, action). act_type action = Command
                                     \<and> act_idempotent action \<noteq> Some True) (actions spec))"
    using req by (simp add: idempotencyErrors_def shape)
  then show ?thesis
    using assms1 by (simp add: validate_def Let_def)
qed

definition commandAction :: "bool option \<Rightarrow> ActionSpec" where
  "commandAction idem =
     \<lparr>act_type = Command, act_description = None, act_entity = None, act_idempotent = idem,
      act_auth = None, act_rate_limit = None, act_triggers_job = None\<rparr>"

definition queryAction :: ActionSpec where
  "queryAction = (commandAction None)\<lparr>act_type := Query\<rparr>"

definition prodSpec :: Spec where
  "prodSpec =
     (specWith (baseProduct\<lparr>prod_profile := Prod\<rparr>) [])
       \<lparr>actions := [(''pay'', commandAction None), (''list'', queryAction),
                    (''post'', commandAction (Some True)), (''void'', commandAction (Some False))]\<rparr>"

definition noOptions :: ValidateOptions where
  "noOptions = \<lparr>opt_strict = None, opt_profile = None\<rparr>"

definition devBlockSpec :: Spec where
  "devBlockSpec =
     (specWith (baseProduct\<lparr>prod_profiles :=
                  Some \<lparr>profiles_dev = Some \<lparr>require_idempotency = None,
                                               require_rate_limits = Some False,
                                               strict_tenancy = None\<rparr>,
                        profiles_prod = None\<rparr>\<rparr>) [])
       \<lparr>actions := [(''pay'', commandAction None), (''list'', queryAction)]\<rparr>"

definition productSchemaOnly :: schemas where
  "productSchemaOnly name =
     (if name = ''product''
      then Some (\<lambda>part. [\<lparr>ajv_instancePath = ''/name'', ajv_message = None,
                             ajv_schemaPath = ''#/properties/name/minLength''\<rparr>])
      else None)"

theorem production_idempotency_errors_witness:
  "opt_profile noOptions = None \<and> prod_profile (product prodSpec) = Prod
   \<and> prod_profiles (product prodSpec) = None
   \<and> vr_errors (validate productSchemaOnly prodSpec noOptions)
       = [\<lparr>ve_path = ''name'', ve_message = ''Validation failed'',
           ve_schemaPath = Some ''#/properties/name/minLength''\<rparr>,
          \<lparr>ve_path = ''actions.pay'',
           ve_message = ''Commands must be idempotent in production profile'',
           ve_schemaPath = None\<rparr>,
          \<lparr>ve_path = ''actions.void'',
           ve_message = ''Commands must be idempotent in production profile'',
           ve_schemaPath = None\<rparr>]
   \<and> \<not> vr_valid (validate productSchemaOnly prodSpec noOptions)
   \<and> prod_profile (product devBlockSpec) = Dev
   \<and> map_option profiles_dev (prod_profiles (product devBlockSpec))
       = Some (Some \<lparr>require_idempotency = None, require_rate_limits = Some False,
                      strict_tenancy = None\<rparr>)
   \<and> vr_errors (validate (\<lambda>name. None) devBlockSpec noOptions)
       = [\<lparr>ve_path = ''actions.pay'',
           ve_message = ''Commands must be idempotent in production profile'',
           ve_schemaPath = None\<rparr>]
   \<and> \<not> vr_valid (validate (\<lambda>name. None) devBlockSpec noOptions)"
proof -
  have o: "opt_profile noOptions = None" by (simp add: noOptions_def)
  have p: "prod_profile (product prodSpec) = Prod" "prod_profiles (product prodSpec) = None"
    by (simp_all add: prodSpec_def spec_examples)
  have s: "schemaErrors productSchemaOnly prodSpec
             = [\<lparr>ve_path = ''name'', ve_message = ''Validation failed'',
                 ve_schemaPath = Some ''#/properties/name/minLength''\<rparr>]"
    by (simp add: schemaErrors_def validateSchema_def productSchemaOnly_def prodSpec_def
          spec_examples or_default_def)
  have a: "actions prodSpec
             = [(''pay'', commandAction None), (''list'', queryAction),
                (''post'', commandAction (Some True)), (''void'', commandAction (Some False))]"
    by (simp add: prodSpec_def spec_examples)
  have 1: "vr_errors (validate productSchemaOnly prodSpec noOptions)
       = [\<lparr>ve_path = ''name'', ve_message = ''Validation failed'',
           ve_schemaPath = Some ''#/properties/name/minLength''\<rparr>,
          \<lparr>ve_path = ''actions.pay'',
           ve_message = ''Commands must be idempotent in production profile'',
           ve_schemaPath = None\<rparr>,
          \<lparr>ve_path = ''actions.void'',
           ve_message = ''Commands must be idempotent in production profile'',
           ve_schemaPath = None\<rparr>]
     \<and> \<not> vr_valid (validate productSchemaOnly prodSpec noOptions)"
    using production_idempotency_errors[where profile=Prod and options=noOptions and spec=prodSpec
        and config=None and getSchema=productSchemaOnly] o p
    by (simp add: s a commandAction_def queryAction_def)
  let ?block = "\<lparr>require_idempotency = None, require_rate_limits = Some False,
                 strict_tenancy = None\<rparr>"
  have d: "prod_profile (product devBlockSpec) = Dev"
      "prod_profiles (product devBlockSpec) = Some \<lparr>profiles_dev = Some ?block, profiles_prod = None\<rparr>"
    by (simp_all add: devBlockSpec_def spec_examples)
  have sd: "schemaErrors (\<lambda>name. None) devBlockSpec = []"
    by (simp add: schemaErrors_def validateSchema_def devBlockSpec_def spec_examples)
  have ad: "actions devBlockSpec = [(''pay'', commandAction None), (''list'', queryAction)]"
    by (simp add: devBlockSpec_def spec_examples)
  have 2: "vr_errors (validate (\<lambda>name. None) devBlockSpec noOptions)
       = [\<lparr>ve_path = ''actions.pay'',
           ve_message = ''Commands must be idempotent in production profile'',
           ve_schemaPath = None\<rparr>]
     \<and> \<not> vr_valid (validate (\<lambda>name. None) devBlockSpec noOptions)"
    using production_idempotency_errors[where profile=Dev and options=noOptions
        and spec=devBlockSpec and config="Some ?block" and getSchema="\<lambda>name. None"] o d
    by (simp add: sd ad commandAction_def queryAction_def)
  from o p 1 d 2 show ?thesis by simp
qed

end
